theory Spec2Isabelle
  imports Complex_Main "HOL-Library.Multiset"
begin

section \<open>JavaScript values\<close>

text \<open>
  The route handlers work on values that come out of \<^verbatim>\<open>JSON.parse\<close> and
  \<^verbatim>\<open>response.json()\<close>. A value is one of the JSON shapes, or \<^verbatim>\<open>undefined\<close>.
  A finite number is \<open>JNum r\<close> with the rational \<open>r\<close> that the double stands for (a
  rational that is no double is a value no program meets); a number literal too large
  for a double parses to one of the two infinities (\<^verbatim>\<open>JSON.parse("1e400")\<close> is
  \<^verbatim>\<open>Infinity\<close>); JSON has no NaN. An object is the list of its
  own properties in the order the runtime enumerates them. \<open>JNative\<close> is an object of the
  runtime that is no JSON data, a built-in function or a prototype object, by its name:
  the parsers never return one, but a property read can reach one through the prototype
  chain.
\<close>

datatype jsval =
    JUndefined
  | JNull
  | JBool bool
  | JNum rat
  | JInfinity
  | JNegInfinity
  | JStr string
  | JArr "jsval list"
  | JObj "(string \<times> jsval) list"
  | JNative string

datatype js_error = TypeError | SyntaxError | ServiceError

text \<open>Truthiness, as \<^verbatim>\<open>!x\<close>, \<^verbatim>\<open>x || y\<close> and \<^verbatim>\<open>x && y\<close> test it.\<close>

fun truthy :: "jsval \<Rightarrow> bool" where
  "truthy JUndefined = False"
| "truthy JNull = False"
| "truthy (JBool b) = b"
| "truthy (JNum r) = (r \<noteq> 0)"
| "truthy JInfinity = True"
| "truthy JNegInfinity = True"
| "truthy (JStr s) = (s \<noteq> [])"
| "truthy (JArr xs) = True"
| "truthy (JObj kvs) = True"
| "truthy (JNative n) = True"

definition orElse :: "jsval \<Rightarrow> jsval \<Rightarrow> jsval" where
  "orElse a b = (if truthy a then a else b)"

text \<open>Array indices are the canonical decimal strings: no sign, no leading zero.\<close>

definition digitVal :: "char \<Rightarrow> nat option" where
  "digitVal c =
     (let code = (of_char c :: nat)
      in if 48 \<le> code \<and> code \<le> 57 then Some (code - 48) else None)"

fun digitsVal :: "nat \<Rightarrow> string \<Rightarrow> nat option" where
  "digitsVal acc [] = Some acc"
| "digitsVal acc (c # cs) =
     (case digitVal c of None \<Rightarrow> None | Some d \<Rightarrow> digitsVal (10 * acc + d) cs)"

definition arrayIndex :: "string \<Rightarrow> nat option" where
  "arrayIndex k =
     (case k of
        [] \<Rightarrow> None
      | c # cs \<Rightarrow> if c = CHR ''0'' \<and> cs \<noteq> [] then None else digitsVal 0 k)"

text \<open>
  The property read \<^verbatim>\<open>v.k\<close> at a key that no built-in prototype defines, which is the
  case of every key the handlers name (\<^verbatim>\<open>marketId\<close>, \<^verbatim>\<open>result\<close>, \<^verbatim>\<open>confidence\<close>,
  \<^verbatim>\<open>teams\<close> and so on; \<^verbatim>\<open>length\<close> and the indices are own properties of arrays and
  strings). Reading a property of \<^verbatim>\<open>null\<close> or \<^verbatim>\<open>undefined\<close> throws a TypeError; on
  every other value the read returns the own property, or \<^verbatim>\<open>undefined\<close> when there is
  none. Own properties are the keys of an object, the indices and \<^verbatim>\<open>length\<close> of an
  array, the indices and \<^verbatim>\<open>length\<close> of a string. The read at a key taken from data,
  which may name an inherited member, is \<open>readMember\<close> below.
\<close>

fun getProp :: "jsval \<Rightarrow> string \<Rightarrow> js_error + jsval" where
  "getProp JUndefined k = Inl TypeError"
| "getProp JNull k = Inl TypeError"
| "getProp (JBool b) k = Inr JUndefined"
| "getProp (JNum r) k = Inr JUndefined"
| "getProp JInfinity k = Inr JUndefined"
| "getProp JNegInfinity k = Inr JUndefined"
| "getProp (JStr s) k =
     (if k = ''length'' then Inr (JNum (of_nat (length s)))
      else case arrayIndex k of
             None \<Rightarrow> Inr JUndefined
           | Some i \<Rightarrow> if i < length s then Inr (JStr [s ! i]) else Inr JUndefined)"
| "getProp (JArr xs) k =
     (if k = ''length'' then Inr (JNum (of_nat (length xs)))
      else case arrayIndex k of
             None \<Rightarrow> Inr JUndefined
           | Some i \<Rightarrow> if i < length xs then Inr (xs ! i) else Inr JUndefined)"
| "getProp (JObj kvs) k =
     (case map_of kvs k of None \<Rightarrow> Inr JUndefined | Some v \<Rightarrow> Inr v)"
| "getProp (JNative n) k = Inr JUndefined"

text \<open>Whether \<open>k\<close> is an own property of the value.\<close>

fun hasOwn :: "jsval \<Rightarrow> string \<Rightarrow> bool" where
  "hasOwn (JStr s) k =
     (k = ''length'' \<or> (case arrayIndex k of None \<Rightarrow> False | Some i \<Rightarrow> i < length s))"
| "hasOwn (JArr xs) k =
     (k = ''length'' \<or> (case arrayIndex k of None \<Rightarrow> False | Some i \<Rightarrow> i < length xs))"
| "hasOwn (JObj kvs) k = (map_of kvs k \<noteq> None)"
| "hasOwn v k = False"

text \<open>
  What the JavaScript runtime supplies and this theory does not define: \<^verbatim>\<open>parseInt\<close>
  (\<open>None\<close> is NaN), \<^verbatim>\<open>toLowerCase\<close>, the relational and loose-equality operators on
  arbitrary values, and the built-in prototypes. \<open>inherited v k\<close> is what the read
  \<^verbatim>\<open>v[k]\<close> gives when \<open>k\<close> is no own property of \<open>v\<close>: \<^verbatim>\<open>undefined\<close> when no prototype
  of \<open>v\<close> has the member, else the member (\<^verbatim>\<open>({}).constructor\<close> is the native
  \<^verbatim>\<open>Object\<close>, whose \<^verbatim>\<open>name\<close> is the string \<^verbatim>\<open>"Object"\<close>), or the throw of an inherited
  accessor. Every member of a native object is read this way.
\<close>

record js_runtime =
  parseInt :: "jsval \<Rightarrow> int option"
  toLowerCase :: "string \<Rightarrow> string"
  jsGreater :: "jsval \<Rightarrow> jsval \<Rightarrow> bool"
  jsLess :: "jsval \<Rightarrow> jsval \<Rightarrow> bool"
  jsGreaterEq :: "jsval \<Rightarrow> jsval \<Rightarrow> bool"
  jsLessEq :: "jsval \<Rightarrow> jsval \<Rightarrow> bool"
  jsLooseEq :: "jsval \<Rightarrow> jsval \<Rightarrow> bool"
  inherited :: "jsval \<Rightarrow> string \<Rightarrow> js_error + jsval"

text \<open>
  The property read \<^verbatim>\<open>v[k]\<close> at any key: a TypeError on \<^verbatim>\<open>null\<close> and \<^verbatim>\<open>undefined\<close>,
  the own property when there is one, else what the prototype chain gives.
\<close>

definition readMember :: "js_runtime \<Rightarrow> jsval \<Rightarrow> string \<Rightarrow> js_error + jsval" where
  "readMember rt v k =
     (if v = JNull \<or> v = JUndefined then Inl TypeError
      else if hasOwn v k then getProp v k
      else inherited rt v k)"

text \<open>Optional chaining \<^verbatim>\<open>v?.k\<close>: no read, and no throw, on \<^verbatim>\<open>null\<close> and \<^verbatim>\<open>undefined\<close>.\<close>

definition optProp :: "jsval \<Rightarrow> string \<Rightarrow> jsval" where
  "optProp v k = (case getProp v k of Inl e \<Rightarrow> JUndefined | Inr x \<Rightarrow> x)"

text \<open>\<^verbatim>\<open>String.prototype.includes\<close>: the substring test.\<close>

fun startsWith :: "string \<Rightarrow> string \<Rightarrow> bool" where
  "startsWith s [] = True"
| "startsWith [] (p # ps) = False"
| "startsWith (c # cs) (p # ps) = (c = p \<and> startsWith cs ps)"

fun strIncludes :: "string \<Rightarrow> string \<Rightarrow> bool" where
  "strIncludes [] sub = (sub = [])"
| "strIncludes (c # cs) sub = (startsWith (c # cs) sub \<or> strIncludes cs sub)"

text \<open>\<^verbatim>\<open>Number.isInteger\<close>: a finite number with no fractional part.\<close>

fun numberIsInteger :: "jsval \<Rightarrow> bool" where
  "numberIsInteger (JNum r) = (r = of_int \<lfloor>r\<rfloor>)"
| "numberIsInteger v = False"

fun integerValue :: "jsval \<Rightarrow> int" where
  "integerValue (JNum r) = \<lfloor>r\<rfloor>"
| "integerValue v = 0"

section \<open>JavaScript numbers\<close>

text \<open>
  The result of an arithmetic operation is a double: the exact result rounded to 53
  significant bits, ties to even, or an infinity when the rounded magnitude reaches
  \<open>2\<^sup>1\<^sup>0\<^sup>2\<^sup>4\<close>. The operations below never meet NaN, which has no constructor here.
\<close>

datatype 'a extended = Finite 'a | PosInfinity | NegInfinity

text \<open>The number of binary digits of a natural number.\<close>

fun bitLength :: "nat \<Rightarrow> nat" where
  "bitLength n = (if n = 0 then 0 else Suc (bitLength (n div 2)))"

declare bitLength.simps [simp del]

definition pow2 :: "int \<Rightarrow> rat" where
  "pow2 k = (if 0 \<le> k then 2 ^ nat k else 1 / 2 ^ nat (- k))"

text \<open>The binary exponent of a positive rational \<open>a\<close>: the \<open>e\<close> with \<open>2\<^sup>e \<le> a < 2\<^sup>e\<^sup>+\<^sup>1\<close>.\<close>

definition exponentOf :: "rat \<Rightarrow> int" where
  "exponentOf a =
     (if 1 \<le> a then int (bitLength (nat \<lfloor>a\<rfloor>)) - 1
      else (let l = int (bitLength (nat \<lfloor>1 / a\<rfloor>))
            in if a = pow2 (1 - l) then 1 - l else - l))"

text \<open>The nearest integer, and the even one of the two when both are as near.\<close>

definition roundHalfEven :: "rat \<Rightarrow> int" where
  "roundHalfEven y =
     (let f = \<lfloor>y\<rfloor>; d = y - of_int f
      in if d < 1 / 2 then f else if 1 / 2 < d then f + 1 else if even f then f else f + 1)"

text \<open>
  The double nearest to a rational: the spacing of the doubles around \<open>x\<close> is \<open>2\<^sup>k\<close>
  with \<open>k\<close> the exponent of \<open>x\<close> less 52, and \<open>-1074\<close> for the subnormal numbers.
\<close>

definition roundDouble :: "rat \<Rightarrow> rat extended" where
  "roundDouble x =
     (if x = 0 then Finite 0
      else
        (let a = \<bar>x\<bar>;
             k = max (exponentOf a - 52) (- 1074);
             y = of_int (roundHalfEven (a / pow2 k)) * pow2 k
         in if 2 ^ 1024 \<le> y then (if 0 < x then PosInfinity else NegInfinity)
            else Finite (if 0 < x then y else - y)))"

text \<open>\<^verbatim>\<open>total + c\<close> for a finite integer \<open>c\<close>: an infinity absorbs it.\<close>

fun addDouble :: "rat extended \<Rightarrow> int \<Rightarrow> rat extended" where
  "addDouble (Finite t) c = roundDouble (t + of_int c)"
| "addDouble PosInfinity c = PosInfinity"
| "addDouble NegInfinity c = NegInfinity"

text \<open>\<^verbatim>\<open>total / n\<close> for a positive integer \<open>n\<close>.\<close>

fun divDouble :: "rat extended \<Rightarrow> nat \<Rightarrow> rat extended" where
  "divDouble (Finite t) n = roundDouble (t / of_nat n)"
| "divDouble PosInfinity n = PosInfinity"
| "divDouble NegInfinity n = NegInfinity"

text \<open>\<^verbatim>\<open>Math.floor\<close>.\<close>

fun mathFloor :: "rat extended \<Rightarrow> int extended" where
  "mathFloor (Finite r) = Finite \<lfloor>r\<rfloor>"
| "mathFloor PosInfinity = PosInfinity"
| "mathFloor NegInfinity = NegInfinity"

section \<open>Outcomes\<close>

datatype outcome = YES | NO | INCONCLUSIVE

text \<open>\<^verbatim>\<open>["YES", "NO", "INCONCLUSIVE"].includes(v)\<close>: strict equality with one of the three strings.\<close>

definition outcomeOfValue :: "jsval \<Rightarrow> outcome option" where
  "outcomeOfValue v =
     (if v = JStr ''YES'' then Some YES
      else if v = JStr ''NO'' then Some NO
      else if v = JStr ''INCONCLUSIVE'' then Some INCONCLUSIVE
      else None)"

section \<open>The settlement route: judges and consensus\<close>

text \<open>
  One call of the reasoning service, as its caller sees it: the call throws, or the text
  it returns does not parse as JSON after the fences are stripped, or \<^verbatim>\<open>JSON.parse\<close>
  returns the value \<open>p\<close>.
\<close>

datatype llm_reply = ServiceFailure | Unparsable | Parsed jsval

text \<open>
  A result with its confidence. The confidence of one judge is an integer; the one of a
  resolution may also be an infinity, since a sum of doubles can overflow.
\<close>

record 'c vote =
  result :: outcome
  confidence :: 'c

type_synonym judge_vote = "int vote"

type_synonym resolved_vote = "int extended vote"

text \<open>
  The body of the \<^verbatim>\<open>try\<close> block of \<^verbatim>\<open>askGemini\<close>; \<open>Inl\<close> is a throw. The raw
  response that is kept for the audit record plays no part in the vote and is left out.
\<close>

definition askGeminiTry :: "llm_reply \<Rightarrow> js_error + judge_vote" where
  "askGeminiTry reply =
     (case reply of
        ServiceFailure \<Rightarrow> Inl ServiceError
      | Unparsable \<Rightarrow> Inl SyntaxError
      | Parsed p \<Rightarrow>
          (case getProp p ''result'' of
             Inl e \<Rightarrow> Inl e
           | Inr r \<Rightarrow>
               (case getProp p ''confidence'' of
                  Inl e \<Rightarrow> Inl e
                | Inr c \<Rightarrow>
                    Inr \<lparr> result = (case outcomeOfValue r of Some oc \<Rightarrow> oc | None \<Rightarrow> INCONCLUSIVE),
                          confidence = (if numberIsInteger c then integerValue c else 0) \<rparr>)))"

text \<open>
  \<^verbatim>\<open>askGemini(index)\<close> on the reply its call receives: the \<^verbatim>\<open>catch\<close> turns every
  throw into INCONCLUSIVE with confidence 0. The index is only logged.
\<close>

definition askGemini :: "llm_reply \<Rightarrow> judge_vote" where
  "askGemini reply =
     (case askGeminiTry reply of
        Inl e \<Rightarrow> \<lparr> result = INCONCLUSIVE, confidence = 0 \<rparr>
      | Inr v \<Rightarrow> v)"

definition judgeCount :: nat where
  "judgeCount = 5"

text \<open>
  \<^verbatim>\<open>Array.from({ length: judgeCount }, (_, i) => askGemini(i + 1))\<close>, all five awaited;
  \<open>service k\<close> is the reply that the call of judge \<open>k\<close> receives.
\<close>

definition judgeResults :: "(nat \<Rightarrow> llm_reply) \<Rightarrow> judge_vote list" where
  "judgeResults service = map (\<lambda>i. askGemini (service (i + 1))) [0..<judgeCount]"

text \<open>
  The tally object, as the list of its entries in insertion order, which is the order
  \<^verbatim>\<open>Object.entries\<close> walks. \<^verbatim>\<open>tally[k] = (tally[k] || 0) + 1\<close> updates an entry in place
  and appends a key that is not there yet.
\<close>

type_synonym tally = "(outcome \<times> nat) list"

definition initialTally :: tally where
  "initialTally = [(YES, 0), (NO, 0), (INCONCLUSIVE, 0)]"

fun tallyIncr :: "tally \<Rightarrow> outcome \<Rightarrow> tally" where
  "tallyIncr [] k = [(k, 1)]"
| "tallyIncr ((k', c) # t) k =
     (if k' = k then (k', c + 1) # t else (k', c) # tallyIncr t k)"

text \<open>The loop over the results: the tally and \<^verbatim>\<open>totalConfidence\<close>, a double.\<close>

definition tallyVotes :: "judge_vote list \<Rightarrow> tally \<times> rat extended" where
  "tallyVotes results =
     foldl (\<lambda>(t, total) r. (tallyIncr t (result r), addDouble total (confidence r)))
       (initialTally, Finite 0) results"

text \<open>The winner loop: the state is \<open>(winner, maxVotes)\<close>.\<close>

definition winnerStep :: "outcome \<times> nat \<Rightarrow> outcome \<times> nat \<Rightarrow> outcome \<times> nat" where
  "winnerStep st entry =
     (case st of (winner, maxVotes) \<Rightarrow>
        case entry of (res, cnt) \<Rightarrow>
          if cnt > maxVotes then (res, cnt)
          else if cnt = maxVotes then (INCONCLUSIVE, maxVotes)
          else (winner, maxVotes))"

definition determineWinner :: "tally \<Rightarrow> outcome" where
  "determineWinner entries = fst (foldl winnerStep (INCONCLUSIVE, 0) entries)"

text \<open>
  The consortium branch: five judges, the tally, the winner, and
  \<^verbatim>\<open>Math.floor(totalConfidence / judgeCount)\<close>.
\<close>

definition consortium :: "(nat \<Rightarrow> llm_reply) \<Rightarrow> resolved_vote" where
  "consortium service =
     (let results = judgeResults service;
          (t, totalConfidence) = tallyVotes results
      in \<lparr> result = determineWinner t,
           confidence = mathFloor (divDouble totalConfidence judgeCount) \<rparr>)"

text \<open>The votes an option received in a round.\<close>

definition votesFor :: "judge_vote list \<Rightarrow> outcome \<Rightarrow> nat" where
  "votesFor results oc = length (filter (\<lambda>r. result r = oc) results)"

section \<open>The discrete resolution route\<close>

subsection \<open>Oracle specs (\<^verbatim>\<open>oracle-types.ts\<close>)\<close>

datatype oracle_category =
  CRYPTO_PRICE | FOREX_RATE | WEATHER | SPORTS_SCORE | DATE_EVENT | GENERAL_AI

record oracle_source_config =
  name :: string
  endpoint :: string
  params :: "(string \<times> string) list option"
  headers :: "(string \<times> string) list option"

text \<open>
  The stored spec, as the handler reads it. The creation route stores under
  \<^verbatim>\<open>extraction_path\<close> whatever truthy value the classifier returned, so the field is a
  JSON value here and a string only by the declared type.
\<close>

record discrete_oracle_spec =
  category :: oracle_category
  natural_language_summary :: string
  source :: oracle_source_config
  extraction_path :: jsval
  operator :: string
  target_value :: jsval
  resolution_timestamp :: string

datatype oracle_spec = DISCRETE discrete_oracle_spec | CONTIGUOUS string

subsection \<open>\<^verbatim>\<open>extractValue\<close>\<close>

text \<open>\<^verbatim>\<open>path.replace(/^\$\.?/, '')\<close>: a leading dollar sign goes, and the dot after it.\<close>

definition stripRoot :: "string \<Rightarrow> string" where
  "stripRoot path =
     (case path of
        [] \<Rightarrow> []
      | c # cs \<Rightarrow>
          if c = CHR ''$'' then (case cs of [] \<Rightarrow> [] | d # ds \<Rightarrow> if d = CHR ''.'' then ds else cs)
          else path)"

definition isQuote :: "char \<Rightarrow> bool" where
  "isQuote c = (c = CHR 0x27 \<or> c = CHR 0x22)"

text \<open>
  \<^verbatim>\<open>split(/\.|\[['"]?|['"]?\]/)\<close>: the separators are a dot, an opening bracket with the
  quote that may follow it, and a closing bracket with the quote that may precede it.
  \<open>cur\<close> is the piece read since the last separator.
\<close>

fun splitPath :: "string \<Rightarrow> string \<Rightarrow> string list" where
  "splitPath cur [] = [cur]"
| "splitPath cur (c # cs) =
     (if c = CHR ''.'' then cur # splitPath [] cs
      else if c = CHR ''['' then
        (case cs of
           [] \<Rightarrow> cur # splitPath [] cs
         | q # r \<Rightarrow> if isQuote q then cur # splitPath [] r else cur # splitPath [] cs)
      else if isQuote c then
        (case cs of
           [] \<Rightarrow> splitPath (cur @ [c]) cs
         | d # r \<Rightarrow> if d = CHR '']'' then cur # splitPath [] r else splitPath (cur @ [c]) cs)
      else if c = CHR '']'' then cur # splitPath [] cs
      else splitPath (cur @ [c]) cs)"

text \<open>\<^verbatim>\<open>.filter(Boolean)\<close> drops the empty pieces.\<close>

definition pathParts :: "string \<Rightarrow> string list" where
  "pathParts path = filter (\<lambda>part. part \<noteq> []) (splitPath [] (stripRoot path))"

text \<open>The loop of \<^verbatim>\<open>extractValue\<close>; \<open>Inl\<close> is a throw of the property read.\<close>

fun walkParts :: "js_runtime \<Rightarrow> jsval \<Rightarrow> string list \<Rightarrow> js_error + jsval" where
  "walkParts rt current [] = Inr current"
| "walkParts rt current (part # parts) =
     (if current = JNull \<or> current = JUndefined then Inr JUndefined
      else case readMember rt current part of
             Inl e \<Rightarrow> Inl e
           | Inr v \<Rightarrow> walkParts rt v parts)"

text \<open>
  \<^verbatim>\<open>extractValue(data, path)\<close>. The first statement calls \<^verbatim>\<open>path.replace\<close>: on a path
  that is not a string this is a TypeError, since no other JSON value has a method
  \<^verbatim>\<open>replace\<close>.
\<close>

definition extractValue :: "js_runtime \<Rightarrow> jsval \<Rightarrow> jsval \<Rightarrow> js_error + jsval" where
  "extractValue rt data path =
     (case path of
        JStr str \<Rightarrow> walkParts rt data (pathParts str)
      | _ \<Rightarrow> Inl TypeError)"

subsection \<open>The world of one discrete resolution\<close>

text \<open>
  The requests the handler sends: the generic one is \<^verbatim>\<open>new URL(endpoint)\<close> with the
  spec's parameters appended, the others are the fixed templates of the weather and the
  sports source.
\<close>

datatype request =
    GetUrl string "(string \<times> string) list"
  | WeatherCity string
  | SportsTeamSearch string
  | SportsLastEvents jsval

text \<open>
  \<^verbatim>\<open>fetch\<close> throws, or answers with a status that is not ok, or with a body that
  \<^verbatim>\<open>response.json()\<close> parses, or with one on which it throws.
\<close>

datatype fetch_result = FetchThrows | FetchNotOk nat | FetchJson jsval | FetchBadBody

text \<open>
  \<open>requestBody\<close> is \<^verbatim>\<open>await request.json()\<close>; \<open>specDoc\<close> is the read of the stored
  spec with its \<^verbatim>\<open>JSON.parse\<close> (\<open>Inr None\<close>: no document); \<open>validUrl\<close> tells
  whether \<^verbatim>\<open>new URL\<close> accepts a text.
\<close>

record discrete_world =
  requestBody :: "js_error + jsval"
  specDoc :: "js_error + oracle_spec option"
  validUrl :: "string \<Rightarrow> bool"
  fetch :: "request \<Rightarrow> fetch_result"

record discrete_success =
  outcome :: outcome
  confidenceBps :: int
  extractedValue :: jsval
  targetValue :: jsval
  usedOperator :: string
  sourceName :: string
  apiResponse :: jsval

text \<open>
  The JSON answers of the route: a plain error (status), a fallback (status and
  \<^verbatim>\<open>fallbackReason\<close>), or success.
\<close>

datatype discrete_response =
    DiscreteError nat
  | DiscreteFallback nat string
  | DiscreteSuccess discrete_success

subsection \<open>The handler, step by step\<close>

definition lookupParam :: "(string \<times> string) list option \<Rightarrow> string \<Rightarrow> string" where
  "lookupParam ps k = (case ps of None \<Rightarrow> [] | Some kvs \<Rightarrow> (case map_of kvs k of None \<Rightarrow> [] | Some v \<Rightarrow> v))"

text \<open>\<^verbatim>\<open>endpoint.split('/').pop()\<close>: the text after the last slash.\<close>

definition lastSegment :: "string \<Rightarrow> string" where
  "lastSegment s = rev (takeWhile (\<lambda>c. c \<noteq> CHR ''/'') (rev s))"

definition firstNonEmpty :: "string \<Rightarrow> string \<Rightarrow> string \<Rightarrow> string" where
  "firstNonEmpty a b c = (if a \<noteq> [] then a else if b \<noteq> [] then b else c)"

text \<open>
  Step 2, the sports branch: the team search. The result is a throw, an early answer, or
  the last-events request together with \<^verbatim>\<open>sportsTeamData.teamName\<close>.
\<close>

definition sportsLookup ::
  "discrete_world \<Rightarrow> discrete_oracle_spec \<Rightarrow> js_error + (discrete_response + request \<times> jsval)" where
  "sportsLookup w spec =
     (let teamName = firstNonEmpty (lookupParam (params (source spec)) ''team_search'')
                       (lookupParam (params (source spec)) ''t'') ''Lakers''
      in case fetch w (SportsTeamSearch teamName) of
           FetchThrows \<Rightarrow> Inl ServiceError
         | FetchNotOk st \<Rightarrow> Inr (Inl (DiscreteFallback 502 ''SPORTS_TEAM_SEARCH_FAILED''))
         | FetchBadBody \<Rightarrow> Inl SyntaxError
         | FetchJson searchData \<Rightarrow>
             (case getProp searchData ''teams'' of
                Inl e \<Rightarrow> Inl e
              | Inr teams \<Rightarrow>
                  (if \<not> truthy teams then Inr (Inl (DiscreteFallback 404 ''SPORTS_TEAM_NOT_FOUND''))
                   else
                     (case getProp teams ''length'' of
                        Inl e \<Rightarrow> Inl e
                      | Inr len \<Rightarrow>
                          (if len = JNum 0 then Inr (Inl (DiscreteFallback 404 ''SPORTS_TEAM_NOT_FOUND''))
                           else
                             (case getProp teams ''0'' of
                                Inl e \<Rightarrow> Inl e
                              | Inr team \<Rightarrow>
                                  (case getProp team ''idTeam'' of
                                     Inl e \<Rightarrow> Inl e
                                   | Inr teamId \<Rightarrow>
                                       (case getProp team ''strTeam'' of
                                          Inl e \<Rightarrow> Inl e
                                        | Inr teamFullName \<Rightarrow>
                                            Inr (Inr (SportsLastEvents teamId, teamFullName))))))))))"

text \<open>
  Step 2: the request to send, and the sports context when there is one
  (\<^verbatim>\<open>sportsTeamData\<close>, \<open>None\<close> for \<^verbatim>\<open>null\<close>).
\<close>

definition buildRequest ::
  "discrete_world \<Rightarrow> discrete_oracle_spec \<Rightarrow> js_error + (discrete_response + request \<times> jsval option)" where
  "buildRequest w spec =
     (if category spec = WEATHER then
        Inr (Inr (WeatherCity (firstNonEmpty (lookupParam (params (source spec)) ''city'')
                                 (lastSegment (endpoint (source spec))) ''NewYork''), None))
      else if category spec = SPORTS_SCORE then
        (case sportsLookup w spec of
           Inl e \<Rightarrow> Inl e
         | Inr (Inl early) \<Rightarrow> Inr (Inl early)
         | Inr (Inr (req, teamFullName)) \<Rightarrow> Inr (Inr (req, Some teamFullName)))
      else if \<not> validUrl w (endpoint (source spec)) then Inl TypeError
      else Inr (Inr (GetUrl (endpoint (source spec))
                       (case params (source spec) of None \<Rightarrow> [] | Some kvs \<Rightarrow> kvs), None)))"

text \<open>\<^verbatim>\<open>s.toLowerCase()\<close> on a value: a TypeError unless the value is a string.\<close>

definition lowerOf :: "js_runtime \<Rightarrow> jsval \<Rightarrow> js_error + string" where
  "lowerOf rt v = (case v of JStr s \<Rightarrow> Inr (toLowerCase rt s) | _ \<Rightarrow> Inl TypeError)"

text \<open>\<^verbatim>\<open>parseInt(v) || 0\<close>: NaN and 0 both give 0.\<close>

definition scoreOf :: "js_runtime \<Rightarrow> jsval \<Rightarrow> int" where
  "scoreOf rt v = (case parseInt rt v of None \<Rightarrow> 0 | Some n \<Rightarrow> n)"

text \<open>
  Step 4, the sports branch: did the team win its last game. The result is a throw, the
  NO_RECENT_GAMES answer, or the boolean.
\<close>

definition sportsExtract :: "js_runtime \<Rightarrow> jsval \<Rightarrow> jsval \<Rightarrow> js_error + (discrete_response + jsval)" where
  "sportsExtract rt data teamName =
     (case getProp data ''results'' of
        Inl e \<Rightarrow> Inl e
      | Inr results \<Rightarrow>
          (let lastEvent = optProp results ''0'' in
           if \<not> truthy lastEvent then Inr (Inl (DiscreteFallback 500 ''NO_RECENT_GAMES''))
           else
             let homeTeam = optProp lastEvent ''strHomeTeam'';
                 homeScore = scoreOf rt (optProp lastEvent ''intHomeScore'');
                 awayScore = scoreOf rt (optProp lastEvent ''intAwayScore'')
             in case lowerOf rt homeTeam of
                  Inl e \<Rightarrow> Inl e
                | Inr home \<Rightarrow>
                    (case lowerOf rt teamName of
                       Inl e \<Rightarrow> Inl e
                     | Inr team \<Rightarrow>
                         (let isHomeTeam = (strIncludes home team \<or> strIncludes team home);
                              teamScore = (if isHomeTeam then homeScore else awayScore);
                              opponentScore = (if isHomeTeam then awayScore else homeScore);
                              teamWon = (teamScore > opponentScore)
                          in Inr (Inr (JBool teamWon))))))"

text \<open>
  Step 4: the extracted value. The generic branch wraps \<^verbatim>\<open>extractValue\<close> in its own
  \<^verbatim>\<open>try\<close>, whose \<^verbatim>\<open>catch\<close> answers EXTRACTION_ERROR.
\<close>

definition extractStep ::
  "js_runtime \<Rightarrow> discrete_oracle_spec \<Rightarrow> jsval option \<Rightarrow> jsval \<Rightarrow> js_error + (discrete_response + jsval)" where
  "extractStep rt spec sportsTeamData data =
     (case (category spec = SPORTS_SCORE, sportsTeamData) of
        (True, Some teamName) \<Rightarrow> sportsExtract rt data teamName
      | _ \<Rightarrow>
          (case extractValue rt data (extraction_path spec) of
             Inl extractError \<Rightarrow> Inr (Inl (DiscreteFallback 500 ''EXTRACTION_ERROR''))
           | Inr v \<Rightarrow> Inr (Inr v)))"

text \<open>Step 5: the comparison. A boolean from the sports branch is the result itself.\<close>

definition isBoolean :: "jsval \<Rightarrow> bool" where
  "isBoolean v = (case v of JBool b \<Rightarrow> True | _ \<Rightarrow> False)"

definition applyComparison :: "js_runtime \<Rightarrow> discrete_oracle_spec \<Rightarrow> jsval \<Rightarrow> bool" where
  "applyComparison rt spec v =
     (if category spec = SPORTS_SCORE \<and> isBoolean v then v = JBool True
      else if operator spec = ''>'' then jsGreater rt v (target_value spec)
      else if operator spec = ''<'' then jsLess rt v (target_value spec)
      else if operator spec = ''>='' then jsGreaterEq rt v (target_value spec)
      else if operator spec = ''<='' then jsLessEq rt v (target_value spec)
      else if operator spec = ''=='' then jsLooseEq rt v (target_value spec)
      else if operator spec = ''!='' then \<not> jsLooseEq rt v (target_value spec)
      else False)"

text \<open>Steps 3 to 5, once the request is built.\<close>

definition fetchAndCompare ::
  "js_runtime \<Rightarrow> discrete_world \<Rightarrow> discrete_oracle_spec \<Rightarrow> request \<Rightarrow> jsval option
     \<Rightarrow> js_error + discrete_response" where
  "fetchAndCompare rt w spec req sportsTeamData =
     (case fetch w req of
        FetchThrows \<Rightarrow> Inl ServiceError
      | FetchNotOk st \<Rightarrow> Inr (DiscreteFallback 502 ''API_ERROR'')
      | FetchBadBody \<Rightarrow> Inl SyntaxError
      | FetchJson data \<Rightarrow>
          (case extractStep rt spec sportsTeamData data of
             Inl e \<Rightarrow> Inl e
           | Inr (Inl early) \<Rightarrow> Inr early
           | Inr (Inr v) \<Rightarrow>
               if v = JNull \<or> v = JUndefined then Inr (DiscreteFallback 500 ''NO_VALUE'')
               else
                 Inr (DiscreteSuccess
                   \<lparr> outcome = (if applyComparison rt spec v then YES else NO),
                     confidenceBps = 10000,
                     extractedValue = v,
                     targetValue = target_value spec,
                     usedOperator = operator spec,
                     sourceName = name (source spec),
                     apiResponse = data \<rparr>)))"

text \<open>The body of the handler's \<^verbatim>\<open>try\<close>; \<open>Inl\<close> is a throw that reaches its \<^verbatim>\<open>catch\<close>.\<close>

definition resolveDiscreteTry :: "js_runtime \<Rightarrow> discrete_world \<Rightarrow> js_error + discrete_response" where
  "resolveDiscreteTry rt w =
     (case requestBody w of
        Inl e \<Rightarrow> Inl e
      | Inr body \<Rightarrow>
          (case getProp body ''marketId'' of
             Inl e \<Rightarrow> Inl e
           | Inr marketId \<Rightarrow>
               (if \<not> truthy marketId then Inr (DiscreteError 400)
                else
                  (case specDoc w of
                     Inl e \<Rightarrow> Inl e
                   | Inr None \<Rightarrow> Inr (DiscreteFallback 404 ''SPEC_NOT_FOUND'')
                   | Inr (Some (CONTIGUOUS summary)) \<Rightarrow> Inr (DiscreteFallback 400 ''CONTIGUOUS_TYPE'')
                   | Inr (Some (DISCRETE spec)) \<Rightarrow>
                       (case buildRequest w spec of
                          Inl e \<Rightarrow> Inl e
                        | Inr (Inl early) \<Rightarrow> Inr early
                        | Inr (Inr (req, sportsTeamData)) \<Rightarrow>
                            fetchAndCompare rt w spec req sportsTeamData)))))"

text \<open>The route \<^verbatim>\<open>POST /api/market/resolve-discrete\<close>.\<close>

definition resolveDiscrete :: "js_runtime \<Rightarrow> discrete_world \<Rightarrow> discrete_response" where
  "resolveDiscrete rt w =
     (case resolveDiscreteTry rt w of
        Inl e \<Rightarrow> DiscreteFallback 500 ''UNKNOWN_ERROR''
      | Inr r \<Rightarrow> r)"

section \<open>The settlement route: the handler\<close>

text \<open>The fields of the ledger's market tuple that the handler reads.\<close>

record market =
  question :: string
  status :: nat

text \<open>
  The configuration from the process environment. A variable that is unset or empty is
  the empty string: \<^verbatim>\<open>!x\<close> holds of both.
\<close>

record environment =
  rpcUrl :: string
  privateKey :: string
  marketAddress :: string
  geminiKey :: string

text \<open>
  The world of one settlement request. \<open>bigInt\<close> is the runtime's \<^verbatim>\<open>BigInt\<close> conversion; \<open>clients\<close> is the
  construction of provider, wallet and contract; \<open>discreteCall\<close> is the request to the
  discrete route and the JSON it answers; \<open>mockIndex\<close> is
  \<^verbatim>\<open>Math.floor(Math.random() * 2)\<close>; \<open>judge k\<close> is the reply to the call of judge \<open>k\<close>;
  \<open>chainSetup\<close> is the network lookup and the construction of the signing client;
  \<open>auditWrite\<close> is the anonymous sign-in and the document write.
\<close>

record settle_world =
  settleBody :: "js_error + jsval"
  bigInt :: "jsval \<Rightarrow> js_error + int"
  env :: environment
  clients :: "js_error + unit"
  getMarketFirst :: "js_error + market"
  requestSettlement :: "js_error + unit"
  getMarketAgain :: "js_error + market"
  discreteCall :: "js_error + discrete_response"
  mockIndex :: nat
  judge :: "nat \<Rightarrow> llm_reply"
  chainSetup :: "js_error + unit"
  writeContract :: "js_error + string"
  auditWrite :: "js_error + unit"

text \<open>What the handler does to the outside, in order.\<close>

datatype settle_event =
    RequestSettlementTx
  | DiscreteResolution
  | JudgeCall nat
  | OnReportTx int nat int
  | AuditRecord

datatype resolution_method = ByDiscrete | ByContiguous | ByMock

record resolution =
  parsed :: resolved_vote
  resolutionMethod :: resolution_method
  isFallback :: bool
  isConsortium :: bool

datatype settle_response =
    NoMarketId
  | ConfigurationMissing
  | SettlementFailed js_error
  | Settled string resolved_vote


text \<open>
  The handler's own encoding: \<^verbatim>\<open>outcomeEnum\<close> starts at 3 and the two assignments
  overwrite it.
\<close>

definition outcomeEnum :: "outcome \<Rightarrow> nat" where
  "outcomeEnum r =
     (let e0 = 3;
          e1 = (if r = NO then 1 else e0);
          e2 = (if r = YES then 2 else e1)
      in e2)"

text \<open>
  \<^verbatim>\<open>Math.min(Math.max(parsed.confidence || 0, 0), 10000)\<close>; on a number, \<^verbatim>\<open>c || 0\<close> is
  \<open>c\<close> unless \<open>c\<close> is 0, and an infinity is truthy.
\<close>

definition validConfidence :: "int extended \<Rightarrow> int" where
  "validConfidence c =
     (case c of
        Finite n \<Rightarrow> min (max (if n \<noteq> 0 then n else 0) 0) 10000
      | PosInfinity \<Rightarrow> 10000
      | NegInfinity \<Rightarrow> 0)"

text \<open>
  Step 1: the request and the configuration. The result is a throw, an early answer, or
  the market id as it was sent and as a big integer.
\<close>

definition readRequest :: "settle_world \<Rightarrow> js_error + (settle_response + jsval \<times> int)" where
  "readRequest w =
     (case settleBody w of
        Inl e \<Rightarrow> Inl e
      | Inr body \<Rightarrow>
          (case getProp body ''marketId'' of
             Inl e \<Rightarrow> Inl e
           | Inr marketId \<Rightarrow>
               (if marketId = JUndefined then Inr (Inl NoMarketId)
                else
                  (case bigInt w marketId of
                     Inl e \<Rightarrow> Inl e
                   | Inr marketIdBigInt \<Rightarrow>
                       (if rpcUrl (env w) = [] \<or> privateKey (env w) = [] \<or> marketAddress (env w) = []
                        then Inr (Inl ConfigurationMissing)
                        else
                          (case clients w of
                             Inl e \<Rightarrow> Inl e
                           | Inr u \<Rightarrow> Inr (Inr (marketId, marketIdBigInt))))))))"

text \<open>
  Steps 2 and 3: the status is read; only an open market (status 0) gets the settlement
  request, every other status skips it; then the market is read again for the question.
  The result is the list of events with a throw or the question.
\<close>

definition requestIfOpen :: "settle_world \<Rightarrow> settle_event list \<times> (js_error + string)" where
  "requestIfOpen w =
     (case getMarketFirst w of
        Inl e \<Rightarrow> ([], Inl e)
      | Inr marketData \<Rightarrow>
          (if status marketData = 0 then
             (case requestSettlement w of
                Inl e \<Rightarrow> ([RequestSettlementTx], Inl e)
              | Inr u \<Rightarrow>
                  (case getMarketAgain w of
                     Inl e \<Rightarrow> ([RequestSettlementTx], Inl e)
                   | Inr updated \<Rightarrow> ([RequestSettlementTx], Inr (question updated))))
           else
             (case getMarketAgain w of
                Inl e \<Rightarrow> ([], Inl e)
              | Inr updated \<Rightarrow> ([], Inr (question updated)))))"

definition settlePrelude ::
  "settle_world \<Rightarrow> settle_event list \<times> (js_error + (settle_response + jsval \<times> int \<times> string))" where
  "settlePrelude w =
     (case readRequest w of
        Inl e \<Rightarrow> ([], Inl e)
      | Inr (Inl early) \<Rightarrow> ([], Inr (Inl early))
      | Inr (Inr (marketId, marketIdBigInt)) \<Rightarrow>
          (case requestIfOpen w of
             (evs, Inl e) \<Rightarrow> (evs, Inl e)
           | (evs, Inr q) \<Rightarrow> (evs, Inr (Inr (marketId, marketIdBigInt, q)))))"

text \<open>
  The discrete attempt: \<open>Some\<close> of the parsed result when the route answered success
  without fallback, otherwise \<open>None\<close> with the fallback flag. A throw of the call is
  caught here.
\<close>

definition tryDiscrete :: "settle_world \<Rightarrow> resolved_vote option \<times> bool" where
  "tryDiscrete w =
     (case discreteCall w of
        Inl discreteError \<Rightarrow> (None, True)
      | Inr (DiscreteSuccess d) \<Rightarrow>
          (Some \<lparr> result = outcome d, confidence = Finite (confidenceBps d) \<rparr>, False)
      | Inr (DiscreteFallback st reason) \<Rightarrow> (None, True)
      | Inr (DiscreteError st) \<Rightarrow> (None, False))"

text \<open>The contiguous resolution: the mock without a key, else five judges or one.\<close>

definition contiguous :: "settle_world \<Rightarrow> string \<Rightarrow> settle_event list \<times> resolved_vote \<times> resolution_method \<times> bool" where
  "contiguous w q =
     (if geminiKey (env w) = [] then
        ([], \<lparr> result = (if mockIndex w = 0 then YES else NO), confidence = Finite 9999 \<rparr>,
         ByMock, False)
      else if strIncludes q ''[CONSORTIUM]'' then
        (map (\<lambda>i. JudgeCall (i + 1)) [0..<judgeCount], consortium (judge w), ByContiguous, True)
      else
        (let v = askGemini (judge w 1)
         in ([JudgeCall 1], \<lparr> result = result v, confidence = Finite (confidence v) \<rparr>,
             ByContiguous, False)))"

definition resolve :: "settle_world \<Rightarrow> string \<Rightarrow> settle_event list \<times> resolution" where
  "resolve w q =
     (case tryDiscrete w of
        (Some p, fb) \<Rightarrow>
          ([DiscreteResolution],
           \<lparr> parsed = p, resolutionMethod = ByDiscrete, isFallback = fb, isConsortium = False \<rparr>)
      | (None, fb) \<Rightarrow>
          (case contiguous w q of
             (evs, p, m, c) \<Rightarrow>
               (DiscreteResolution # evs,
                \<lparr> parsed = p, resolutionMethod = m, isFallback = fb, isConsortium = c \<rparr>)))"

text \<open>
  Steps 4 to 6: the report is encoded and sent, then the audit record is written; a failure
  of the audit write is logged and ignored. The report's first field is a \<^verbatim>\<open>uint256\<close>.
\<close>

definition submit :: "settle_world \<Rightarrow> int \<Rightarrow> resolved_vote \<Rightarrow> settle_event list \<times> (js_error + settle_response)" where
  "submit w marketIdBigInt p =
     (case chainSetup w of
        Inl e \<Rightarrow> ([], Inl e)
      | Inr u \<Rightarrow>
          (if marketIdBigInt < 0 \<or> marketIdBigInt \<ge> 2 ^ 256 then ([], Inl TypeError)
           else
             (case writeContract w of
                Inl e \<Rightarrow>
                  ([OnReportTx marketIdBigInt (outcomeEnum (result p)) (validConfidence (confidence p))],
                   Inl e)
              | Inr hash \<Rightarrow>
                  ([OnReportTx marketIdBigInt (outcomeEnum (result p)) (validConfidence (confidence p)),
                    AuditRecord],
                   (case auditWrite w of
                      Inl fsError \<Rightarrow> Inr (Settled hash p)
                    | Inr u' \<Rightarrow> Inr (Settled hash p))))))"

text \<open>The handler with the events it caused; its \<^verbatim>\<open>catch\<close> answers 500 on every throw.\<close>

definition settle :: "settle_world \<Rightarrow> settle_response \<times> settle_event list" where
  "settle w =
     (case settlePrelude w of
        (evs, Inl e) \<Rightarrow> (SettlementFailed e, evs)
      | (evs, Inr (Inl early)) \<Rightarrow> (early, evs)
      | (evs, Inr (Inr (marketId, marketIdBigInt, q))) \<Rightarrow>
          (case resolve w q of
             (evs', r) \<Rightarrow>
               (case submit w marketIdBigInt (parsed r) of
                  (evs'', Inl e) \<Rightarrow> (SettlementFailed e, evs @ evs' @ evs'')
                | (evs'', Inr resp) \<Rightarrow> (resp, evs @ evs' @ evs''))))"

section \<open>The creation route\<close>

text \<open>
  One attempt to send the creation transaction and wait for its confirmation: it is
  confirmed with a hash, or it fails with an error whose \<^verbatim>\<open>message\<close> may be absent.
\<close>

datatype tx_outcome = TxConfirmed string | TxFailed "string option"

text \<open>
  The world of one creation request. \<open>newMarket n\<close> is the outcome of the attempt sent
  with the explicit nonce \<open>n\<close>; \<open>classifier\<close> is the reply of the reasoning service to the
  classification prompt; \<open>now\<close> is \<^verbatim>\<open>new Date().toISOString()\<close>; \<open>setDoc\<close> is the write
  of the spec document.
\<close>

record create_world =
  createBody :: "js_error + jsval"
  createEnv :: environment
  createClients :: "js_error + unit"
  nextMarketId :: "js_error + nat"
  getTransactionCount :: "js_error + nat"
  newMarket :: "nat \<Rightarrow> tx_outcome"
  classifier :: llm_reply
  now :: string
  setDoc :: "js_error + unit"

text \<open>
  What the handler does to the outside. The question text and the duration go to the
  ledger unchanged on every attempt and are left out of the event.
\<close>

datatype create_event =
    NewMarketTx nat
  | Backoff nat
  | ClassifierCall
  | SpecWrite nat

datatype create_error = Thrown js_error | TxError "string option" | NoTransaction

definition maxAttempts :: nat where
  "maxAttempts = 3"

text \<open>\<^verbatim>\<open>txError.message?.includes("nonce")\<close>: false when there is no message.\<close>

definition mentionsNonce :: "string option \<Rightarrow> bool" where
  "mentionsNonce message = (case message of None \<Rightarrow> False | Some m \<Rightarrow> strIncludes m ''nonce'')"

text \<open>
  The retry loop, from the state \<open>attempts\<close>. The result is the list of events with the
  rethrown error or the value of \<^verbatim>\<open>tx\<close> after the loop (\<open>None\<close> when it was never
  assigned).
\<close>

function newMarketLoop ::
  "create_world \<Rightarrow> nat \<Rightarrow> nat \<Rightarrow> create_event list \<times> (create_error + string option)" where
  "newMarketLoop w nonce attempts =
     (if attempts < maxAttempts then
        (case newMarket w (nonce + attempts) of
           TxConfirmed hash \<Rightarrow> ([NewMarketTx (nonce + attempts)], Inr (Some hash))
         | TxFailed message \<Rightarrow>
             (if mentionsNonce message \<and> attempts + 1 < maxAttempts then
                (case newMarketLoop w nonce (attempts + 1) of
                   (evs, r) \<Rightarrow> (NewMarketTx (nonce + attempts) # Backoff 1000 # evs, r))
              else ([NewMarketTx (nonce + attempts)], Inl (TxError message))))
      else ([], Inr None))"
  by pat_completeness auto
termination
  by (relation "measure (\<lambda>(w, nonce, attempts). maxAttempts - attempts)") auto

text \<open>
  The handler up to the confirmed transaction. The result is the list of events with a
  throw, an early answer, or the market id and the transaction hash.
\<close>

datatype create_response =
    NoQuestion
  | CreateMisconfigured
  | CreateFailed create_error
  | Created nat string jsval

definition sendCreation ::
  "create_world \<Rightarrow> create_event list \<times> (create_error + (create_response + nat \<times> string))" where
  "sendCreation w =
     (case createBody w of
        Inl e \<Rightarrow> ([], Inl (Thrown e))
      | Inr body \<Rightarrow>
          (case getProp body ''question'' of
             Inl e \<Rightarrow> ([], Inl (Thrown e))
           | Inr q \<Rightarrow>
               (if \<not> truthy q then ([], Inr (Inl NoQuestion))
                else if rpcUrl (createEnv w) = [] \<or> privateKey (createEnv w) = []
                        \<or> marketAddress (createEnv w) = []
                then ([], Inr (Inl CreateMisconfigured))
                else
                  (case createClients w of
                     Inl e \<Rightarrow> ([], Inl (Thrown e))
                   | Inr u \<Rightarrow>
                       (case nextMarketId w of
                          Inl e \<Rightarrow> ([], Inl (Thrown e))
                        | Inr marketId \<Rightarrow>
                            (case getTransactionCount w of
                               Inl e \<Rightarrow> ([], Inl (Thrown e))
                             | Inr nonce \<Rightarrow>
                                 (case newMarketLoop w nonce 0 of
                                    (evs, Inl e) \<Rightarrow> (evs, Inl e)
                                  | (evs, Inr None) \<Rightarrow> (evs, Inl NoTransaction)
                                  | (evs, Inr (Some hash)) \<Rightarrow> (evs, Inr (Inr (marketId, hash))))))))))"

subsection \<open>Classification\<close>

definition sourceConfig :: "string \<Rightarrow> string \<Rightarrow> jsval" where
  "sourceConfig n e = JObj [(''name'', JStr n), (''endpoint'', JStr e), (''params'', JObj [])]"

text \<open>\<^verbatim>\<open>TRUSTED_SOURCES[category]\<close>: the entry, \<^verbatim>\<open>null\<close>, or \<^verbatim>\<open>undefined\<close> for any other key.\<close>

definition trustedSources :: "jsval \<Rightarrow> jsval" where
  "trustedSources c =
     (if c = JStr ''CRYPTO_PRICE'' then
        sourceConfig ''CoinGecko'' ''https://api.coingecko.com/api/v3/simple/price''
      else if c = JStr ''FOREX_RATE'' then
        sourceConfig ''ExchangeRate-API'' ''https://open.er-api.com/v6/latest/USD''
      else if c = JStr ''WEATHER'' then sourceConfig ''wttr.in'' ''https://wttr.in''
      else if c = JStr ''SPORTS_SCORE'' then
        sourceConfig ''TheSportsDB'' ''https://www.thesportsdb.com/api/v1/json/3/searchteams.php''
      else if c = JStr ''DATE_EVENT'' \<or> c = JStr ''GENERAL_AI'' then JNull
      else JUndefined)"

text \<open>
  The definition of a property on an object. An existing property is overwritten in
  place. A new one takes its place in the order of enumeration: the array indices (the
  canonical decimal strings below \<open>2\<^sup>3\<^sup>2 - 1\<close>) come first, in ascending order, and every
  other key follows in the order of its creation.
\<close>

fun replaceProp :: "(string \<times> jsval) list \<Rightarrow> string \<Rightarrow> jsval \<Rightarrow> (string \<times> jsval) list" where
  "replaceProp [] k v = []"
| "replaceProp ((k', v') # kvs) k v =
     (if k' = k then (k', v) # kvs else (k', v') # replaceProp kvs k v)"

definition indexKey :: "string \<Rightarrow> nat option" where
  "indexKey k =
     (case arrayIndex k of None \<Rightarrow> None | Some i \<Rightarrow> if i < 4294967295 then Some i else None)"

fun insertIndexed :: "(string \<times> jsval) list \<Rightarrow> nat \<Rightarrow> string \<Rightarrow> jsval \<Rightarrow> (string \<times> jsval) list" where
  "insertIndexed [] i k v = [(k, v)]"
| "insertIndexed ((k', v') # kvs) i k v =
     (case indexKey k' of
        None \<Rightarrow> (k, v) # (k', v') # kvs
      | Some j \<Rightarrow> if j < i then (k', v') # insertIndexed kvs i k v else (k, v) # (k', v') # kvs)"

definition setProp :: "(string \<times> jsval) list \<Rightarrow> string \<Rightarrow> jsval \<Rightarrow> (string \<times> jsval) list" where
  "setProp kvs k v =
     (if map_of kvs k \<noteq> None then replaceProp kvs k v
      else case indexKey k of None \<Rightarrow> kvs @ [(k, v)] | Some i \<Rightarrow> insertIndexed kvs i k v)"

text \<open>The decimal text of a number, as a template literal and a property key write it.\<close>

fun showNat :: "nat \<Rightarrow> string" where
  "showNat n =
     (if n < 10 then [char_of (48 + n)]
      else showNat (n div 10) @ [char_of (48 + n mod 10)])"

declare showNat.simps [simp del]

text \<open>
  The own enumerable properties, which a spread copies: the properties of an object, the
  elements of an array under their indices, the characters of a string under theirs;
  every other value has none.
\<close>

definition ownProps :: "jsval \<Rightarrow> (string \<times> jsval) list" where
  "ownProps v =
     (case v of
        JObj kvs \<Rightarrow> kvs
      | JArr xs \<Rightarrow> zip (map showNat [0..<length xs]) xs
      | JStr s \<Rightarrow> zip (map showNat [0..<length s]) (map (\<lambda>c. JStr [c]) s)
      | _ \<Rightarrow> [])"

text \<open>Object spread \<^verbatim>\<open>{...a, ...b}\<close>: the properties of \<open>a\<close>, then those of \<open>b\<close>.\<close>

definition spread :: "jsval \<Rightarrow> jsval \<Rightarrow> jsval" where
  "spread a b =
     JObj (foldl (\<lambda>acc kv. setProp acc (fst kv) (snd kv)) [] (ownProps a @ ownProps b))"

text \<open>The spec built for \<^verbatim>\<open>parsed.type === "DISCRETE"\<close>.\<close>

definition discreteSpecOf :: "string \<Rightarrow> jsval \<Rightarrow> jsval" where
  "discreteSpecOf timestamp p =
     (let cat = optProp p ''category'';
          sourceCfg = trustedSources cat;
          spec = optProp p ''spec''
      in JObj
          [(''type'', JStr ''DISCRETE''),
           (''category'', cat),
           (''natural_language_summary'',
              orElse (optProp spec ''natural_language_summary'') (JStr ''Oracle resolution logic.'')),
           (''source'',
              if truthy sourceCfg then
                spread sourceCfg
                  (JObj [(''params'', spread (optProp sourceCfg ''params'') (optProp spec ''api_params''))])
              else JObj [(''name'', JStr ''Unknown''), (''endpoint'', JStr []), (''params'', JObj [])]),
           (''extraction_path'', orElse (optProp spec ''extraction_path'') (JStr ''$'')),
           (''comparison'',
              orElse (optProp spec ''comparison'')
                (JObj [(''operator'', JStr ''==''), (''target_value'', JBool True)])),
           (''resolution_timestamp'', orElse (optProp spec ''resolution_timestamp'') (JStr timestamp))])"

text \<open>The spec built for every other \<^verbatim>\<open>parsed.type\<close>.\<close>

definition contiguousSpecOf :: "jsval \<Rightarrow> jsval" where
  "contiguousSpecOf p =
     JObj [(''type'', JStr ''CONTIGUOUS''),
           (''category'', JStr ''GENERAL_AI''),
           (''natural_language_summary'',
              orElse (optProp (optProp p ''spec'') ''natural_language_summary'')
                (JStr ''Resolved via AI reasoning and web search.''))]"

text \<open>The spec the \<^verbatim>\<open>catch\<close> of the classification assigns.\<close>

definition classificationFailedSpec :: jsval where
  "classificationFailedSpec =
     JObj [(''type'', JStr ''CONTIGUOUS''),
           (''category'', JStr ''GENERAL_AI''),
           (''natural_language_summary'', JStr ''Resolved via AI reasoning (classification failed).'')]"

text \<open>
  The collection \<^verbatim>\<open>oracle_specs\<close>: the stored spec of each market id; a write replaces
  the document of its key.
\<close>

type_synonym spec_store = "(nat \<times> jsval) list"

definition writeSpec :: "spec_store \<Rightarrow> nat \<Rightarrow> jsval \<Rightarrow> spec_store" where
  "writeSpec store marketId spec = (marketId, spec) # filter (\<lambda>kv. fst kv \<noteq> marketId) store"

definition storedSpec :: "spec_store \<Rightarrow> nat \<Rightarrow> jsval option" where
  "storedSpec store marketId = map_of store marketId"

text \<open>
  The body of the classification's \<^verbatim>\<open>try\<close>: the call, the parse, the spec and its write.
  \<open>Inl\<close> is a throw, with the events up to it.
\<close>

definition classifyTry ::
  "create_world \<Rightarrow> nat \<Rightarrow> spec_store \<Rightarrow> create_event list \<times> (js_error + jsval \<times> spec_store)" where
  "classifyTry w marketId store =
     (case classifier w of
        ServiceFailure \<Rightarrow> ([ClassifierCall], Inl ServiceError)
      | Unparsable \<Rightarrow> ([ClassifierCall], Inl SyntaxError)
      | Parsed p \<Rightarrow>
          (case getProp p ''type'' of
             Inl e \<Rightarrow> ([ClassifierCall], Inl e)
           | Inr ty \<Rightarrow>
               (let oracleSpec = (if ty = JStr ''DISCRETE'' then discreteSpecOf (now w) p
                                  else contiguousSpecOf p)
                in case setDoc w of
                     Inl e \<Rightarrow> ([ClassifierCall, SpecWrite marketId], Inl e)
                   | Inr u \<Rightarrow>
                       ([ClassifierCall, SpecWrite marketId],
                        Inr (oracleSpec, writeSpec store marketId oracleSpec)))))"

text \<open>
  The classification step: nothing without a key, and the \<^verbatim>\<open>catch\<close> replaces a throw by
  the fallback spec. The result is the events, \<^verbatim>\<open>oracleSpec\<close> (\<open>None\<close> for \<^verbatim>\<open>null\<close>) and
  the store.
\<close>

definition classify ::
  "create_world \<Rightarrow> nat \<Rightarrow> spec_store \<Rightarrow> create_event list \<times> jsval option \<times> spec_store" where
  "classify w marketId store =
     (if geminiKey (createEnv w) = [] then ([], None, store)
      else
        (case classifyTry w marketId store of
           (evs, Inl classifyError) \<Rightarrow> (evs, Some classificationFailedSpec, store)
         | (evs, Inr (oracleSpec, store')) \<Rightarrow> (evs, Some oracleSpec, store')))"

text \<open>\<^verbatim>\<open>oracleSpec?.type || "UNKNOWN"\<close>.\<close>

definition oracleTypeOf :: "jsval option \<Rightarrow> jsval" where
  "oracleTypeOf oracleSpec =
     (case oracleSpec of
        None \<Rightarrow> JStr ''UNKNOWN''
      | Some s \<Rightarrow> orElse (optProp s ''type'') (JStr ''UNKNOWN''))"

text \<open>The route \<^verbatim>\<open>POST /api/market/create\<close>: the answer, the events and the store.\<close>

definition createMarket ::
  "create_world \<Rightarrow> spec_store \<Rightarrow> create_response \<times> create_event list \<times> spec_store" where
  "createMarket w store =
     (case sendCreation w of
        (evs, Inl e) \<Rightarrow> (CreateFailed e, evs, store)
      | (evs, Inr (Inl early)) \<Rightarrow> (early, evs, store)
      | (evs, Inr (Inr (marketId, hash))) \<Rightarrow>
          (case classify w marketId store of
             (evs', oracleSpec, store') \<Rightarrow>
               (Created marketId hash (oracleTypeOf oracleSpec), evs @ evs', store')))"

section \<open>The admin settlement route\<close>

definition ADMIN_PASSWORD :: string where
  "ADMIN_PASSWORD = ''admin''"

text \<open>
  The world of one admin request. \<open>settleMarketManually\<close> and \<open>submitReport\<close> are the sends
  of the two transactions (the hash, or a throw); \<open>adminRequestSettlement\<close> is the send of
  the settlement request with its wait; \<open>txWait\<close> is the wait for the final transaction;
  \<open>findSettlement\<close> and \<open>findDemo\<close> are the two queries of the audit store (the id of the
  first document found); \<open>writeSettlement\<close> and \<open>writeDemo\<close> are the writes that follow.
\<close>

record admin_world =
  adminBody :: "js_error + jsval"
  adminEnv :: environment
  adminClients :: "js_error + unit"
  getMarket :: "js_error + market"
  settleMarketManually :: "js_error + string"
  adminRequestSettlement :: "js_error + unit"
  submitReport :: "js_error + string"
  txWait :: "js_error + unit"
  responseId :: string
  signIn :: "js_error + unit"
  findSettlement :: "js_error + string option"
  writeSettlement :: "js_error + unit"
  findDemo :: "js_error + string option"
  writeDemo :: "js_error + unit"

text \<open>
  The ledger calls and the audit writes, in order. The transactions carry the outcome
  code; the report also carries the confidence.
\<close>

datatype admin_event =
    GetMarketCall
  | SettleManuallyTx nat
  | AdminRequestSettlementTx
  | SubmitReportTx nat int
  | UpdateSettlement string
  | CreateSettlement string
  | UpdateDemo string
  | CreateDemo string

text \<open>The answers: an error with its status and text, a caught throw (500), or success.\<close>

datatype admin_response =
    AdminError nat string
  | AdminThrown js_error
  | AdminSettled string string jsval

text \<open>
  The checks of the request and the configuration, before anything is done. The result
  is a throw, an early answer, or the outcome.
\<close>

definition adminValidate :: "admin_world \<Rightarrow> js_error + (admin_response + jsval)" where
  "adminValidate w =
     (case adminBody w of
        Inl e \<Rightarrow> Inl e
      | Inr body \<Rightarrow>
          (case getProp body ''adminPassword'' of
             Inl e \<Rightarrow> Inl e
           | Inr adminPassword \<Rightarrow>
               (if adminPassword \<noteq> JStr ADMIN_PASSWORD then
                  Inr (Inl (AdminError 401 ''Invalid admin password''))
                else if \<not> truthy (optProp body ''marketId'') \<or> \<not> truthy (optProp body ''outcome'')
                        \<or> \<not> truthy (optProp body ''source'')
                then Inr (Inl (AdminError 400 ''Missing required fields: marketId, outcome, source''))
                else if optProp body ''outcome'' \<noteq> JStr ''YES'' \<and> optProp body ''outcome'' \<noteq> JStr ''NO''
                then Inr (Inl (AdminError 400 ''Outcome must be YES or NO''))
                else if rpcUrl (adminEnv w) = [] \<or> privateKey (adminEnv w) = []
                        \<or> marketAddress (adminEnv w) = []
                then Inr (Inl (AdminError 500 ''Server misconfigured (missing env vars)''))
                else Inr (Inr (optProp body ''outcome'')))))"

text \<open>
  The ledger part: the market is read, and the transaction that fits its status is sent.
  The result is the events with a throw, an early answer, or the hash.
\<close>

definition adminLedger ::
  "admin_world \<Rightarrow> jsval \<Rightarrow> admin_event list \<times> (js_error + (admin_response + string))" where
  "adminLedger w chosen =
     (case adminClients w of
        Inl e \<Rightarrow> ([], Inl e)
      | Inr u \<Rightarrow>
          (case getMarket w of
             Inl e \<Rightarrow> ([GetMarketCall], Inl e)
           | Inr marketData \<Rightarrow>
               (let outcomeCode = (if chosen = JStr ''YES'' then 2 else 1);
                    confidenceBp = 10000
                in if status marketData = 2 then
                     ([GetMarketCall], Inr (Inl (AdminError 400 ''Market is already fully settled'')))
                   else if status marketData = 3 then
                     (case settleMarketManually w of
                        Inl e \<Rightarrow> ([GetMarketCall, SettleManuallyTx outcomeCode], Inl e)
                      | Inr hash \<Rightarrow> ([GetMarketCall, SettleManuallyTx outcomeCode], Inr (Inr hash)))
                   else if status marketData = 0 then
                     (case adminRequestSettlement w of
                        Inl e \<Rightarrow> ([GetMarketCall, AdminRequestSettlementTx], Inl e)
                      | Inr requested \<Rightarrow>
                          (case submitReport w of
                             Inl e \<Rightarrow>
                               ([GetMarketCall, AdminRequestSettlementTx,
                                 SubmitReportTx outcomeCode confidenceBp], Inl e)
                           | Inr hash \<Rightarrow>
                               ([GetMarketCall, AdminRequestSettlementTx,
                                 SubmitReportTx outcomeCode confidenceBp], Inr (Inr hash))))
                   else if status marketData = 1 then
                     (case submitReport w of
                        Inl e \<Rightarrow> ([GetMarketCall, SubmitReportTx outcomeCode confidenceBp], Inl e)
                      | Inr hash \<Rightarrow>
                          ([GetMarketCall, SubmitReportTx outcomeCode confidenceBp], Inr (Inr hash)))
                   else
                     ([GetMarketCall],
                      Inr (Inl (AdminError 400 (''Unknown market status: '' @ showNat (status marketData))))))))"

text \<open>
  The audit part, after the transaction: wait, sign in, then update the existing record
  of each collection or create a new one. The result is the events with a throw or
  nothing.
\<close>

definition adminAudit :: "admin_world \<Rightarrow> admin_event list \<times> (js_error + unit)" where
  "adminAudit w =
     (case txWait w of
        Inl e \<Rightarrow> ([], Inl e)
      | Inr waited \<Rightarrow>
          (case signIn w of
             Inl e \<Rightarrow> ([], Inl e)
           | Inr session \<Rightarrow>
               (case findSettlement w of
                  Inl e \<Rightarrow> ([], Inl e)
                | Inr found \<Rightarrow>
                    (let first = (case found of
                                    Some existing \<Rightarrow> UpdateSettlement existing
                                  | None \<Rightarrow> CreateSettlement (responseId w))
                     in case writeSettlement w of
                          Inl e \<Rightarrow> ([first], Inl e)
                        | Inr written \<Rightarrow>
                            (case findDemo w of
                               Inl e \<Rightarrow> ([first], Inl e)
                             | Inr foundDemo \<Rightarrow>
                                 (let second = (case foundDemo of
                                                  Some existing \<Rightarrow> UpdateDemo existing
                                                | None \<Rightarrow> CreateDemo (responseId w))
                                  in case writeDemo w of
                                       Inl e \<Rightarrow> ([first, second], Inl e)
                                     | Inr wrote \<Rightarrow> ([first, second], Inr ())))))))"

text \<open>The admin route: the answer and the events; the \<^verbatim>\<open>catch\<close> answers 500.\<close>

definition adminSettle :: "admin_world \<Rightarrow> admin_response \<times> admin_event list" where
  "adminSettle w =
     (case adminValidate w of
        Inl e \<Rightarrow> (AdminThrown e, [])
      | Inr (Inl early) \<Rightarrow> (early, [])
      | Inr (Inr chosen) \<Rightarrow>
          (case adminLedger w chosen of
             (evs, Inl e) \<Rightarrow> (AdminThrown e, evs)
           | (evs, Inr (Inl early)) \<Rightarrow> (early, evs)
           | (evs, Inr (Inr hash)) \<Rightarrow>
               (case adminAudit w of
                  (evs', Inl e) \<Rightarrow> (AdminThrown e, evs @ evs')
                | (evs', Inr u) \<Rightarrow> (AdminSettled hash (responseId w) chosen, evs @ evs'))))"

subsection \<open>Reading the events of a creation\<close>

text \<open>The nonces of the attempts among the events, in the order they were sent.\<close>

fun sentNonces :: "create_event list \<Rightarrow> nat list" where
  "sentNonces [] = []"
| "sentNonces (NewMarketTx n # evs) = n # sentNonces evs"
| "sentNonces (e # evs) = sentNonces evs"

text \<open>A run of attempts in which a wait of one second precedes every attempt but the first.\<close>

fun withBackoff :: "nat list \<Rightarrow> create_event list" where
  "withBackoff [] = []"
| "withBackoff [n] = [NewMarketTx n]"
| "withBackoff (n # ns) = NewMarketTx n # Backoff 1000 # withBackoff ns"

text \<open>
  The retry loop as the handler starts it, with the pending transaction count \<open>base\<close> as
  the first nonce: its events, its result and the number of attempts it made.
\<close>

definition creationEvents :: "create_world \<Rightarrow> nat \<Rightarrow> create_event list" where
  "creationEvents w base = fst (newMarketLoop w base 0)"

definition creationResult :: "create_world \<Rightarrow> nat \<Rightarrow> create_error + string option" where
  "creationResult w base = snd (newMarketLoop w base 0)"

definition attemptsMade :: "create_world \<Rightarrow> nat \<Rightarrow> nat" where
  "attemptsMade w base = length (sentNonces (creationEvents w base))"

section \<open>Scenarios\<close>

text \<open>The JSON object a judge is asked for: \<^verbatim>\<open>{ "result": r, "confidence": c }\<close>.\<close>

definition verdict :: "string \<Rightarrow> rat \<Rightarrow> llm_reply" where
  "verdict r c = Parsed (JObj [(''result'', JStr r), (''confidence'', JNum c)])"

text \<open>
  A panel with three YES votes, one judge whose answer does not parse and one who reports
  a confidence that is no integer.
\<close>

definition panelMajority :: "nat \<Rightarrow> llm_reply" where
  "panelMajority k =
     (if k = 1 then verdict ''YES'' 9000
      else if k = 2 then verdict ''YES'' 9000
      else if k = 3 then verdict ''YES'' 9000
      else if k = 4 then Unparsable
      else verdict ''NO'' (1 / 2))"

text \<open>The panel of the tie scenario: the judges return YES, YES, NO, NO, INCONCLUSIVE.\<close>

definition panelTie :: "nat \<Rightarrow> llm_reply" where
  "panelTie k =
     (if k = 1 then verdict ''YES'' 9000
      else if k = 2 then verdict ''YES'' 8000
      else if k = 3 then verdict ''NO'' 7000
      else if k = 4 then verdict ''NO'' 6000
      else verdict ''INCONCLUSIVE'' 5003)"

text \<open>
  Three panels of five equal votes: at \<open>2\<^sup>5\<^sup>3 - 1\<close>, the largest integer below which every
  integer is a double, and at \<open>2\<^sup>1\<^sup>0\<^sup>2\<^sup>3\<close> and its negative, two of which already add up to
  an infinity.
\<close>

definition panelLarge :: "nat \<Rightarrow> llm_reply" where
  "panelLarge k = verdict ''YES'' 9007199254740991"



text \<open>
  A runtime for the scenarios. It covers what they use: \<^verbatim>\<open>parseInt\<close> of a string of
  decimal digits, \<^verbatim>\<open>toLowerCase\<close> on ASCII letters, and the comparison of two numbers.
\<close>

definition asciiLower :: "char \<Rightarrow> char" where
  "asciiLower c =
     (let code = (of_char c :: nat)
      in if 65 \<le> code \<and> code \<le> 90 then char_of (code + 32) else c)"

definition decimalOf :: "jsval \<Rightarrow> int option" where
  "decimalOf v =
     (case v of
        JStr s \<Rightarrow> if s = [] then None else map_option int (digitsVal 0 s)
      | _ \<Rightarrow> None)"

fun onNumbers :: "(rat \<Rightarrow> rat \<Rightarrow> bool) \<Rightarrow> jsval \<Rightarrow> jsval \<Rightarrow> bool" where
  "onNumbers f (JNum a) (JNum b) = f a b"
| "onNumbers f a b = False"

text \<open>
  The inherited members the scenarios meet: \<^verbatim>\<open>constructor\<close> of an object and of an
  array, the \<^verbatim>\<open>name\<close> of a native function, and the accessor \<^verbatim>\<open>caller\<close> of a native
  function, taken here as one that throws.
\<close>

definition scenarioPrototypes :: "jsval \<Rightarrow> string \<Rightarrow> js_error + jsval" where
  "scenarioPrototypes v k =
     (case v of
        JObj kvs \<Rightarrow> if k = ''constructor'' then Inr (JNative ''Object'') else Inr JUndefined
      | JArr xs \<Rightarrow> if k = ''constructor'' then Inr (JNative ''Array'') else Inr JUndefined
      | JNative n \<Rightarrow>
          if k = ''name'' then Inr (JStr n)
          else if k = ''caller'' then Inl TypeError
          else Inr JUndefined
      | _ \<Rightarrow> Inr JUndefined)"

definition scenarioRuntime :: js_runtime where
  "scenarioRuntime =
     \<lparr> parseInt = decimalOf,
       toLowerCase = map asciiLower,
       jsGreater = onNumbers (\<lambda>a b. a > b),
       jsLess = onNumbers (\<lambda>a b. a < b),
       jsGreaterEq = onNumbers (\<lambda>a b. a \<ge> b),
       jsLessEq = onNumbers (\<lambda>a b. a \<le> b),
       jsLooseEq = onNumbers (\<lambda>a b. a = b),
       inherited = scenarioPrototypes \<rparr>"

text \<open>The same runtime with empty prototypes: every read is an own-property read.\<close>

definition bareRuntime :: js_runtime where
  "bareRuntime = scenarioRuntime \<lparr> inherited := (\<lambda>v k. Inr JUndefined) \<rparr>"

text \<open>The price scenario: "is the price above 1", with a live value of 50000.\<close>

definition priceSpec :: discrete_oracle_spec where
  "priceSpec =
     \<lparr> category = CRYPTO_PRICE,
       natural_language_summary = ''Bitcoin above one dollar'',
       source = \<lparr> name = ''CoinGecko'',
                  endpoint = ''https://api.coingecko.com/api/v3/simple/price'',
                  params = Some [(''ids'', ''bitcoin''), (''vs_currencies'', ''usd'')],
                  headers = None \<rparr>,
       extraction_path = JStr ''$.bitcoin.usd'',
       operator = ''>'',
       target_value = JNum 1,
       resolution_timestamp = ''2025-01-01T00:00:00.000Z'' \<rparr>"

definition priceFeed :: jsval where
  "priceFeed = JObj [(''bitcoin'', JObj [(''usd'', JNum 50000)])]"

definition priceWorld :: discrete_world where
  "priceWorld =
     \<lparr> requestBody = Inr (JObj [(''marketId'', JStr ''7'')]),
       specDoc = Inr (Some (DISCRETE priceSpec)),
       validUrl = (\<lambda>u. True),
       fetch = (\<lambda>req. FetchJson priceFeed) \<rparr>"

text \<open>The same market when the feed has no entry for the coin.\<close>

definition emptyFeedWorld :: discrete_world where
  "emptyFeedWorld =
     \<lparr> requestBody = Inr (JObj [(''marketId'', JStr ''7'')]),
       specDoc = Inr (Some (DISCRETE priceSpec)),
       validUrl = (\<lambda>u. True),
       fetch = (\<lambda>req. FetchJson (JObj [])) \<rparr>"

text \<open>
  The same market when the classifier returned the path as a list of one text, which
  the creation route stored as it came.
\<close>

definition listPathReply :: jsval where
  "listPathReply =
     JObj [(''type'', JStr ''DISCRETE''), (''category'', JStr ''CRYPTO_PRICE''),
           (''spec'', JObj [(''extraction_path'', JArr [JStr ''$.bitcoin.usd''])])]"

definition listPathSpec :: discrete_oracle_spec where
  "listPathSpec = priceSpec \<lparr> extraction_path := JArr [JStr ''$.bitcoin.usd''] \<rparr>"

definition listPathWorld :: discrete_world where
  "listPathWorld =
     \<lparr> requestBody = Inr (JObj [(''marketId'', JStr ''7'')]),
       specDoc = Inr (Some (DISCRETE listPathSpec)),
       validUrl = (\<lambda>u. True),
       fetch = (\<lambda>req. FetchJson priceFeed) \<rparr>"

text \<open>The sports scenario: the team played at home and won 110 to 102.\<close>

definition sportsSpec :: discrete_oracle_spec where
  "sportsSpec =
     \<lparr> category = SPORTS_SCORE,
       natural_language_summary = ''Lakers won their last game'',
       source = \<lparr> name = ''TheSportsDB'',
                  endpoint = ''https://www.thesportsdb.com/api/v1/json/3/searchteams.php'',
                  params = Some [(''team_search'', ''Los Angeles Lakers'')],
                  headers = None \<rparr>,
       extraction_path = JStr ''$.results[0]'',
       operator = ''=='',
       target_value = JBool True,
       resolution_timestamp = ''2025-01-01T00:00:00.000Z'' \<rparr>"

definition sportsFeed :: "request \<Rightarrow> fetch_result" where
  "sportsFeed req =
     (case req of
        SportsTeamSearch team \<Rightarrow>
          FetchJson (JObj [(''teams'', JArr [JObj [(''idTeam'', JStr ''134867''),
                                                  (''strTeam'', JStr ''Los Angeles Lakers'')]])])
      | SportsLastEvents teamId \<Rightarrow>
          FetchJson (JObj [(''results'', JArr [JObj [(''strHomeTeam'', JStr ''Los Angeles Lakers''),
                                                    (''strAwayTeam'', JStr ''Boston Celtics''),
                                                    (''intHomeScore'', JStr ''110''),
                                                    (''intAwayScore'', JStr ''102'')]])])
      | _ \<Rightarrow> FetchThrows)"

definition sportsWorld :: discrete_world where
  "sportsWorld =
     \<lparr> requestBody = Inr (JObj [(''marketId'', JStr ''8'')]),
       specDoc = Inr (Some (DISCRETE sportsSpec)),
       validUrl = (\<lambda>u. True),
       fetch = sportsFeed \<rparr>"

text \<open>
  A settlement request for market 7. The ledger, the signing client and the audit store
  answer; \<^verbatim>\<open>BigInt\<close> is given on the integers, which is all the scenarios send.
\<close>

definition bigIntOfNumber :: "jsval \<Rightarrow> js_error + int" where
  "bigIntOfNumber v = (if numberIsInteger v then Inr (integerValue v) else Inl SyntaxError)"

definition settleWorld :: "nat \<Rightarrow> string \<Rightarrow> js_error + discrete_response \<Rightarrow> (nat \<Rightarrow> llm_reply) \<Rightarrow> settle_world" where
  "settleWorld st q discrete panel =
     \<lparr> settleBody = Inr (JObj [(''marketId'', JNum 7)]),
       bigInt = bigIntOfNumber,
       env = \<lparr> rpcUrl = ''https://rpc.example'', privateKey = ''0xkey'',
               marketAddress = ''0xmarket'', geminiKey = ''key'' \<rparr>,
       clients = Inr (),
       getMarketFirst = Inr \<lparr> question = q, status = st \<rparr>,
       requestSettlement = Inr (),
       getMarketAgain = Inr \<lparr> question = q, status = (if st = 0 then 1 else st) \<rparr>,
       discreteCall = discrete,
       mockIndex = 0,
       judge = panel,
       chainSetup = Inr (),
       writeContract = Inr ''0xreport'',
       auditWrite = Inr () \<rparr>"

text \<open>
  The market is already Settled (status 2) and the discrete route answers the price
  scenario.
\<close>

definition settledMarketWorld :: settle_world where
  "settledMarketWorld =
     settleWorld 2 ''Is the price above 1?'' (Inr (resolveDiscrete scenarioRuntime priceWorld)) panelTie"




text \<open>
  A creation request for the next market id 7 from an account whose pending transaction
  count is 40. The ledger and the classifier are the parameters.
\<close>

definition createWorld :: "(nat \<Rightarrow> tx_outcome) \<Rightarrow> llm_reply \<Rightarrow> js_error + unit \<Rightarrow> create_world" where
  "createWorld ledger reply written =
     \<lparr> createBody = Inr (JObj [(''question'', JStr ''Is the price above 1?'')]),
       createEnv = \<lparr> rpcUrl = ''https://rpc.example'', privateKey = ''0xkey'',
                     marketAddress = ''0xmarket'', geminiKey = ''key'' \<rparr>,
       createClients = Inr (),
       nextMarketId = Inr 7,
       getTransactionCount = Inr 40,
       newMarket = ledger,
       classifier = reply,
       now = ''2025-01-01T00:00:00.000Z'',
       setDoc = written \<rparr>"

text \<open>Three ledgers: every attempt is confirmed; the nonce 40 is taken; every nonce is taken.\<close>

definition confirmsAll :: "nat \<Rightarrow> tx_outcome" where
  "confirmsAll n = TxConfirmed ''0xcreate''"

definition nonceTakenOnce :: "nat \<Rightarrow> tx_outcome" where
  "nonceTakenOnce n = (if n = 40 then TxFailed (Some ''nonce too low'') else TxConfirmed ''0xcreate'')"

definition nonceTakenAlways :: "nat \<Rightarrow> tx_outcome" where
  "nonceTakenAlways n = TxFailed (Some ''nonce too low'')"

definition revertsAll :: "nat \<Rightarrow> tx_outcome" where
  "revertsAll n = TxFailed (Some ''execution reverted'')"

definition contiguousReply :: llm_reply where
  "contiguousReply = Parsed (JObj [(''type'', JStr ''CONTIGUOUS''), (''category'', JStr ''GENERAL_AI'')])"

text \<open>The nonce-conflict scenario: the first attempt hits a nonce conflict, the second succeeds.\<close>

definition nonceConflictWorld :: create_world where
  "nonceConflictWorld = createWorld nonceTakenOnce contiguousReply (Inr ())"

definition nonceExhaustedWorld :: create_world where
  "nonceExhaustedWorld = createWorld nonceTakenAlways contiguousReply (Inr ())"

definition revertedWorld :: create_world where
  "revertedWorld = createWorld revertsAll contiguousReply (Inr ())"

text \<open>The creation is confirmed and the call of the classifier throws.\<close>

definition classifierDownWorld :: create_world where
  "classifierDownWorld = createWorld confirmsAll ServiceFailure (Inr ())"

text \<open>The creation is confirmed and no key of the classifier is configured.\<close>

definition noClassifierWorld :: create_world where
  "noClassifierWorld =
     (createWorld confirmsAll contiguousReply (Inr ()))
       \<lparr> createEnv := \<lparr> rpcUrl = ''https://rpc.example'', privateKey = ''0xkey'',
                         marketAddress = ''0xmarket'', geminiKey = [] \<rparr> \<rparr>"

text \<open>The creation is confirmed and the classifier answers.\<close>

definition classifiedWorld :: create_world where
  "classifiedWorld = createWorld confirmsAll contiguousReply (Inr ())"

text \<open>
  An admin request for market 7, which needs manual settlement (status 3), with the
  given password and outcome.
\<close>

definition adminWorld :: "string \<Rightarrow> string \<Rightarrow> admin_world" where
  "adminWorld password chosen =
     \<lparr> adminBody = Inr (JObj [(''marketId'', JNum 7), (''outcome'', JStr chosen),
                               (''source'', JStr ''official result''), (''comments'', JStr []),
                               (''adminPassword'', JStr password)]),
       adminEnv = \<lparr> rpcUrl = ''https://rpc.example'', privateKey = ''0xkey'',
                    marketAddress = ''0xmarket'', geminiKey = ''key'' \<rparr>,
       adminClients = Inr (),
       getMarket = Inr \<lparr> question = ''Will it rain tomorrow?'', status = 3 \<rparr>,
       settleMarketManually = Inr ''0xmanual'',
       adminRequestSettlement = Inr (),
       submitReport = Inr ''0xsubmit'',
       txWait = Inr (),
       responseId = ''admin-1'',
       signIn = Inr (),
       findSettlement = Inr None,
       writeSettlement = Inr (),
       findDemo = Inr None,
       writeDemo = Inr () \<rparr>"

section \<open>Verification: the arithmetic of doubles\<close>

lemma bitLength_0: "bitLength 0 = 0"
  by (simp add: bitLength.simps)

lemma bitLength_step: "0 < n \<Longrightarrow> bitLength n = Suc (bitLength (n div 2))"
  by (subst bitLength.simps) simp

lemma bitLength_le: "n < 2 ^ w \<Longrightarrow> bitLength n \<le> w"
proof (induction w arbitrary: n)
  case 0
  then show ?case by (simp add: bitLength_0)
next
  case (Suc w)
  show ?case
  proof (cases "n = 0")
    case True
    then show ?thesis by (simp add: bitLength_0)
  next
    case False
    from Suc.prems have "n div 2 < 2 ^ w" by simp
    then have "bitLength (n div 2) \<le> w" by (rule Suc.IH)
    with False show ?thesis by (simp add: bitLength_step)
  qed
qed

lemma bitLength_eq: "2 ^ w \<le> n \<Longrightarrow> n < 2 ^ Suc w \<Longrightarrow> bitLength n = Suc w"
proof (induction w arbitrary: n)
  case 0
  then have "n = 1" by simp
  then show ?case by (simp add: bitLength_step bitLength_0)
next
  case (Suc w)
  from Suc.prems have pos: "0 < n" by (cases n) simp_all
  from Suc.prems have "2 ^ w \<le> n div 2" "n div 2 < 2 ^ Suc w" by simp_all
  then have "bitLength (n div 2) = Suc w" by (rule Suc.IH)
  with pos show ?case by (simp add: bitLength_step)
qed

lemma bitLength_pos: "0 < n \<Longrightarrow> 0 < bitLength n"
  by (simp add: bitLength_step)

lemma pow2_nonpos: "k \<le> 0 \<Longrightarrow> pow2 k = 1 / 2 ^ nat (- k)"
  by (cases "k = 0") (simp_all add: pow2_def)

lemma pow2_nat: "pow2 (int j) = 2 ^ j"
  by (simp add: pow2_def)

lemma roundHalfEven_of_int: "roundHalfEven (of_int z) = z"
  by (simp add: roundHalfEven_def)

lemma roundHalfEven_numeral: "roundHalfEven (numeral v) = numeral v"
  using roundHalfEven_of_int [of "numeral v"] by simp

lemma roundHalfEven_near: "\<bar>of_int (roundHalfEven y) - y\<bar> \<le> 1 / 2"
proof -
  define f where "f = \<lfloor>y\<rfloor>"
  define r where "r = (of_int f :: rat)"
  have b: "r \<le> y" "y < r + 1" unfolding r_def f_def by linarith+
  have eq: "of_int (roundHalfEven y) =
              (if y - r < 1 / 2 then r else if 1 / 2 < y - r then r + 1
               else if even f then r else r + 1)"
    by (simp add: roundHalfEven_def Let_def r_def f_def)
  show ?thesis using b unfolding eq by (auto simp: abs_if)
qed

lemma exponentOf_large:
  assumes "(2::rat) ^ w \<le> a" and "a < 2 ^ Suc w"
  shows "exponentOf a = int w"
proof -
  have "(1::rat) \<le> 2 ^ w" by simp
  with assms(1) have one: "1 \<le> a" by linarith
  have "(2::int) ^ w \<le> \<lfloor>a\<rfloor>" using assms(1) by (simp add: le_floor_iff)
  moreover have "\<lfloor>a\<rfloor> < 2 ^ Suc w" using assms(2) by (simp add: floor_less_iff)
  ultimately have "2 ^ w \<le> nat \<lfloor>a\<rfloor>" "nat \<lfloor>a\<rfloor> < 2 ^ Suc w"
    by (simp_all only: numeral_power_le_nat_cancel_iff nat_less_numeral_power_cancel_iff)
  then have "bitLength (nat \<lfloor>a\<rfloor>) = Suc w" by (rule bitLength_eq)
  with one show ?thesis by (simp add: exponentOf_def)
qed

lemma exponentOf_below:
  assumes "0 < a" and "a < 2 ^ w"
  shows "exponentOf a \<le> int w - 1"
proof (cases "1 \<le> a")
  case True
  have "\<lfloor>a\<rfloor> < 2 ^ w" using assms(2) by (simp add: floor_less_iff)
  then have "nat \<lfloor>a\<rfloor> < 2 ^ w" by (simp add: nat_less_iff)
  then have "bitLength (nat \<lfloor>a\<rfloor>) \<le> w" by (rule bitLength_le)
  with True show ?thesis by (simp add: exponentOf_def)
next
  case False
  with assms(1) have "1 \<le> 1 / a" by simp
  then have "1 \<le> \<lfloor>1 / a\<rfloor>" by (simp add: le_floor_iff)
  then have "0 < nat \<lfloor>1 / a\<rfloor>" by simp
  then have "0 < bitLength (nat \<lfloor>1 / a\<rfloor>)" by (rule bitLength_pos)
  then have l: "1 \<le> int (bitLength (nat \<lfloor>1 / a\<rfloor>))" by simp
  have "exponentOf a \<le> - 1"
  proof (cases "int (bitLength (nat \<lfloor>1 / a\<rfloor>)) = 1")
    case True
    with False show ?thesis by (simp add: exponentOf_def pow2_def)
  next
    case other: False
    with l have "2 \<le> int (bitLength (nat \<lfloor>1 / a\<rfloor>))" by linarith
    with False show ?thesis by (simp add: exponentOf_def Let_def)
  qed
  then show ?thesis by linarith
qed


lemma roundDouble_minus:
  "roundDouble (- x) =
     (case roundDouble x of
        Finite y \<Rightarrow> Finite (- y) | PosInfinity \<Rightarrow> NegInfinity | NegInfinity \<Rightarrow> PosInfinity)"
  by (cases "x = 0"; cases "0 < x") (auto simp: roundDouble_def Let_def)

lemma roundDouble_positive:
  assumes "0 < x" and "exponentOf x = e" and "- 1022 \<le> e"
    and "of_int (roundHalfEven (x / pow2 (e - 52))) * pow2 (e - 52) < 2 ^ 1024"
  shows "roundDouble x = Finite (of_int (roundHalfEven (x / pow2 (e - 52))) * pow2 (e - 52))"
proof -
  from assms(3) have k: "max (e - 52) (- 1074) = e - 52" by simp
  from assms(1) have a: "\<bar>x\<bar> = x" "x \<noteq> 0" by simp_all
  from assms(4) have "\<not> 2 ^ 1024 \<le> of_int (roundHalfEven (x / pow2 (e - 52))) * pow2 (e - 52)"
    by simp
  then show ?thesis
    unfolding roundDouble_def Let_def a assms(2) k using assms(1) a(2) by simp
qed

lemma below_max: "(z::rat) \<le> 2 ^ 960 \<Longrightarrow> z < 2 ^ 1024"
proof -
  assume "z \<le> 2 ^ 960"
  moreover have "(2::rat) ^ 960 < 2 ^ 1024" by (rule power_strict_increasing) simp_all
  ultimately show ?thesis by linarith
qed

lemma roundDouble_large:
  assumes "(2::rat) ^ (52 + j) \<le> x" and "x < 2 ^ (53 + j)" and "j \<le> 900"
  shows "roundDouble x = Finite (of_int (roundHalfEven (x / 2 ^ j)) * 2 ^ j)"
proof -
  have "(0::rat) < 2 ^ (52 + j)" by simp
  with assms(1) have pos: "0 < x" by linarith
  from assms(1,2) have e: "exponentOf x = int (52 + j)"
    by (intro exponentOf_large) simp_all
  have "of_int (roundHalfEven (x / 2 ^ j)) \<le> x / 2 ^ j + 1 / 2"
    using roundHalfEven_near [of "x / 2 ^ j"] by linarith
  moreover have "x / 2 ^ j < 2 ^ 53"
    using assms(2) by (simp add: divide_less_eq power_add)
  ultimately have "(of_int (roundHalfEven (x / 2 ^ j)) :: rat) \<le> 2 ^ 53 + 1 / 2" by linarith
  then have "(of_int (roundHalfEven (x / 2 ^ j)) :: rat) \<le> 2 ^ 54" by simp
  then have "(of_int (roundHalfEven (x / 2 ^ j)) :: rat) * 2 ^ j \<le> 2 ^ 54 * 2 ^ j"
    by (simp add: mult_right_mono)
  also have "\<dots> = 2 ^ (54 + j)" by (simp add: power_add)
  also have "\<dots> \<le> 2 ^ 960" using assms(3) by (intro power_increasing) simp_all
  finally have "(of_int (roundHalfEven (x / 2 ^ j)) :: rat) * 2 ^ j < 2 ^ 1024" by (rule below_max)
  with roundDouble_positive [OF pos e] show ?thesis by (simp add: pow2_nat)
qed

lemma roundDouble_exact_pos:
  assumes "0 < n" and "n \<le> 2 ^ 53"
  shows "roundDouble (of_int n) = Finite (of_int n)"
proof (cases "n = 2 ^ 53")
  case True
  have "roundDouble (2 ^ 53) = Finite (of_int (roundHalfEven ((2 ^ 53) / 2 ^ 1)) * 2 ^ 1)"
    by (rule roundDouble_large) simp_all
  also have "((2::rat) ^ 53) / 2 ^ 1 = of_int (2 ^ 52)" by simp
  finally show ?thesis using True by (simp add: roundHalfEven_numeral)
next
  case False
  with assms(2) have lt: "n < 2 ^ 53" by simp
  let ?x = "of_int n :: rat"
  from assms(1) have pos: "0 < ?x" by simp
  from assms(1) have one: "1 \<le> ?x" by simp
  define e where "e = exponentOf ?x"
  have "?x < 2 ^ 53" using lt by (simp add: of_int_less_numeral_power_cancel_iff)
  with pos have up: "e \<le> 52" unfolding e_def using exponentOf_below [of ?x 53] by simp
  have "0 < bitLength (nat \<lfloor>?x\<rfloor>)" using assms(1) by (intro bitLength_pos) simp
  with one have low: "0 \<le> e" by (simp add: e_def exponentOf_def)
  define j where "j = nat (52 - e)"
  from up low have p: "pow2 (e - 52) = 1 / 2 ^ j"
    using pow2_nonpos [of "e - 52"] by (simp add: j_def)
  have sc: "?x / pow2 (e - 52) = of_int (n * 2 ^ j)" by (simp add: p)
  have y: "of_int (roundHalfEven (?x / pow2 (e - 52))) * pow2 (e - 52) = ?x"
    unfolding sc roundHalfEven_of_int by (simp add: p)
  have "?x \<le> 2 ^ 960"
  proof -
    have "(2::rat) ^ 53 \<le> 2 ^ 960" by (rule power_increasing) simp_all
    with \<open>?x < 2 ^ 53\<close> show ?thesis by linarith
  qed
  then have "?x < 2 ^ 1024" by (rule below_max)
  with roundDouble_positive [OF pos e_def [symmetric], unfolded y] low show ?thesis by simp
qed

lemma roundDouble_exact:
  assumes "\<bar>n\<bar> \<le> 2 ^ 53"
  shows "roundDouble (of_int n) = Finite (of_int n)"
proof -
  consider "n = 0" | "0 < n" | "n < 0" by linarith
  then show ?thesis
  proof cases
    case 1
    then show ?thesis by (simp add: roundDouble_def)
  next
    case 2
    with assms show ?thesis by (intro roundDouble_exact_pos) simp_all
  next
    case 3
    with assms have "roundDouble (of_int (- n)) = Finite (of_int (- n))"
      by (intro roundDouble_exact_pos) simp_all
    with roundDouble_minus [of "of_int (- n)"] show ?thesis by simp
  qed
qed


lemma roundDouble_small:
  assumes "0 < x" and "x < 2 ^ 51"
  shows "\<exists>y. roundDouble x = Finite y \<and> \<bar>y - x\<bar> \<le> 1 / 8
             \<and> (\<forall>q. x = of_int q \<longrightarrow> y = x)"
proof -
  define k where "k = max (exponentOf x - 52) (- 1074)"
  define n where "n = nat (- k)"
  define y where "y = of_int (roundHalfEven (x / pow2 k)) * pow2 k"
  have "exponentOf x \<le> 50" using exponentOf_below [OF assms, simplified] by simp
  then have k: "k \<le> - 2" by (simp add: k_def)
  then have n: "2 \<le> n" by (simp add: n_def)
  from k have p: "pow2 k = 1 / 2 ^ n" unfolding n_def by (intro pow2_nonpos) simp
  have "(2::rat) ^ 2 \<le> 2 ^ n" using n by (intro power_increasing) simp_all
  then have four: "(4::rat) \<le> 2 ^ n" by simp
  have y': "y = of_int (roundHalfEven (x * 2 ^ n)) / 2 ^ n" by (simp add: y_def p)
  have "\<bar>of_int (roundHalfEven (x * 2 ^ n)) - x * 2 ^ n\<bar> \<le> 1 / 2" by (rule roundHalfEven_near)
  then have "\<bar>of_int (roundHalfEven (x * 2 ^ n)) - x * 2 ^ n\<bar> / 2 ^ n \<le> (1 / 2) / 2 ^ n"
    by (intro divide_right_mono) simp_all
  moreover have "\<bar>(2::rat) ^ n\<bar> = 2 ^ n" by simp
  ultimately have "\<bar>(of_int (roundHalfEven (x * 2 ^ n)) - x * 2 ^ n) / 2 ^ n\<bar> \<le> (1 / 2) / 2 ^ n"
    by (simp only: abs_divide)
  moreover have "(of_int (roundHalfEven (x * 2 ^ n)) - x * 2 ^ n) / 2 ^ n = y - x"
    by (simp add: y' diff_divide_distrib)
  moreover have "(1 / 2) / (2::rat) ^ n \<le> 1 / 8"
    using four by (simp add: field_simps)
  ultimately have near: "\<bar>y - x\<bar> \<le> 1 / 8" by linarith
  have exact: "y = x" if "x = of_int q" for q
  proof -
    have e1: "x * 2 ^ n = of_int (q * 2 ^ n)" using that by simp
    have "roundHalfEven (x * 2 ^ n) = q * 2 ^ n" unfolding e1 by (rule roundHalfEven_of_int)
    then have "y = of_int (q * 2 ^ n) / 2 ^ n" by (simp only: y')
    also have "\<dots> = of_int q" by simp
    finally show ?thesis using that by simp
  qed
  have "y \<le> 2 ^ 960"
  proof -
    have "(2::rat) ^ 52 \<le> 2 ^ 960" by (rule power_increasing) simp_all
    moreover have "y \<le> 2 ^ 52"
    proof -
      from abs_le_D1 [OF near] have "y \<le> x + 1 / 8" by linarith
      also have "\<dots> < 2 ^ 51 + 1 / 8" using assms(2) by linarith
      also have "\<dots> \<le> 2 ^ 52" by simp
      finally show ?thesis by (rule less_imp_le)
    qed
    ultimately show ?thesis by linarith
  qed
  then have "y < 2 ^ 1024" by (rule below_max)
  then have "\<not> 2 ^ 1024 \<le> y" by simp
  then have "roundDouble x = Finite y"
    using assms(1) unfolding roundDouble_def Let_def y_def k_def by simp
  with near exact show ?thesis by blast
qed

lemma roundDouble_fifth:
  assumes "\<bar>t\<bar> \<le> 2 ^ 53"
  shows "\<exists>y. roundDouble (of_int t / 5) = Finite y \<and> \<bar>y - of_int t / 5\<bar> \<le> 1 / 8
             \<and> (5 dvd t \<longrightarrow> y = of_int t / 5)"
proof -
  have pos: "\<exists>y. roundDouble (of_int u / 5) = Finite y \<and> \<bar>y - of_int u / 5\<bar> \<le> 1 / 8
             \<and> (5 dvd u \<longrightarrow> y = of_int u / 5)" if u: "0 < u" "u \<le> 2 ^ 53" for u :: int
  proof -
    have "(of_int u :: rat) \<le> 2 ^ 53" using u(2) by (simp add: of_int_le_numeral_power_cancel_iff)
    then have "(of_int u :: rat) / 5 < 2 ^ 51" by simp
    moreover have "0 < (of_int u :: rat) / 5" using u(1) by simp
    ultimately obtain y where y: "roundDouble (of_int u / 5) = Finite y"
        "\<bar>y - of_int u / 5\<bar> \<le> 1 / 8" "\<forall>q. (of_int u :: rat) / 5 = of_int q \<longrightarrow> y = of_int u / 5"
      using roundDouble_small by blast
    have "y = of_int u / 5" if "5 dvd u"
    proof -
      from that obtain q where "u = 5 * q" by (rule dvdE)
      then have "(of_int u :: rat) / 5 = of_int q" by simp
      with y(3) show ?thesis by blast
    qed
    with y(1,2) show ?thesis by blast
  qed
  consider "t = 0" | "0 < t" | "t < 0" by linarith
  then show ?thesis
  proof cases
    case 1
    then show ?thesis by (simp add: roundDouble_def)
  next
    case 2
    with assms show ?thesis by (intro pos) simp_all
  next
    case 3
    with assms have "0 < - t" "- t \<le> 2 ^ 53" by simp_all
    from pos [OF this] obtain y where y: "roundDouble (of_int (- t) / 5) = Finite y"
      "\<bar>y - of_int (- t) / 5\<bar> \<le> 1 / 8" "5 dvd - t \<longrightarrow> y = of_int (- t) / 5" by blast
    have "roundDouble (of_int t / 5) = Finite (- y)"
      using roundDouble_minus [of "of_int (- t) / 5"] y(1) by simp
    moreover have "\<bar>- y - of_int t / 5\<bar> \<le> 1 / 8"
    proof -
      have "- y - of_int t / 5 = - (y - of_int (- t) / 5)" by simp
      then have "\<bar>- y - of_int t / 5\<bar> = \<bar>y - of_int (- t) / 5\<bar>"
        by (simp only: abs_minus_cancel)
      with y(2) show ?thesis by (simp only:)
    qed
    moreover have "5 dvd t \<longrightarrow> - y = of_int t / 5" using y(3) by simp
    ultimately show ?thesis by blast
  qed
qed

lemma floor_near_fifth:
  assumes "\<bar>y - of_int t / 5\<bar> \<le> 1 / 8" and "5 dvd t \<longrightarrow> y = of_int t / 5"
  shows "\<lfloor>y :: rat\<rfloor> = t div 5"
proof (cases "5 dvd t")
  case True
  then obtain q where q: "t = 5 * q" by (rule dvdE)
  with assms(2) True have "y = of_int q" by simp
  with q show ?thesis by simp
next
  case False
  define q where "q = t div 5"
  define r where "r = t mod 5"
  have t: "t = 5 * q + r" by (simp add: q_def r_def)
  have "0 \<le> r" "r < 5" by (simp_all add: r_def)
  moreover have "r \<noteq> 0" using False by (simp add: r_def dvd_eq_mod_eq_0)
  ultimately have r: "1 \<le> r" "r \<le> 4" by linarith+
  have x: "(of_int t :: rat) / 5 = of_int q + of_int r / 5" by (simp add: t)
  have "(1::rat) \<le> of_int r" "(of_int r :: rat) \<le> 4" using r by simp_all
  moreover from assms(1) have "y - (of_int q + of_int r / 5) \<le> 1 / 8"
    "- (y - (of_int q + of_int r / 5)) \<le> 1 / 8"
    unfolding x by (rule abs_le_D1, rule abs_le_D2)
  ultimately have "of_int q \<le> y" "y < of_int q + 1" by linarith+
  then have "\<lfloor>y\<rfloor> = q" by (simp add: floor_unique)
  then show ?thesis by (simp add: q_def)
qed

lemma mathFloor_fifth:
  assumes "\<bar>t\<bar> \<le> 2 ^ 53"
  shows "mathFloor (divDouble (Finite (of_int t)) 5) = Finite (t div 5)"
proof -
  from roundDouble_fifth [OF assms] obtain y where y: "roundDouble (of_int t / 5) = Finite y"
    "\<bar>y - of_int t / 5\<bar> \<le> 1 / 8" "5 dvd t \<longrightarrow> y = of_int t / 5" by blast
  from floor_near_fifth [OF y(2,3)] y(1) show ?thesis by simp
qed

lemma addDouble_exact:
  "\<bar>s + c\<bar> \<le> 2 ^ 53 \<Longrightarrow> addDouble (Finite (of_int s)) c = Finite (of_int (s + c))"
  using roundDouble_exact [of "s + c"] by simp

lemma foldl_addDouble:
  assumes "\<forall>n \<le> length cs. \<bar>s + sum_list (take n cs)\<bar> \<le> 2 ^ 53"
  shows "foldl addDouble (Finite (of_int s)) cs = Finite (of_int (s + sum_list cs))"
  using assms
proof (induction cs arbitrary: s)
  case Nil
  show ?case by simp
next
  case (Cons c cs)
  from Cons.prems [rule_format, of 1] have "\<bar>s + c\<bar> \<le> 2 ^ 53" by simp
  then have step: "addDouble (Finite (of_int s)) c = Finite (of_int (s + c))"
    by (rule addDouble_exact)
  have "\<forall>n \<le> length cs. \<bar>(s + c) + sum_list (take n cs)\<bar> \<le> 2 ^ 53"
  proof (intro allI impI)
    fix n assume "n \<le> length cs"
    with Cons.prems [rule_format, of "Suc n"] show "\<bar>(s + c) + sum_list (take n cs)\<bar> \<le> 2 ^ 53"
      by (simp add: add.assoc)
  qed
  from Cons.IH [OF this] step show ?case by (simp add: add.assoc)
qed







lemma floor_numeral_div:
  "\<lfloor>(numeral a :: rat) / numeral b\<rfloor> = numeral a div numeral b"
  using floor_divide_of_int_eq [where ?'a = rat, of "numeral a" "numeral b"] by simp

text \<open>The running sum of five votes at \<open>2\<^sup>5\<^sup>3 - 1\<close>, and its fifth.\<close>

lemma largeSums:
  "roundDouble 9007199254740991 = Finite 9007199254740991"
  "roundDouble 18014398509481982 = Finite 18014398509481982"
  "roundDouble 27021597764222973 = Finite 27021597764222972"
  "roundDouble 36028797018963963 = Finite 36028797018963964"
  "roundDouble 45035996273704955 = Finite 45035996273704952"
  "roundDouble (45035996273704952 / 5) = Finite 9007199254740990"
proof -
  show "roundDouble 9007199254740991 = Finite 9007199254740991"
    using roundDouble_exact [of 9007199254740991] by simp
  show "roundDouble 18014398509481982 = Finite 18014398509481982"
    using roundDouble_large [of 1 18014398509481982] by (simp add: roundHalfEven_numeral)
  show "roundDouble 27021597764222973 = Finite 27021597764222972"
    using roundDouble_large [of 2 27021597764222973]
    by (simp add: roundHalfEven_def floor_numeral_div Let_def)
  show "roundDouble 36028797018963963 = Finite 36028797018963964"
    using roundDouble_large [of 2 36028797018963963]
    by (simp add: roundHalfEven_def floor_numeral_div Let_def)
  show "roundDouble 45035996273704955 = Finite 45035996273704952"
    using roundDouble_large [of 3 45035996273704955]
    by (simp add: roundHalfEven_def floor_numeral_div Let_def)
  show "roundDouble (45035996273704952 / 5) = Finite 9007199254740990"
    using roundDouble_large [of 0 "45035996273704952 / 5"]
    by (simp add: roundHalfEven_def floor_numeral_div Let_def)
qed


section \<open>Verification: the consensus round\<close>

lemma tally_fold:
  "foldl (\<lambda>(t, total) r. (tallyIncr t (result r), addDouble total (confidence r)))
     ([(YES, a), (NO, b), (INCONCLUSIVE, c)], s) rs =
   ([(YES, a + votesFor rs YES), (NO, b + votesFor rs NO),
     (INCONCLUSIVE, c + votesFor rs INCONCLUSIVE)], foldl addDouble s (map confidence rs))"
proof (induction rs arbitrary: a b c s)
  case Nil
  show ?case by (simp add: votesFor_def)
next
  case (Cons r rs)
  show ?case
    by (cases "result r") (simp_all add: Cons.IH votesFor_def)
qed

lemma tallyVotes_eq:
  "tallyVotes rs =
   ([(YES, votesFor rs YES), (NO, votesFor rs NO), (INCONCLUSIVE, votesFor rs INCONCLUSIVE)],
    foldl addDouble (Finite 0) (map confidence rs))"
  using tally_fold [of 0 0 0 "Finite 0" rs] by (simp add: tallyVotes_def initialTally_def)

lemma votesFor_total:
  "votesFor rs YES + votesFor rs NO + votesFor rs INCONCLUSIVE = length rs"
proof (induction rs)
  case Nil
  show ?case by (simp add: votesFor_def)
next
  case (Cons r rs)
  then show ?case by (cases "result r") (simp_all add: votesFor_def)
qed

lemma length_judgeResults: "length (judgeResults service) = 5"
  by (simp add: judgeResults_def judgeCount_def)

lemma determineWinner3:
  "determineWinner [(k1, a), (k2, b), (k3, c)] =
     (if a > b \<and> a > c then k1
      else if b > a \<and> b > c then k2
      else if c > a \<and> c > b then (if c > 0 then k3 else INCONCLUSIVE)
      else INCONCLUSIVE)"
  by (auto simp: determineWinner_def winnerStep_def)

lemma perm3:
  assumes "mset es = mset [x, y, z]"
  shows "es = [x, y, z] \<or> es = [x, z, y] \<or> es = [y, x, z] \<or> es = [y, z, x]
       \<or> es = [z, x, y] \<or> es = [z, y, x]"
proof -
  have "length es = 3" using assms by (metis length_Cons list.size(3) numeral_3_eq_3 size_mset)
  then obtain p q r where es: "es = [p, q, r]"
    by (auto simp: numeral_3_eq_3 length_Suc_conv)
  with assms show ?thesis
    by (auto simp: add_eq_conv_ex)
qed

lemma consortium_result:
  "result (consortium service) =
     determineWinner [(YES, votesFor (judgeResults service) YES),
                      (NO, votesFor (judgeResults service) NO),
                      (INCONCLUSIVE, votesFor (judgeResults service) INCONCLUSIVE)]"
  by (simp add: consortium_def tallyVotes_eq Let_def)

lemma consortium_confidence:
  "confidence (consortium service) =
     mathFloor (divDouble (foldl addDouble (Finite 0) (map confidence (judgeResults service))) 5)"
  by (simp add: consortium_def tallyVotes_eq judgeCount_def Let_def)

lemma consortium_exact:
  assumes "\<forall>n \<le> judgeCount. \<bar>sum_list (map confidence (take n (judgeResults service)))\<bar> \<le> 2 ^ 53"
  shows "confidence (consortium service) =
           Finite (sum_list (map confidence (judgeResults service)) div 5)"
proof -
  let ?cs = "map confidence (judgeResults service)"
  have len: "length ?cs = 5" by (simp add: length_judgeResults)
  have "\<forall>n \<le> length ?cs. \<bar>0 + sum_list (take n ?cs)\<bar> \<le> 2 ^ 53"
    using assms by (simp add: take_map judgeCount_def length_judgeResults)
  from foldl_addDouble [OF this]
  have total: "foldl addDouble (Finite 0) ?cs = Finite (of_int (sum_list ?cs))" by simp
  from assms [rule_format, of 5] have "\<bar>sum_list ?cs\<bar> \<le> 2 ^ 53"
    by (simp add: length_judgeResults judgeCount_def)
  from mathFloor_fifth [OF this] total show ?thesis by (simp add: consortium_confidence)
qed

lemma determineWinner_perm:
  assumes "mset es = mset [(YES, a), (NO, b), (INCONCLUSIVE, c)]"
  shows "determineWinner es = determineWinner [(YES, a), (NO, b), (INCONCLUSIVE, c)]"
  using perm3 [OF assms] by (auto simp: determineWinner3)


lemma winner_majority:
  assumes "y + n + i = (5::nat)"
  shows "5 < 2 * y \<Longrightarrow> determineWinner [(YES, y), (NO, n), (INCONCLUSIVE, i)] = YES"
    and "5 < 2 * n \<Longrightarrow> determineWinner [(YES, y), (NO, n), (INCONCLUSIVE, i)] = NO"
    and "5 < 2 * i \<Longrightarrow> determineWinner [(YES, y), (NO, n), (INCONCLUSIVE, i)] = INCONCLUSIVE"
  using assms by (simp_all add: determineWinner3)

lemma winner_tie:
  fixes f :: "outcome \<Rightarrow> nat"
  assumes "a \<noteq> b" and "f a = f b" and "\<forall>c. f c \<le> f a"
  shows "determineWinner [(YES, f YES), (NO, f NO), (INCONCLUSIVE, f INCONCLUSIVE)] = INCONCLUSIVE"
proof -
  have le: "f YES \<le> f a" "f NO \<le> f a" "f INCONCLUSIVE \<le> f a"
    using assms(3) by blast+
  show ?thesis
  proof (cases a)
    case YES
    with assms(1,2) le show ?thesis by (cases b) (simp_all add: determineWinner3)
  next
    case NO
    with assms(1,2) le show ?thesis by (cases b) (simp_all add: determineWinner3)
  next
    case INCONCLUSIVE
    with assms(1,2) le show ?thesis by (cases b) (simp_all add: determineWinner3)
  qed
qed

text \<open>
  Claim C2. In a consensus round of five judges, an option that holds a strict majority of
  the votes is the aggregated outcome; whenever the top vote count is shared by two or more
  of the options, the aggregated outcome is INCONCLUSIVE; and the outcome is the same in
  whatever order the entries of the tally are examined.
\<close>

theorem consensus_majority_or_tie:
  "(\<forall>oc. 2 * votesFor (judgeResults service) oc > judgeCount
          \<longrightarrow> result (consortium service) = oc)
   \<and> ((\<exists>a b. a \<noteq> b \<and> votesFor (judgeResults service) a = votesFor (judgeResults service) b
            \<and> (\<forall>c. votesFor (judgeResults service) c \<le> votesFor (judgeResults service) a))
        \<longrightarrow> result (consortium service) = INCONCLUSIVE)
   \<and> (\<forall>es. mset es = mset (fst (tallyVotes (judgeResults service)))
          \<longrightarrow> determineWinner es = result (consortium service))"
proof (intro conjI allI impI)
  let ?rs = "judgeResults service"
  have tot: "votesFor ?rs YES + votesFor ?rs NO + votesFor ?rs INCONCLUSIVE = 5"
    by (simp add: votesFor_total length_judgeResults)
  note w = winner_majority [OF tot]
  {
    fix oc
    assume maj: "judgeCount < 2 * votesFor ?rs oc"
    show "result (consortium service) = oc"
    proof (cases oc)
      case YES
      with maj show ?thesis by (simp add: consortium_result w judgeCount_def)
    next
      case NO
      with maj tot show ?thesis by (simp add: consortium_result w judgeCount_def)
    next
      case INCONCLUSIVE
      with maj tot show ?thesis by (simp add: consortium_result w judgeCount_def)
    qed
  }
  {
    assume "\<exists>a b. a \<noteq> b \<and> votesFor ?rs a = votesFor ?rs b \<and> (\<forall>c. votesFor ?rs c \<le> votesFor ?rs a)"
    then obtain a b where ab: "a \<noteq> b" "votesFor ?rs a = votesFor ?rs b"
      and top: "\<forall>c. votesFor ?rs c \<le> votesFor ?rs a" by blast
    show "result (consortium service) = INCONCLUSIVE"
      unfolding consortium_result by (rule winner_tie [OF ab top])
  }
  {
    fix es
    assume "mset es = mset (fst (tallyVotes ?rs))"
    then have "mset es = mset [(YES, votesFor ?rs YES), (NO, votesFor ?rs NO),
                               (INCONCLUSIVE, votesFor ?rs INCONCLUSIVE)]"
      by (simp only: tallyVotes_eq fst_conv)
    then show "determineWinner es = result (consortium service)"
      unfolding consortium_result by (rule determineWinner_perm)
  }
qed


section \<open>Verification: the judges\<close>

lemma getProp_throws: "getProp v k = Inl e \<Longrightarrow> v = JNull \<or> v = JUndefined"
  by (cases v) (auto split: option.splits if_splits)

lemma getProp_returns:
  assumes "v \<noteq> JNull" and "v \<noteq> JUndefined"
  shows "\<exists>x. getProp v k = Inr x"
proof (cases "getProp v k")
  case (Inl e)
  with assms show ?thesis using getProp_throws by blast
next
  case (Inr x)
  then show ?thesis by blast
qed

lemma getProp_nullish: "v = JNull \<or> v = JUndefined \<Longrightarrow> getProp v k = Inl TypeError"
  by auto

lemma askGemini_failed:
  "askGeminiTry reply = Inl e \<Longrightarrow> askGemini reply = \<lparr> result = INCONCLUSIVE, confidence = 0 \<rparr>"
  by (simp add: askGemini_def)

lemma askGemini_parsed:
  assumes "getProp p ''result'' = Inr r" and "getProp p ''confidence'' = Inr c"
  shows "askGemini (Parsed p) =
           \<lparr> result = (case outcomeOfValue r of Some oc \<Rightarrow> oc | None \<Rightarrow> INCONCLUSIVE),
             confidence = (if numberIsInteger c then integerValue c else 0) \<rparr>"
  using assms by (simp add: askGemini_def askGeminiTry_def)

lemma judgeResults_unfold:
  "judgeResults service =
     [askGemini (service 1), askGemini (service 2), askGemini (service 3),
      askGemini (service 4), askGemini (service 5)]"
  by (simp add: judgeResults_def judgeCount_def upt_rec numeral_eq_Suc)

lemma floor_fifth: "\<lfloor>(of_int k :: rat) / 5\<rfloor> = k div 5"
  using floor_divide_of_int_eq [where ?'a = rat, of k 5] by simp

lemma panelLarge_votes:
  "map confidence (judgeResults panelLarge) =
     [9007199254740991, 9007199254740991, 9007199254740991, 9007199254740991, 9007199254740991]"
  by (simp add: judgeResults_unfold panelLarge_def verdict_def askGemini_def askGeminiTry_def
        outcomeOfValue_def)

text \<open>
  Claim C4, as stated, fails on large confidences: the sum is a sum of doubles. Five
  judges report the integer \<open>2\<^sup>5\<^sup>3 - 1\<close>; the floor of the mean of the five is that
  integer, but the running sum is rounded three times and the final confidence is one
  less.
\<close>

theorem consensus_confidence_rounds_large_sums:
  "map confidence (judgeResults panelLarge) =
     [9007199254740991, 9007199254740991, 9007199254740991, 9007199254740991, 9007199254740991]
   \<and> \<lfloor>(of_int (9007199254740991 + 9007199254740991 + 9007199254740991 + 9007199254740991
                + 9007199254740991) :: rat) / 5\<rfloor> = 9007199254740991
   \<and> snd (tallyVotes (judgeResults panelLarge)) = Finite 45035996273704952
   \<and> confidence (consortium panelLarge) = Finite 9007199254740990"
proof -
  have "\<lfloor>(of_int (9007199254740991 + 9007199254740991 + 9007199254740991 + 9007199254740991
                + 9007199254740991) :: rat) / 5\<rfloor> = 9007199254740991"
    unfolding floor_fifth by simp
  moreover have "snd (tallyVotes (judgeResults panelLarge)) = Finite 45035996273704952"
    by (simp add: tallyVotes_eq panelLarge_votes largeSums)
  moreover have "confidence (consortium panelLarge) = Finite 9007199254740990"
    by (simp add: consortium_confidence panelLarge_votes largeSums)
  ultimately show ?thesis using panelLarge_votes by simp
qed

text \<open>
  Claim C4, amended. In a consensus round in which every running sum of the five judges'
  confidences, taken in the order of the judges, lies between \<open>-2\<^sup>5\<^sup>3\<close> and \<open>2\<^sup>5\<^sup>3\<close>, the
  final confidence is the floor of the mean of the five confidences; this is the case in
  particular when every confidence lies between \<open>-2\<^sup>5\<^sup>0\<close> and \<open>2\<^sup>5\<^sup>0\<close>, as every confidence
  in basis points does. A judge whose call failed, whose answer did not parse or whose
  confidence is not an integer contributes 0, and every other judge contributes the
  integer it reported.
\<close>

theorem consensus_confidence_floor_mean:
  "((\<forall>n \<le> judgeCount. \<bar>sum_list (map confidence (take n (judgeResults service)))\<bar> \<le> 2 ^ 53)
      \<longrightarrow> confidence (consortium service) =
           Finite \<lfloor>(of_int (confidence (askGemini (service 1)) + confidence (askGemini (service 2))
              + confidence (askGemini (service 3)) + confidence (askGemini (service 4))
              + confidence (askGemini (service 5))) :: rat) / 5\<rfloor>)
   \<and> ((\<forall>k. 1 \<le> k \<and> k \<le> judgeCount \<longrightarrow> \<bar>confidence (askGemini (service k))\<bar> \<le> 2 ^ 50)
      \<longrightarrow> confidence (consortium service) =
           Finite \<lfloor>(of_int (confidence (askGemini (service 1)) + confidence (askGemini (service 2))
              + confidence (askGemini (service 3)) + confidence (askGemini (service 4))
              + confidence (askGemini (service 5))) :: rat) / 5\<rfloor>)
   \<and> (\<forall>k. service k = ServiceFailure \<or> service k = Unparsable
          \<longrightarrow> confidence (askGemini (service k)) = 0)
   \<and> (\<forall>k p c. service k = Parsed p \<and> getProp p ''confidence'' = Inr c \<and> \<not> numberIsInteger c
          \<longrightarrow> confidence (askGemini (service k)) = 0)
   \<and> (\<forall>k p c. service k = Parsed p \<and> getProp p ''confidence'' = Inr c \<and> numberIsInteger c
          \<longrightarrow> confidence (askGemini (service k)) = integerValue c)"
proof (intro conjI allI impI)
  let ?c1 = "confidence (askGemini (service 1))" and ?c2 = "confidence (askGemini (service 2))"
    and ?c3 = "confidence (askGemini (service 3))" and ?c4 = "confidence (askGemini (service 4))"
    and ?c5 = "confidence (askGemini (service 5))"
  have mean: "confidence (consortium service) = Finite \<lfloor>(of_int (?c1 + ?c2 + ?c3 + ?c4 + ?c5) :: rat) / 5\<rfloor>"
    if run: "\<forall>n \<le> judgeCount. \<bar>sum_list (map confidence (take n (judgeResults service)))\<bar> \<le> 2 ^ 53"
  proof -
    have "confidence (consortium service) = Finite ((?c1 + ?c2 + ?c3 + ?c4 + ?c5) div 5)"
      using consortium_exact [OF run] by (simp add: judgeResults_unfold add.assoc)
    also have "(?c1 + ?c2 + ?c3 + ?c4 + ?c5) div 5 = \<lfloor>(of_int (?c1 + ?c2 + ?c3 + ?c4 + ?c5) :: rat) / 5\<rfloor>"
      by (rule floor_fifth [symmetric])
    finally show ?thesis .
  qed
  {
    assume "\<forall>n \<le> judgeCount. \<bar>sum_list (map confidence (take n (judgeResults service)))\<bar> \<le> 2 ^ 53"
    then show "confidence (consortium service) = Finite \<lfloor>(of_int (?c1 + ?c2 + ?c3 + ?c4 + ?c5) :: rat) / 5\<rfloor>"
      by (rule mean)
  }
  {
    assume small: "\<forall>k. 1 \<le> k \<and> k \<le> judgeCount \<longrightarrow> \<bar>confidence (askGemini (service k))\<bar> \<le> 2 ^ 50"
    have b: "\<bar>?c1\<bar> \<le> 2 ^ 50" "\<bar>?c2\<bar> \<le> 2 ^ 50" "\<bar>?c3\<bar> \<le> 2 ^ 50" "\<bar>?c4\<bar> \<le> 2 ^ 50" "\<bar>?c5\<bar> \<le> 2 ^ 50"
      using small by (simp_all add: judgeCount_def)
    have "\<forall>n \<le> judgeCount. \<bar>sum_list (map confidence (take n (judgeResults service)))\<bar> \<le> 2 ^ 53"
    proof (intro allI impI)
      fix n assume "n \<le> judgeCount"
      then consider "n = 0" | "n = 1" | "n = 2" | "n = 3" | "n = 4" | "n = 5"
        unfolding judgeCount_def by linarith
      then show "\<bar>sum_list (map confidence (take n (judgeResults service)))\<bar> \<le> 2 ^ 53"
      proof cases
        case 1
        then show ?thesis by simp
      next
        case 2
        with b(1) show ?thesis by (simp add: judgeResults_unfold)
      next
        case 3
        with b(1,2) show ?thesis by (simp add: judgeResults_unfold)
      next
        case 4
        with b(1,2,3) show ?thesis by (simp add: judgeResults_unfold)
      next
        case 5
        with b(1,2,3,4) show ?thesis by (simp add: judgeResults_unfold)
      next
        case 6
        with b show ?thesis by (simp add: judgeResults_unfold)
      qed
    qed
    then show "confidence (consortium service) = Finite \<lfloor>(of_int (?c1 + ?c2 + ?c3 + ?c4 + ?c5) :: rat) / 5\<rfloor>"
      by (rule mean)
  }
next
  fix k
  assume "service k = ServiceFailure \<or> service k = Unparsable"
  then show "confidence (askGemini (service k)) = 0"
    by (auto simp: askGemini_def askGeminiTry_def)
next
  fix k p c
  assume "service k = Parsed p \<and> getProp p ''confidence'' = Inr c \<and> \<not> numberIsInteger c"
  then show "confidence (askGemini (service k)) = 0"
    by (auto simp: askGemini_def askGeminiTry_def split: sum.splits)
next
  fix k p c
  assume "service k = Parsed p \<and> getProp p ''confidence'' = Inr c \<and> numberIsInteger c"
  then have k: "service k = Parsed p" and c: "getProp p ''confidence'' = Inr c"
    and i: "numberIsInteger c" by blast+
  from c have "p \<noteq> JNull" "p \<noteq> JUndefined" by auto
  then obtain r where r: "getProp p ''result'' = Inr r"
    using getProp_returns by blast
  show "confidence (askGemini (service k)) = integerValue c"
    by (simp add: k askGemini_parsed [OF r c] i)
qed

text \<open>
  Claim C5, as stated, fails: a judge that answers with a result outside YES, NO and
  INCONCLUSIVE is scored INCONCLUSIVE, but its integer confidence is kept, not set to 0.
\<close>

theorem judge_invalid_result_keeps_confidence:
  "outcomeOfValue (JStr ''MAYBE'') = None
   \<and> askGemini (Parsed (JObj [(''result'', JStr ''MAYBE''), (''confidence'', JNum 8000)]))
       = \<lparr> result = INCONCLUSIVE, confidence = 8000 \<rparr>
   \<and> askGemini (Parsed (JObj [(''result'', JStr ''MAYBE''), (''confidence'', JNum 8000)]))
       \<noteq> \<lparr> result = INCONCLUSIVE, confidence = 0 \<rparr>"
  by (simp add: askGemini_def askGeminiTry_def outcomeOfValue_def)

text \<open>
  Claim C5, amended. A judge call whose service call throws or whose answer does not parse,
  and any other throw inside the call, is scored INCONCLUSIVE with confidence 0; a judge
  whose result is outside YES, NO and INCONCLUSIVE is scored INCONCLUSIVE with the
  confidence it reported when that is an integer and 0 otherwise. No failure escapes: the
  round always has its five votes, one per judge.
\<close>

theorem judge_failure_is_local:
  "(reply = ServiceFailure \<or> reply = Unparsable
      \<longrightarrow> askGemini reply = \<lparr> result = INCONCLUSIVE, confidence = 0 \<rparr>)
   \<and> (\<forall>e. askGeminiTry reply = Inl e
      \<longrightarrow> askGemini reply = \<lparr> result = INCONCLUSIVE, confidence = 0 \<rparr>)
   \<and> (\<forall>p r c. reply = Parsed p \<and> getProp p ''result'' = Inr r \<and> getProp p ''confidence'' = Inr c
              \<and> outcomeOfValue r = None
      \<longrightarrow> askGemini reply =
            \<lparr> result = INCONCLUSIVE,
              confidence = (if numberIsInteger c then integerValue c else 0) \<rparr>)
   \<and> length (judgeResults service) = judgeCount
   \<and> (\<forall>k < judgeCount. judgeResults service ! k = askGemini (service (k + 1)))"
proof (intro conjI allI impI)
  assume "reply = ServiceFailure \<or> reply = Unparsable"
  then show "askGemini reply = \<lparr> result = INCONCLUSIVE, confidence = 0 \<rparr>"
    by (auto simp: askGemini_def askGeminiTry_def)
next
  fix e assume "askGeminiTry reply = Inl e"
  then show "askGemini reply = \<lparr> result = INCONCLUSIVE, confidence = 0 \<rparr>"
    by (rule askGemini_failed)
next
  fix p r c
  assume "reply = Parsed p \<and> getProp p ''result'' = Inr r \<and> getProp p ''confidence'' = Inr c
              \<and> outcomeOfValue r = None"
  then show "askGemini reply =
            \<lparr> result = INCONCLUSIVE,
              confidence = (if numberIsInteger c then integerValue c else 0) \<rparr>"
    by (simp add: askGemini_parsed)
next
  show "length (judgeResults service) = judgeCount"
    by (simp add: judgeResults_def)
next
  fix k assume "k < judgeCount"
  then show "judgeResults service ! k = askGemini (service (k + 1))"
    by (simp add: judgeResults_def)
qed


section \<open>The consensus round on the scenarios\<close>

lemma panelMajority_votes:
  "map result (judgeResults panelMajority) = [YES, YES, YES, INCONCLUSIVE, NO]"
  "map confidence (judgeResults panelMajority) = [9000, 9000, 9000, 0, 0]"
  by (simp_all add: judgeResults_unfold panelMajority_def verdict_def askGemini_def
        askGeminiTry_def outcomeOfValue_def)

lemma panelTie_votes:
  "map result (judgeResults panelTie) = [YES, YES, NO, NO, INCONCLUSIVE]"
  "map confidence (judgeResults panelTie) = [9000, 8000, 7000, 6000, 5003]"
  by (simp_all add: judgeResults_unfold panelTie_def verdict_def askGemini_def
        askGeminiTry_def outcomeOfValue_def)

lemma votesFor_map: "votesFor rs oc = length (filter (\<lambda>x. x = oc) (map result rs))"
  by (simp add: votesFor_def filter_map comp_def)

theorem consensus_majority_or_tie_witness:
  "judgeCount < 2 * votesFor (judgeResults panelMajority) YES
   \<and> result (consortium panelMajority) = YES
   \<and> YES \<noteq> NO
   \<and> votesFor (judgeResults panelTie) YES = votesFor (judgeResults panelTie) NO
   \<and> (\<forall>c. votesFor (judgeResults panelTie) c \<le> votesFor (judgeResults panelTie) YES)
   \<and> result (consortium panelTie) = INCONCLUSIVE
   \<and> mset [(INCONCLUSIVE, 1), (NO, 2), (YES, 2)] = mset (fst (tallyVotes (judgeResults panelTie)))
   \<and> determineWinner [(INCONCLUSIVE, 1), (NO, 2), (YES, 2)] = result (consortium panelTie)"
proof -
  have m: "judgeCount < 2 * votesFor (judgeResults panelMajority) YES"
    by (simp add: votesFor_map panelMajority_votes judgeCount_def)
  have t: "votesFor (judgeResults panelTie) YES = 2" "votesFor (judgeResults panelTie) NO = 2"
    "votesFor (judgeResults panelTie) INCONCLUSIVE = 1"
    by (simp_all add: votesFor_map panelTie_votes)
  have top: "\<forall>c. votesFor (judgeResults panelTie) c \<le> votesFor (judgeResults panelTie) YES"
  proof
    fix c show "votesFor (judgeResults panelTie) c \<le> votesFor (judgeResults panelTie) YES"
      by (cases c) (simp_all add: t)
  qed
  have tie: "\<exists>a b. a \<noteq> b \<and> votesFor (judgeResults panelTie) a = votesFor (judgeResults panelTie) b
            \<and> (\<forall>c. votesFor (judgeResults panelTie) c \<le> votesFor (judgeResults panelTie) a)"
    using t top by (intro exI [of _ YES] exI [of _ NO]) simp
  have p: "mset [(INCONCLUSIVE, 1), (NO, 2), (YES, 2)] = mset (fst (tallyVotes (judgeResults panelTie)))"
    by (simp add: tallyVotes_eq t)
  from consensus_majority_or_tie [of panelMajority] m
  have r1: "result (consortium panelMajority) = YES" by blast
  from consensus_majority_or_tie [of panelTie] tie
  have r2: "result (consortium panelTie) = INCONCLUSIVE" by blast
  from consensus_majority_or_tie [of panelTie] p
  have r3: "determineWinner [(INCONCLUSIVE, 1), (NO, 2), (YES, 2)] = result (consortium panelTie)"
    by blast
  from m r1 t top r2 p r3 show ?thesis by simp
qed

lemma panelTie_running:
  "\<forall>n \<le> judgeCount. \<bar>sum_list (map confidence (take n (judgeResults panelTie)))\<bar> \<le> 2 ^ 53"
proof (intro allI impI)
  fix n assume "n \<le> judgeCount"
  then consider "n = 0" | "n = 1" | "n = 2" | "n = 3" | "n = 4" | "n = 5"
    unfolding judgeCount_def by linarith
  then show "\<bar>sum_list (map confidence (take n (judgeResults panelTie)))\<bar> \<le> 2 ^ 53"
    by cases (simp_all add: panelTie_votes take_map [symmetric])
qed


theorem consensus_confidence_floor_mean_witness:
  "map (\<lambda>n. sum_list (map confidence (take n (judgeResults panelTie)))) [0, 1, 2, 3, 4, 5]
     = [0, 9000, 17000, 24000, 30000, 35003]
   \<and> confidence (consortium panelTie) = Finite 7000
   \<and> map confidence (judgeResults panelMajority) = [9000, 9000, 9000, 0, 0]
   \<and> confidence (consortium panelMajority) = Finite 5400
   \<and> panelMajority 4 = Unparsable
   \<and> confidence (askGemini (panelMajority 4)) = 0
   \<and> panelMajority 5 = Parsed (JObj [(''result'', JStr ''NO''), (''confidence'', JNum (1 / 2))])
   \<and> getProp (JObj [(''result'', JStr ''NO''), (''confidence'', JNum (1 / 2))]) ''confidence'' = Inr (JNum (1 / 2))
   \<and> \<not> numberIsInteger (JNum (1 / 2))
   \<and> confidence (askGemini (panelMajority 5)) = 0
   \<and> numberIsInteger (JNum 9000)
   \<and> confidence (askGemini (panelMajority 1)) = 9000"
proof -
  have a: "panelMajority 4 = Unparsable" by (simp add: panelMajority_def)
  have b: "panelMajority 5 = Parsed (JObj [(''result'', JStr ''NO''), (''confidence'', JNum (1 / 2))])"
    by (simp add: panelMajority_def verdict_def)
  have c: "getProp (JObj [(''result'', JStr ''NO''), (''confidence'', JNum (1 / 2))]) ''confidence'' = Inr (JNum (1 / 2))"
    by simp
  have "\<lfloor>(1::rat) / 2\<rfloor> = 0" by (simp add: floor_eq_iff)
  then have d: "\<not> numberIsInteger (JNum (1 / 2))" by simp
  have e: "panelMajority 1 = Parsed (JObj [(''result'', JStr ''YES''), (''confidence'', JNum 9000)])"
    by (simp add: panelMajority_def verdict_def)
  have f: "getProp (JObj [(''result'', JStr ''YES''), (''confidence'', JNum 9000)]) ''confidence'' = Inr (JNum 9000)"
    by simp
  have g: "numberIsInteger (JNum 9000)" by simp
  have cs: "confidence (askGemini (panelMajority 1)) = 9000" "confidence (askGemini (panelMajority 2)) = 9000"
    "confidence (askGemini (panelMajority 3)) = 9000" "confidence (askGemini (panelMajority 4)) = 0"
    "confidence (askGemini (panelMajority 5)) = 0"
    using panelMajority_votes(2) by (simp_all add: judgeResults_unfold)
  have ts: "confidence (askGemini (panelTie 1)) = 9000" "confidence (askGemini (panelTie 2)) = 8000"
    "confidence (askGemini (panelTie 3)) = 7000" "confidence (askGemini (panelTie 4)) = 6000"
    "confidence (askGemini (panelTie 5)) = 5003"
    using panelTie_votes(2) by (simp_all add: judgeResults_unfold)
  have small: "\<forall>k. 1 \<le> k \<and> k \<le> judgeCount \<longrightarrow> \<bar>confidence (askGemini (panelMajority k))\<bar> \<le> 2 ^ 50"
  proof (intro allI impI)
    fix k assume "1 \<le> k \<and> k \<le> judgeCount"
    then consider "k = 1" | "k = 2" | "k = 3" | "k = 4" | "k = 5"
      unfolding judgeCount_def by linarith
    then show "\<bar>confidence (askGemini (panelMajority k))\<bar> \<le> 2 ^ 50"
    proof cases
      case 1
      with cs(1) show ?thesis by simp
    next
      case 2
      with cs(2) show ?thesis by simp
    next
      case 3
      with cs(3) show ?thesis by simp
    next
      case 4
      with cs(4) show ?thesis by simp
    next
      case 5
      with cs(5) show ?thesis by simp
    qed
  qed
  note tie = consensus_confidence_floor_mean [of panelTie]
  note th = consensus_confidence_floor_mean [of panelMajority]
  from tie panelTie_running
  have "confidence (consortium panelTie) =
          Finite \<lfloor>(of_int (confidence (askGemini (panelTie 1)) + confidence (askGemini (panelTie 2))
              + confidence (askGemini (panelTie 3)) + confidence (askGemini (panelTie 4))
              + confidence (askGemini (panelTie 5))) :: rat) / 5\<rfloor>"
    by blast
  then have 0: "confidence (consortium panelTie) = Finite 7000"
    unfolding floor_fifth using ts by simp
  from th small
  have "confidence (consortium panelMajority) =
          Finite \<lfloor>(of_int (confidence (askGemini (panelMajority 1)) + confidence (askGemini (panelMajority 2))
              + confidence (askGemini (panelMajority 3)) + confidence (askGemini (panelMajority 4))
              + confidence (askGemini (panelMajority 5))) :: rat) / 5\<rfloor>"
    by blast
  then have 4: "confidence (consortium panelMajority) = Finite 5400"
    unfolding floor_fifth using cs by simp
  from th a have 1: "confidence (askGemini (panelMajority 4)) = 0" by blast
  from th b c d have 2: "confidence (askGemini (panelMajority 5)) = 0" by blast
  from th e f g have "confidence (askGemini (panelMajority 1)) = integerValue (JNum 9000)" by blast
  then have 3: "confidence (askGemini (panelMajority 1)) = 9000" by simp
  have sums: "map (\<lambda>n. sum_list (map confidence (take n (judgeResults panelTie)))) [0, 1, 2, 3, 4, 5]
     = [0, 9000, 17000, 24000, 30000, 35003]"
    by (simp add: panelTie_votes take_map [symmetric])
  from sums 0 panelMajority_votes(2) 4 a b c d g 1 2 3 show ?thesis by simp
qed

theorem judge_failure_is_local_witness:
  "askGemini Unparsable = \<lparr> result = INCONCLUSIVE, confidence = 0 \<rparr>
   \<and> askGeminiTry (Parsed JNull) = Inl TypeError
   \<and> askGemini (Parsed JNull) = \<lparr> result = INCONCLUSIVE, confidence = 0 \<rparr>
   \<and> outcomeOfValue (JStr ''MAYBE'') = None
   \<and> askGemini (Parsed (JObj [(''result'', JStr ''MAYBE''), (''confidence'', JNum 8000)]))
       = \<lparr> result = INCONCLUSIVE, confidence = 8000 \<rparr>
   \<and> (4::nat) < judgeCount
   \<and> judgeResults panelTie ! 4 = askGemini (panelTie 5)"
proof -
  have a: "askGeminiTry (Parsed JNull) = Inl TypeError" by (simp add: askGeminiTry_def)
  have b: "outcomeOfValue (JStr ''MAYBE'') = None" by (simp add: outcomeOfValue_def)
  have c: "getProp (JObj [(''result'', JStr ''MAYBE''), (''confidence'', JNum 8000)]) ''result'' = Inr (JStr ''MAYBE'')"
    "getProp (JObj [(''result'', JStr ''MAYBE''), (''confidence'', JNum 8000)]) ''confidence'' = Inr (JNum 8000)"
    by simp_all
  have d: "(4::nat) < judgeCount" by (simp add: judgeCount_def)
  from judge_failure_is_local [of Unparsable]
  have 1: "askGemini Unparsable = \<lparr> result = INCONCLUSIVE, confidence = 0 \<rparr>" by blast
  from judge_failure_is_local [of "Parsed JNull"] a
  have 2: "askGemini (Parsed JNull) = \<lparr> result = INCONCLUSIVE, confidence = 0 \<rparr>" by blast
  from judge_failure_is_local [of "Parsed (JObj [(''result'', JStr ''MAYBE''), (''confidence'', JNum 8000)])"] b c
  have "askGemini (Parsed (JObj [(''result'', JStr ''MAYBE''), (''confidence'', JNum 8000)]))
       = \<lparr> result = INCONCLUSIVE, confidence = (if numberIsInteger (JNum 8000) then integerValue (JNum 8000) else 0) \<rparr>"
    by blast
  then have 3: "askGemini (Parsed (JObj [(''result'', JStr ''MAYBE''), (''confidence'', JNum 8000)]))
       = \<lparr> result = INCONCLUSIVE, confidence = 8000 \<rparr>" by simp
  from judge_failure_is_local [of Unparsable panelTie] d
  have 4: "judgeResults panelTie ! 4 = askGemini (panelTie 5)" by auto
  from 1 a 2 b 3 d 4 show ?thesis by simp
qed


section \<open>Verification: the discrete route\<close>

lemma readMember_throws:
  assumes "readMember rt v k = Inl e" and "v \<noteq> JNull" and "v \<noteq> JUndefined"
  shows "inherited rt v k = Inl e"
proof (cases "hasOwn v k")
  case True
  with assms have "getProp v k = Inl e" by (simp add: readMember_def)
  with assms(2,3) show ?thesis using getProp_throws by blast
next
  case False
  with assms show ?thesis by (simp add: readMember_def)
qed

lemma walkParts_throws:
  "walkParts rt current parts = Inl e \<Longrightarrow> \<exists>v k. inherited rt v k = Inl e"
proof (induction parts arbitrary: current)
  case Nil
  then show ?case by simp
next
  case (Cons part parts)
  show ?case
  proof (cases "current = JNull \<or> current = JUndefined")
    case True
    with Cons.prems show ?thesis by auto
  next
    case False
    show ?thesis
    proof (cases "readMember rt current part")
      case (Inl e')
      with False Cons.prems have "e' = e" by simp
      with Inl False readMember_throws [of rt current part e] show ?thesis by blast
    next
      case (Inr x)
      with False Cons.prems have "walkParts rt x parts = Inl e" by simp
      then show ?thesis by (rule Cons.IH)
    qed
  qed
qed

lemma walkParts_returns:
  assumes "\<forall>v k e. inherited rt v k \<noteq> Inl e"
  shows "\<exists>v. walkParts rt current parts = Inr v"
proof (cases "walkParts rt current parts")
  case (Inl e)
  with assms walkParts_throws show ?thesis by blast
next
  case (Inr v)
  then show ?thesis by blast
qed

lemma walkParts_undefined: "walkParts rt JUndefined parts = Inr JUndefined"
  by (cases parts) simp_all

lemma walkParts_missing:
  assumes "readMember rt current part = Inr JUndefined"
  shows "walkParts rt current (part # rest) = Inr JUndefined"
  using assms by (simp add: walkParts_undefined)

lemma extractValue_throws:
  assumes "extractValue rt data path = Inl e"
  shows "(\<forall>str. path \<noteq> JStr str) \<and> e = TypeError \<or> (\<exists>v k. inherited rt v k = Inl e)"
proof (cases "\<exists>str. path = JStr str")
  case True
  then obtain str where "path = JStr str" by blast
  with assms have "walkParts rt data (pathParts str) = Inl e" by (simp add: extractValue_def)
  then show ?thesis using walkParts_throws by blast
next
  case False
  with assms show ?thesis by (cases path) (simp_all add: extractValue_def)
qed

lemma extractValue_no_text:
  assumes "\<forall>str. path \<noteq> JStr str"
  shows "extractValue rt data path = Inl TypeError"
  using assms by (cases path) (simp_all add: extractValue_def)

lemma extractStep_generic:
  assumes "category spec \<noteq> SPORTS_SCORE \<or> sportsTeamData = None"
  shows "extractStep rt spec sportsTeamData data =
           (case extractValue rt data (extraction_path spec) of
              Inl e \<Rightarrow> Inr (Inl (DiscreteFallback 500 ''EXTRACTION_ERROR''))
            | Inr v \<Rightarrow> Inr (Inr v))"
  using assms by (auto simp: extractStep_def split: option.splits bool.splits)

lemma sportsExtract_early:
  "sportsExtract rt data teamName = Inr (Inl r) \<Longrightarrow> r = DiscreteFallback 500 ''NO_RECENT_GAMES''"
  by (auto simp: sportsExtract_def Let_def split: sum.splits if_splits)

lemma extractStep_early:
  assumes "extractStep rt spec sportsTeamData data = Inr (Inl r)"
  shows "r = DiscreteFallback 500 ''NO_RECENT_GAMES''
       \<or> r = DiscreteFallback 500 ''EXTRACTION_ERROR''
          \<and> (\<exists>e. extractValue rt data (extraction_path spec) = Inl e)"
proof (cases "category spec = SPORTS_SCORE \<and> sportsTeamData \<noteq> None")
  case True
  then obtain teamName where "sportsTeamData = Some teamName" by blast
  with True assms show ?thesis
    by (simp add: extractStep_def sportsExtract_early)
next
  case False
  then have "category spec \<noteq> SPORTS_SCORE \<or> sportsTeamData = None" by blast
  from extractStep_generic [OF this, of rt data] assms
  show ?thesis by (cases "extractValue rt data (extraction_path spec)") auto
qed

lemma fetchAndCompare_cases:
  assumes "fetchAndCompare rt w spec req sportsTeamData = Inr r"
  shows "r = DiscreteFallback 502 ''API_ERROR'' \<or> r = DiscreteFallback 500 ''NO_RECENT_GAMES''
       \<or> r = DiscreteFallback 500 ''NO_VALUE''
       \<or> r = DiscreteFallback 500 ''EXTRACTION_ERROR''
          \<and> (\<exists>data e. fetch w req = FetchJson data
                \<and> extractValue rt data (extraction_path spec) = Inl e)
       \<or> (\<exists>d. r = DiscreteSuccess d \<and> (outcome d = YES \<or> outcome d = NO) \<and> confidenceBps d = 10000)"
proof (cases "fetch w req")
  case FetchThrows
  with assms show ?thesis by (simp add: fetchAndCompare_def)
next
  case (FetchNotOk st)
  with assms show ?thesis by (simp add: fetchAndCompare_def)
next
  case FetchBadBody
  with assms show ?thesis by (simp add: fetchAndCompare_def)
next
  case (FetchJson data)
  show ?thesis
  proof (cases "extractStep rt spec sportsTeamData data")
    case (Inl e)
    with FetchJson assms show ?thesis by (simp add: fetchAndCompare_def)
  next
    case (Inr x)
    show ?thesis
    proof (cases x)
      case (Inl early)
      with Inr FetchJson assms have "r = early" by (simp add: fetchAndCompare_def)
      with extractStep_early [of rt spec sportsTeamData data r] Inr Inl FetchJson
      show ?thesis by auto
    next
      case (Inr v)
      with \<open>extractStep rt spec sportsTeamData data = Inr x\<close> FetchJson assms
      show ?thesis by (auto simp: fetchAndCompare_def split: if_splits)
    qed
  qed
qed

lemma sportsLookup_early:
  "sportsLookup w spec = Inr (Inl r)
     \<Longrightarrow> r = DiscreteFallback 502 ''SPORTS_TEAM_SEARCH_FAILED''
         \<or> r = DiscreteFallback 404 ''SPORTS_TEAM_NOT_FOUND''"
  by (auto simp: sportsLookup_def Let_def split: fetch_result.splits sum.splits if_splits)

lemma buildRequest_early:
  assumes "buildRequest w spec = Inr (Inl r)"
  shows "r = DiscreteFallback 502 ''SPORTS_TEAM_SEARCH_FAILED''
       \<or> r = DiscreteFallback 404 ''SPORTS_TEAM_NOT_FOUND''"
proof -
  from assms have "sportsLookup w spec = Inr (Inl r)"
    by (auto simp: buildRequest_def split: sum.splits if_splits prod.splits)
  then show ?thesis by (rule sportsLookup_early)
qed

lemma resolveDiscreteTry_cases:
  assumes "resolveDiscreteTry rt w = Inr r"
  shows "r = DiscreteError 400 \<or> r = DiscreteFallback 404 ''SPEC_NOT_FOUND''
       \<or> r = DiscreteFallback 400 ''CONTIGUOUS_TYPE''
       \<or> (\<exists>spec. buildRequest w spec = Inr (Inl r))
       \<or> (\<exists>spec req td. specDoc w = Inr (Some (DISCRETE spec))
              \<and> fetchAndCompare rt w spec req td = Inr r)"
proof (cases "requestBody w")
  case (Inl e)
  with assms show ?thesis by (simp add: resolveDiscreteTry_def)
next
  case body: (Inr body)
  show ?thesis
  proof (cases "getProp body ''marketId''")
    case (Inl e)
    with assms body show ?thesis by (simp add: resolveDiscreteTry_def)
  next
    case mid: (Inr marketId)
    show ?thesis
    proof (cases "truthy marketId")
      case False
      with assms body mid show ?thesis by (simp add: resolveDiscreteTry_def)
    next
      case True
      show ?thesis
      proof (cases "specDoc w")
        case (Inl e)
        with assms body mid True show ?thesis by (simp add: resolveDiscreteTry_def)
      next
        case doc: (Inr stored)
        show ?thesis
        proof (cases stored)
          case None
          with assms body mid True doc show ?thesis by (simp add: resolveDiscreteTry_def)
        next
          case (Some os)
          show ?thesis
          proof (cases os)
            case (CONTIGUOUS summary)
            with assms body mid True doc Some show ?thesis by (simp add: resolveDiscreteTry_def)
          next
            case (DISCRETE spec)
            show ?thesis
            proof (cases "buildRequest w spec")
              case (Inl e)
              with assms body mid True doc Some DISCRETE show ?thesis
                by (simp add: resolveDiscreteTry_def)
            next
              case built: (Inr x)
              show ?thesis
              proof (cases x)
                case (Inl early)
                with assms body mid True doc Some DISCRETE built have "r = early"
                  by (simp add: resolveDiscreteTry_def)
                with built Inl show ?thesis by blast
              next
                case (Inr pr)
                obtain req td where pr: "pr = (req, td)" by (cases pr)
                with assms body mid True doc Some DISCRETE built Inr
                have "fetchAndCompare rt w spec req td = Inr r"
                  by (simp add: resolveDiscreteTry_def)
                with doc Some DISCRETE show ?thesis by blast
              qed
            qed
          qed
        qed
      qed
    qed
  qed
qed

lemma resolveDiscreteTry_answers:
  assumes "resolveDiscreteTry rt w = Inr r"
  shows "r \<in> {DiscreteError 400, DiscreteFallback 404 ''SPEC_NOT_FOUND'',
              DiscreteFallback 400 ''CONTIGUOUS_TYPE'',
              DiscreteFallback 502 ''SPORTS_TEAM_SEARCH_FAILED'',
              DiscreteFallback 404 ''SPORTS_TEAM_NOT_FOUND'',
              DiscreteFallback 502 ''API_ERROR'', DiscreteFallback 500 ''NO_RECENT_GAMES'',
              DiscreteFallback 500 ''NO_VALUE'', DiscreteFallback 500 ''EXTRACTION_ERROR''}
       \<or> (\<exists>d. r = DiscreteSuccess d \<and> (outcome d = YES \<or> outcome d = NO) \<and> confidenceBps d = 10000)"
proof -
  from resolveDiscreteTry_cases [OF assms]
  consider "r = DiscreteError 400" | "r = DiscreteFallback 404 ''SPEC_NOT_FOUND''"
    | "r = DiscreteFallback 400 ''CONTIGUOUS_TYPE''"
    | spec where "buildRequest w spec = Inr (Inl r)"
    | spec req td where "fetchAndCompare rt w spec req td = Inr r"
    by blast
  then show ?thesis
  proof cases
    case 4
    from buildRequest_early [OF this] show ?thesis by auto
  next
    case 5
    from fetchAndCompare_cases [OF this] show ?thesis by auto
  qed simp_all
qed

lemma resolveDiscrete_answers:
  "resolveDiscrete rt w \<in> {DiscreteError 400, DiscreteFallback 404 ''SPEC_NOT_FOUND'',
              DiscreteFallback 400 ''CONTIGUOUS_TYPE'',
              DiscreteFallback 502 ''SPORTS_TEAM_SEARCH_FAILED'',
              DiscreteFallback 404 ''SPORTS_TEAM_NOT_FOUND'',
              DiscreteFallback 502 ''API_ERROR'', DiscreteFallback 500 ''NO_RECENT_GAMES'',
              DiscreteFallback 500 ''NO_VALUE'', DiscreteFallback 500 ''EXTRACTION_ERROR'',
              DiscreteFallback 500 ''UNKNOWN_ERROR''}
       \<or> (\<exists>d. resolveDiscrete rt w = DiscreteSuccess d
               \<and> (outcome d = YES \<or> outcome d = NO) \<and> confidenceBps d = 10000)"
proof (cases "resolveDiscreteTry rt w")
  case (Inl e)
  then show ?thesis by (simp add: resolveDiscrete_def)
next
  case (Inr r)
  then have "resolveDiscrete rt w = r" by (simp add: resolveDiscrete_def)
  with resolveDiscreteTry_answers [OF Inr] show ?thesis by auto
qed

text \<open>
  Claim C3. Whenever the discrete route answers success, the outcome is YES or NO, never
  INCONCLUSIVE, and the confidence is exactly 10000 basis points; this holds for every
  category, the sports win/loss path included.
\<close>

theorem discrete_success_is_yes_or_no:
  assumes "resolveDiscrete rt w = DiscreteSuccess d"
  shows "(outcome d = YES \<or> outcome d = NO) \<and> outcome d \<noteq> INCONCLUSIVE \<and> confidenceBps d = 10000"
  using resolveDiscrete_answers [of rt w] assms by auto

lemma resolveDiscrete_extraction:
  assumes "resolveDiscrete rt w = DiscreteFallback st ''EXTRACTION_ERROR''"
  shows "st = 500 \<and> (\<exists>spec req data e. specDoc w = Inr (Some (DISCRETE spec))
            \<and> fetch w req = FetchJson data
            \<and> extractValue rt data (extraction_path spec) = Inl e)"
proof (cases "resolveDiscreteTry rt w")
  case (Inl e)
  with assms show ?thesis by (simp add: resolveDiscrete_def)
next
  case (Inr r)
  with assms have r: "r = DiscreteFallback st ''EXTRACTION_ERROR''" by (simp add: resolveDiscrete_def)
  from resolveDiscreteTry_cases [OF Inr]
  consider "r = DiscreteError 400" | "r = DiscreteFallback 404 ''SPEC_NOT_FOUND''"
    | "r = DiscreteFallback 400 ''CONTIGUOUS_TYPE''"
    | spec where "buildRequest w spec = Inr (Inl r)"
    | spec req td where "specDoc w = Inr (Some (DISCRETE spec))"
        "fetchAndCompare rt w spec req td = Inr r"
    by blast
  then show ?thesis
  proof cases
    case 4
    from buildRequest_early [OF this] r show ?thesis by auto
  next
    case 5
    from fetchAndCompare_cases [OF 5(2)] r 5(1) show ?thesis by auto
  qed (simp_all add: r)
qed

text \<open>
  Claim C9, as stated, fails. The classifier returns the extraction path as a list with
  one string; the creation route stores it as it came; on the stored spec
  \<^verbatim>\<open>extractValue\<close> throws at \<^verbatim>\<open>path.replace\<close> and the discrete route answers
  EXTRACTION_ERROR.
\<close>

theorem extraction_error_is_reachable:
  "optProp (discreteSpecOf ''2025-01-01T00:00:00.000Z'' listPathReply) ''extraction_path''
     = JArr [JStr ''$.bitcoin.usd'']
   \<and> specDoc listPathWorld = Inr (Some (DISCRETE listPathSpec))
   \<and> extraction_path listPathSpec = JArr [JStr ''$.bitcoin.usd'']
   \<and> extractValue scenarioRuntime priceFeed (JArr [JStr ''$.bitcoin.usd'']) = Inl TypeError
   \<and> resolveDiscrete scenarioRuntime listPathWorld = DiscreteFallback 500 ''EXTRACTION_ERROR''"
  by (simp add: discreteSpecOf_def listPathReply_def optProp_def orElse_def Let_def
        listPathWorld_def listPathSpec_def priceSpec_def extractValue_def resolveDiscrete_def
        resolveDiscreteTry_def buildRequest_def fetchAndCompare_def extractStep_def)

text \<open>
  Claim C9, amended. On a path that is a string, \<^verbatim>\<open>extractValue\<close> throws only when a
  read reaches an inherited accessor of the runtime that throws; on a runtime without such
  an accessor it returns for every input and every path text. It returns \<^verbatim>\<open>undefined\<close>
  when an intermediate value is \<^verbatim>\<open>null\<close> or \<^verbatim>\<open>undefined\<close> and when a segment names no
  member, own or inherited; a read of an own property never throws. On a path that is
  not a string it throws a TypeError. The generic branch of the route answers
  EXTRACTION_ERROR whenever \<^verbatim>\<open>extractValue\<close> throws on the fetched data and the stored
  path, and the route gives that answer in no other run, always with status 500; so the
  answer is reachable. A value that is missing on the generic path
  is answered with NO_VALUE.
\<close>

theorem extractValue_throws_only_outside_data:
  "(\<forall>str e. extractValue rt data (JStr str) = Inl e \<longrightarrow> (\<exists>v k. inherited rt v k = Inl e))
   \<and> ((\<forall>v k e. inherited rt v k \<noteq> Inl e)
        \<longrightarrow> (\<forall>str. \<exists>v. extractValue rt data (JStr str) = Inr v))
   \<and> (\<forall>current part rest. current = JNull \<or> current = JUndefined
          \<longrightarrow> walkParts rt current (part # rest) = Inr JUndefined)
   \<and> (\<forall>current part rest. readMember rt current part = Inr JUndefined
          \<longrightarrow> walkParts rt current (part # rest) = Inr JUndefined)
   \<and> (\<forall>current part. hasOwn current part \<longrightarrow> (\<exists>v. readMember rt current part = Inr v))
   \<and> ((\<forall>str. path \<noteq> JStr str) \<longrightarrow> extractValue rt data path = Inl TypeError)
   \<and> (\<forall>st. resolveDiscrete rt w = DiscreteFallback st ''EXTRACTION_ERROR''
          \<longrightarrow> st = 500
              \<and> (\<exists>spec req fetched e. specDoc w = Inr (Some (DISCRETE spec))
                    \<and> fetch w req = FetchJson fetched
                    \<and> extractValue rt fetched (extraction_path spec) = Inl e))
   \<and> (\<forall>(spec :: discrete_oracle_spec) req fetched e.
          category spec \<noteq> SPORTS_SCORE \<and> fetch w req = FetchJson fetched
          \<and> extractValue rt fetched (extraction_path spec) = Inl e
          \<longrightarrow> fetchAndCompare rt w spec req None = Inr (DiscreteFallback 500 ''EXTRACTION_ERROR''))
   \<and> (\<forall>(spec :: discrete_oracle_spec) req fetched v.
          category spec \<noteq> SPORTS_SCORE \<and> fetch w req = FetchJson fetched
          \<and> extractValue rt fetched (extraction_path spec) = Inr v \<and> (v = JNull \<or> v = JUndefined)
          \<longrightarrow> fetchAndCompare rt w spec req None = Inr (DiscreteFallback 500 ''NO_VALUE''))"
proof (intro conjI allI impI)
  fix str e
  assume "extractValue rt data (JStr str) = Inl e"
  from extractValue_throws [OF this] show "\<exists>v k. inherited rt v k = Inl e" by simp
next
  fix str
  assume "\<forall>v k e. inherited rt v k \<noteq> Inl e"
  then show "\<exists>v. extractValue rt data (JStr str) = Inr v"
    by (simp add: extractValue_def walkParts_returns)
next
  fix current :: jsval and part rest
  assume "current = JNull \<or> current = JUndefined"
  then show "walkParts rt current (part # rest) = Inr JUndefined" by auto
next
  fix current part rest
  assume "readMember rt current part = Inr JUndefined"
  then show "walkParts rt current (part # rest) = Inr JUndefined" by (rule walkParts_missing)
next
  fix current part
  assume own: "hasOwn current part"
  then have "current \<noteq> JNull" "current \<noteq> JUndefined" by auto
  with own show "\<exists>v. readMember rt current part = Inr v"
    using getProp_returns [of current part] by (simp add: readMember_def)
next
  assume "\<forall>str. path \<noteq> JStr str"
  then show "extractValue rt data path = Inl TypeError" by (rule extractValue_no_text)
next
  fix st
  assume a: "resolveDiscrete rt w = DiscreteFallback st ''EXTRACTION_ERROR''"
  from resolveDiscrete_extraction [OF a] show "st = 500" by blast
  from resolveDiscrete_extraction [OF a]
  show "\<exists>spec req fetched e. specDoc w = Inr (Some (DISCRETE spec))
          \<and> fetch w req = FetchJson fetched
          \<and> extractValue rt fetched (extraction_path spec) = Inl e" by blast
next
  fix spec :: discrete_oracle_spec and req fetched e
  assume a: "category spec \<noteq> SPORTS_SCORE \<and> fetch w req = FetchJson fetched
          \<and> extractValue rt fetched (extraction_path spec) = Inl e"
  then have "extractStep rt spec None fetched = Inr (Inl (DiscreteFallback 500 ''EXTRACTION_ERROR''))"
    by (simp add: extractStep_def)
  with a show "fetchAndCompare rt w spec req None = Inr (DiscreteFallback 500 ''EXTRACTION_ERROR'')"
    by (simp add: fetchAndCompare_def)
next
  fix spec :: discrete_oracle_spec and req fetched v
  assume a: "category spec \<noteq> SPORTS_SCORE \<and> fetch w req = FetchJson fetched
          \<and> extractValue rt fetched (extraction_path spec) = Inr v \<and> (v = JNull \<or> v = JUndefined)"
  then have "extractStep rt spec None fetched = Inr (Inr v)"
    by (simp add: extractStep_def)
  with a show "fetchAndCompare rt w spec req None = Inr (DiscreteFallback 500 ''NO_VALUE'')"
    by (auto simp: fetchAndCompare_def)
qed


section \<open>The discrete route on the scenarios\<close>

lemma priceWorld_answer:
  "resolveDiscrete scenarioRuntime priceWorld =
     DiscreteSuccess \<lparr> outcome = YES, confidenceBps = 10000, extractedValue = JNum 50000,
       targetValue = JNum 1, usedOperator = ''>'', sourceName = ''CoinGecko'',
       apiResponse = priceFeed \<rparr>"
  by (simp add: resolveDiscrete_def resolveDiscreteTry_def priceWorld_def priceSpec_def
        buildRequest_def fetchAndCompare_def extractStep_def extractValue_def pathParts_def
        stripRoot_def isQuote_def priceFeed_def applyComparison_def scenarioRuntime_def
        readMember_def)

lemma sportsWorld_answer:
  "resolveDiscrete scenarioRuntime sportsWorld =
     DiscreteSuccess \<lparr> outcome = YES, confidenceBps = 10000, extractedValue = JBool True,
       targetValue = JBool True, usedOperator = ''=='', sourceName = ''TheSportsDB'',
       apiResponse =
         JObj [(''results'', JArr [JObj [(''strHomeTeam'', JStr ''Los Angeles Lakers''),
                                         (''strAwayTeam'', JStr ''Boston Celtics''),
                                         (''intHomeScore'', JStr ''110''),
                                         (''intAwayScore'', JStr ''102'')]])] \<rparr>"
  by (simp add: resolveDiscrete_def resolveDiscreteTry_def sportsWorld_def sportsSpec_def
        buildRequest_def sportsLookup_def lookupParam_def firstNonEmpty_def sportsFeed_def
        fetchAndCompare_def extractStep_def sportsExtract_def optProp_def lowerOf_def scoreOf_def
        arrayIndex_def digitVal_def decimalOf_def asciiLower_def
        applyComparison_def isBoolean_def scenarioRuntime_def Let_def)

lemma emptyFeedWorld_answer:
  "resolveDiscrete scenarioRuntime emptyFeedWorld = DiscreteFallback 500 ''NO_VALUE''"
  by (simp add: resolveDiscrete_def resolveDiscreteTry_def emptyFeedWorld_def priceSpec_def
        buildRequest_def fetchAndCompare_def extractStep_def extractValue_def pathParts_def
        stripRoot_def isQuote_def readMember_def scenarioRuntime_def scenarioPrototypes_def)

theorem discrete_success_is_yes_or_no_witness:
  "resolveDiscrete scenarioRuntime priceWorld =
     DiscreteSuccess \<lparr> outcome = YES, confidenceBps = 10000, extractedValue = JNum 50000,
       targetValue = JNum 1, usedOperator = ''>'', sourceName = ''CoinGecko'',
       apiResponse = priceFeed \<rparr>
   \<and> outcome \<lparr> outcome = YES, confidenceBps = 10000, extractedValue = JNum 50000,
       targetValue = JNum 1, usedOperator = ''>'', sourceName = ''CoinGecko'',
       apiResponse = priceFeed \<rparr> \<noteq> INCONCLUSIVE
   \<and> confidenceBps \<lparr> outcome = YES, confidenceBps = 10000, extractedValue = JNum 50000,
       targetValue = JNum 1, usedOperator = ''>'', sourceName = ''CoinGecko'',
       apiResponse = priceFeed \<rparr> = 10000
   \<and> category sportsSpec = SPORTS_SCORE
   \<and> (\<exists>d. resolveDiscrete scenarioRuntime sportsWorld = DiscreteSuccess d
          \<and> outcome d = YES \<and> confidenceBps d = 10000)"
proof -
  note p = discrete_success_is_yes_or_no [OF priceWorld_answer]
  note s = discrete_success_is_yes_or_no [OF sportsWorld_answer]
  have c: "category sportsSpec = SPORTS_SCORE" by (simp add: sportsSpec_def)
  from s sportsWorld_answer
  have "\<exists>d. resolveDiscrete scenarioRuntime sportsWorld = DiscreteSuccess d
          \<and> outcome d = YES \<and> confidenceBps d = 10000"
    by simp
  with p priceWorld_answer c show ?thesis by simp
qed

lemma priceFeed_walks:
  "extractValue scenarioRuntime priceFeed (JStr ''constructor.name'') = Inr (JStr ''Object'')"
  "extractValue scenarioRuntime priceFeed (JStr ''constructor.caller'') = Inl TypeError"
  "extractValue bareRuntime priceFeed (JStr ''constructor.caller'') = Inr JUndefined"
  by (simp_all add: extractValue_def pathParts_def stripRoot_def isQuote_def priceFeed_def
        readMember_def scenarioRuntime_def bareRuntime_def scenarioPrototypes_def)

theorem extractValue_throws_only_outside_data_witness:
  "extractValue scenarioRuntime priceFeed (JStr ''constructor.name'') = Inr (JStr ''Object'')
   \<and> extractValue scenarioRuntime priceFeed (JStr ''constructor.caller'') = Inl TypeError
   \<and> (\<exists>v k. inherited scenarioRuntime v k = Inl TypeError)
   \<and> (\<forall>v k e. inherited bareRuntime v k \<noteq> Inl e)
   \<and> (\<exists>v. extractValue bareRuntime priceFeed (JStr ''constructor.caller'') = Inr v)
   \<and> walkParts scenarioRuntime JNull [''usd''] = Inr JUndefined
   \<and> readMember scenarioRuntime (JObj []) ''bitcoin'' = Inr JUndefined
   \<and> walkParts scenarioRuntime (JObj []) [''bitcoin'', ''usd''] = Inr JUndefined
   \<and> hasOwn priceFeed ''bitcoin''
   \<and> (\<exists>v. readMember scenarioRuntime priceFeed ''bitcoin'' = Inr v)
   \<and> extractValue scenarioRuntime priceFeed (JArr [JStr ''$.bitcoin.usd'']) = Inl TypeError
   \<and> resolveDiscrete scenarioRuntime listPathWorld = DiscreteFallback 500 ''EXTRACTION_ERROR''
   \<and> (\<exists>spec req fetched e. specDoc listPathWorld = Inr (Some (DISCRETE spec))
         \<and> fetch listPathWorld req = FetchJson fetched
         \<and> extractValue scenarioRuntime fetched (extraction_path spec) = Inl e)
   \<and> category priceSpec \<noteq> SPORTS_SCORE
   \<and> fetch emptyFeedWorld (GetUrl ''https://api.coingecko.com/api/v3/simple/price'' []) = FetchJson (JObj [])
   \<and> extractValue scenarioRuntime (JObj []) (extraction_path priceSpec) = Inr JUndefined
   \<and> fetchAndCompare scenarioRuntime emptyFeedWorld priceSpec
         (GetUrl ''https://api.coingecko.com/api/v3/simple/price'' []) None
       = Inr (DiscreteFallback 500 ''NO_VALUE'')"
proof -
  note th = extractValue_throws_only_outside_data
    [of scenarioRuntime priceFeed "JArr [JStr ''$.bitcoin.usd'']" listPathWorld]
  note bare = extractValue_throws_only_outside_data
    [of bareRuntime priceFeed "JArr [JStr ''$.bitcoin.usd'']" listPathWorld]
  note empty = extractValue_throws_only_outside_data
    [of scenarioRuntime "JObj []" "JStr ''$''" emptyFeedWorld]
  have t: "extractValue scenarioRuntime priceFeed (JStr ''constructor.caller'') = Inl TypeError"
    by (rule priceFeed_walks(2))
  from th t have 1: "\<exists>v k. inherited scenarioRuntime v k = Inl TypeError" by blast
  have n: "\<forall>v k e. inherited bareRuntime v k \<noteq> Inl e" by (simp add: bareRuntime_def)
  from bare n have 2: "\<exists>v. extractValue bareRuntime priceFeed (JStr ''constructor.caller'') = Inr v"
    by blast
  from th have 3: "walkParts scenarioRuntime JNull [''usd''] = Inr JUndefined" by blast
  have a: "readMember scenarioRuntime (JObj []) ''bitcoin'' = Inr JUndefined"
    by (simp add: readMember_def scenarioRuntime_def scenarioPrototypes_def)
  from th a have 4: "walkParts scenarioRuntime (JObj []) [''bitcoin'', ''usd''] = Inr JUndefined"
    by blast
  have o: "hasOwn priceFeed ''bitcoin''" by (simp add: priceFeed_def)
  from th o have 5: "\<exists>v. readMember scenarioRuntime priceFeed ''bitcoin'' = Inr v" by blast
  have "\<forall>str. JArr [JStr ''$.bitcoin.usd''] \<noteq> JStr str" by simp
  with th have 6: "extractValue scenarioRuntime priceFeed (JArr [JStr ''$.bitcoin.usd'']) = Inl TypeError"
    by blast
  have r: "resolveDiscrete scenarioRuntime listPathWorld = DiscreteFallback 500 ''EXTRACTION_ERROR''"
    by (simp add: listPathWorld_def listPathSpec_def priceSpec_def extractValue_def
          resolveDiscrete_def resolveDiscreteTry_def buildRequest_def fetchAndCompare_def
          extractStep_def)
  from th r have 7: "\<exists>spec req fetched e. specDoc listPathWorld = Inr (Some (DISCRETE spec))
         \<and> fetch listPathWorld req = FetchJson fetched
         \<and> extractValue scenarioRuntime fetched (extraction_path spec) = Inl e" by blast
  have b: "category priceSpec \<noteq> SPORTS_SCORE" by (simp add: priceSpec_def)
  have c: "fetch emptyFeedWorld (GetUrl ''https://api.coingecko.com/api/v3/simple/price'' []) = FetchJson (JObj [])"
    by (simp add: emptyFeedWorld_def)
  have d: "extractValue scenarioRuntime (JObj []) (extraction_path priceSpec) = Inr JUndefined"
    by (simp add: extractValue_def pathParts_def stripRoot_def isQuote_def priceSpec_def
          readMember_def scenarioRuntime_def scenarioPrototypes_def)
  from empty b c d
  have 8: "fetchAndCompare scenarioRuntime emptyFeedWorld priceSpec
         (GetUrl ''https://api.coingecko.com/api/v3/simple/price'' []) None
       = Inr (DiscreteFallback 500 ''NO_VALUE'')" by blast
  from priceFeed_walks(1) t 1 n 2 3 a 4 o 5 6 r 7 b c d 8 show ?thesis by simp
qed

section \<open>Verification: the settlement handler\<close>












lemma submit_answers:
  "snd (submit w big p) = Inr r \<Longrightarrow> r = Settled (projr (writeContract w)) p"
  by (auto simp: submit_def split: sum.splits if_splits)










lemma settledMarketWorld_run:
  "settle settledMarketWorld =
     (Settled ''0xreport'' \<lparr> result = YES, confidence = Finite 10000 \<rparr>,
      [DiscreteResolution, OnReportTx 7 2 10000, AuditRecord])"
  by (simp add: settle_def settlePrelude_def readRequest_def requestIfOpen_def
        settledMarketWorld_def settleWorld_def bigIntOfNumber_def resolve_def tryDiscrete_def
        priceWorld_answer submit_def outcomeEnum_def validConfidence_def)



text \<open>
  Claim C1 against the code. The settlement handler has no guard for a Settled market: on
  status 2 it only skips the settlement request, then resolves and submits as for any
  other market. In the scenario the market is Settled, and the handler still calls the
  discrete route, sends an \<^verbatim>\<open>onReport\<close> transaction and answers success.
\<close>

theorem settled_market_is_resolved_and_reported:
  "getMarketFirst settledMarketWorld = Inr \<lparr> question = ''Is the price above 1?'', status = 2 \<rparr>
   \<and> settle settledMarketWorld =
       (Settled ''0xreport'' \<lparr> result = YES, confidence = Finite 10000 \<rparr>,
        [DiscreteResolution, OnReportTx 7 2 10000, AuditRecord])"
  by (simp add: settledMarketWorld_run) (simp add: settledMarketWorld_def settleWorld_def)

section \<open>Verification: the creation route\<close>

declare newMarketLoop.simps [simp del]

lemma newMarketLoop_third:
  "newMarketLoop w b (Suc (Suc 0)) =
     (case newMarket w (Suc (Suc b)) of
        TxConfirmed h \<Rightarrow> ([NewMarketTx (Suc (Suc b))], Inr (Some h))
      | TxFailed m \<Rightarrow> ([NewMarketTx (Suc (Suc b))], Inl (TxError m)))"
  by (subst newMarketLoop.simps) (simp add: maxAttempts_def split: tx_outcome.splits)

lemma newMarketLoop_second:
  "newMarketLoop w b (Suc 0) =
     (case newMarket w (Suc b) of
        TxConfirmed h \<Rightarrow> ([NewMarketTx (Suc b)], Inr (Some h))
      | TxFailed m \<Rightarrow>
          if mentionsNonce m then
            (NewMarketTx (Suc b) # Backoff 1000 # fst (newMarketLoop w b (Suc (Suc 0))),
             snd (newMarketLoop w b (Suc (Suc 0))))
          else ([NewMarketTx (Suc b)], Inl (TxError m)))"
  by (subst newMarketLoop.simps)
     (simp add: maxAttempts_def split: tx_outcome.splits prod.splits)

lemma newMarketLoop_first:
  "newMarketLoop w b 0 =
     (case newMarket w b of
        TxConfirmed h \<Rightarrow> ([NewMarketTx b], Inr (Some h))
      | TxFailed m \<Rightarrow>
          if mentionsNonce m then
            (NewMarketTx b # Backoff 1000 # fst (newMarketLoop w b (Suc 0)),
             snd (newMarketLoop w b (Suc 0)))
          else ([NewMarketTx b], Inl (TxError m)))"
  by (subst newMarketLoop.simps)
     (simp add: maxAttempts_def split: tx_outcome.splits prod.splits)

text \<open>The six ways a creation can go.\<close>

lemma newMarketLoop_runs:
  obtains
    (first_ok) h where "newMarket w b = TxConfirmed h"
      "newMarketLoop w b 0 = ([NewMarketTx b], Inr (Some h))"
  | (first_abort) m where "newMarket w b = TxFailed m" "\<not> mentionsNonce m"
      "newMarketLoop w b 0 = ([NewMarketTx b], Inl (TxError m))"
  | (second_ok) m h where "newMarket w b = TxFailed m" "mentionsNonce m"
      "newMarket w (b + 1) = TxConfirmed h"
      "newMarketLoop w b 0 = ([NewMarketTx b, Backoff 1000, NewMarketTx (b + 1)], Inr (Some h))"
  | (second_abort) m m' where "newMarket w b = TxFailed m" "mentionsNonce m"
      "newMarket w (b + 1) = TxFailed m'" "\<not> mentionsNonce m'"
      "newMarketLoop w b 0 = ([NewMarketTx b, Backoff 1000, NewMarketTx (b + 1)], Inl (TxError m'))"
  | (third_ok) m m' h where "newMarket w b = TxFailed m" "mentionsNonce m"
      "newMarket w (b + 1) = TxFailed m'" "mentionsNonce m'"
      "newMarket w (b + 2) = TxConfirmed h"
      "newMarketLoop w b 0 =
         ([NewMarketTx b, Backoff 1000, NewMarketTx (b + 1), Backoff 1000, NewMarketTx (b + 2)],
          Inr (Some h))"
  | (third_abort) m m' m'' where "newMarket w b = TxFailed m" "mentionsNonce m"
      "newMarket w (b + 1) = TxFailed m'" "mentionsNonce m'"
      "newMarket w (b + 2) = TxFailed m''"
      "newMarketLoop w b 0 =
         ([NewMarketTx b, Backoff 1000, NewMarketTx (b + 1), Backoff 1000, NewMarketTx (b + 2)],
          Inl (TxError m''))"
proof (cases "newMarket w b")
  case (TxConfirmed h)
  then show ?thesis using first_ok by (simp add: newMarketLoop_first)
next
  case f1: (TxFailed m)
  show ?thesis
  proof (cases "mentionsNonce m")
    case False
    with f1 show ?thesis using first_abort by (simp add: newMarketLoop_first)
  next
    case n1: True
    show ?thesis
    proof (cases "newMarket w (b + 1)")
      case (TxConfirmed h)
      with f1 n1 show ?thesis using second_ok
        by (simp add: newMarketLoop_first newMarketLoop_second)
    next
      case f2: (TxFailed m')
      show ?thesis
      proof (cases "mentionsNonce m'")
        case False
        with f1 n1 f2 show ?thesis using second_abort
          by (simp add: newMarketLoop_first newMarketLoop_second)
      next
        case n2: True
        show ?thesis
        proof (cases "newMarket w (b + 2)")
          case (TxConfirmed h)
          with f1 n1 f2 n2 show ?thesis using third_ok
            by (simp add: newMarketLoop_first newMarketLoop_second newMarketLoop_third numeral_2_eq_2)
        next
          case (TxFailed m'')
          with f1 n1 f2 n2 show ?thesis using third_abort
            by (simp add: newMarketLoop_first newMarketLoop_second newMarketLoop_third numeral_2_eq_2)
        qed
      qed
    qed
  qed
qed


lemma creation_run_facts:
  assumes "newMarketLoop w base 0 = (evs, r)"
  shows "creationEvents w base = evs" and "creationResult w base = r"
    and "attemptsMade w base = length (sentNonces evs)"
  using assms by (simp_all add: creationEvents_def creationResult_def attemptsMade_def)

lemma sendCreation_events:
  "fst (sendCreation w) = []
   \<or> (\<exists>nonce. getTransactionCount w = Inr nonce \<and> fst (sendCreation w) = creationEvents w nonce)"
proof (cases "getTransactionCount w")
  case (Inl e)
  then show ?thesis
    by (simp add: sendCreation_def split: sum.splits)
next
  case (Inr nonce)
  obtain evs r where run: "newMarketLoop w nonce 0 = (evs, r)" by (cases "newMarketLoop w nonce 0")
  have "fst (sendCreation w) = [] \<or> fst (sendCreation w) = evs"
    using Inr run by (simp add: sendCreation_def split: sum.splits option.splits)
  with Inr run show ?thesis by (simp add: creationEvents_def)
qed

text \<open>
  Claim C6. A market creation attempts the transaction at least once and at most three
  times; attempt \<open>k\<close> (counted from 0) uses the nonce \<open>base + k\<close>, where \<open>base\<close> is the
  account's pending transaction count; every attempt after the first follows a wait of
  1000 milliseconds and happens only after a failure classified as a nonce conflict; a
  nonce conflict on the first or the second attempt is followed by another attempt; a
  failure that is no nonce conflict, and any failure of the third attempt, is rethrown at
  once; a confirmed attempt ends the loop. The handler sends nothing but the events of
  this loop, and it sends them whenever the request and the configuration pass its checks
  and the pending transaction count is read.
\<close>

theorem creation_retry_policy:
  "1 \<le> attemptsMade w base \<and> attemptsMade w base \<le> 3
   \<and> sentNonces (creationEvents w base) = map (\<lambda>k. base + k) [0..<attemptsMade w base]
   \<and> creationEvents w base = withBackoff (sentNonces (creationEvents w base))
   \<and> (\<forall>k. k + 1 < attemptsMade w base
          \<longrightarrow> (\<exists>m. newMarket w (base + k) = TxFailed m \<and> mentionsNonce m))
   \<and> (\<forall>k m. k < attemptsMade w base \<and> newMarket w (base + k) = TxFailed m \<and> \<not> mentionsNonce m
          \<longrightarrow> attemptsMade w base = k + 1 \<and> creationResult w base = Inl (TxError m))
   \<and> (\<forall>m. attemptsMade w base = 3 \<and> newMarket w (base + 2) = TxFailed m
          \<longrightarrow> creationResult w base = Inl (TxError m))
   \<and> (\<forall>k h. k < attemptsMade w base \<and> newMarket w (base + k) = TxConfirmed h
          \<longrightarrow> attemptsMade w base = k + 1 \<and> creationResult w base = Inr (Some h))
   \<and> (fst (sendCreation w) = []
       \<or> (\<exists>nonce. getTransactionCount w = Inr nonce \<and> fst (sendCreation w) = creationEvents w nonce))
   \<and> (\<forall>k m. k < attemptsMade w base \<and> k + 1 < maxAttempts
            \<and> newMarket w (base + k) = TxFailed m \<and> mentionsNonce m
          \<longrightarrow> k + 1 < attemptsMade w base)
   \<and> (\<forall>body q marketId nonce.
          createBody w = Inr body \<and> getProp body ''question'' = Inr q \<and> truthy q
          \<and> rpcUrl (createEnv w) \<noteq> [] \<and> privateKey (createEnv w) \<noteq> []
          \<and> marketAddress (createEnv w) \<noteq> [] \<and> createClients w = Inr ()
          \<and> nextMarketId w = Inr marketId \<and> getTransactionCount w = Inr nonce
          \<longrightarrow> fst (sendCreation w) = creationEvents w nonce)"
proof -
  have retried: "\<forall>k m. k < attemptsMade w base \<and> k + 1 < maxAttempts
            \<and> newMarket w (base + k) = TxFailed m \<and> mentionsNonce m
          \<longrightarrow> k + 1 < attemptsMade w base"
  proof (cases rule: newMarketLoop_runs [of w base])
    case (first_ok h)
    note f = creation_run_facts [OF first_ok(2)]
    show ?thesis using first_ok(1) by (auto simp: f)
  next
    case (first_abort m)
    note f = creation_run_facts [OF first_abort(3)]
    show ?thesis using first_abort(1,2) by (auto simp: f)
  next
    case (second_ok m h)
    note f = creation_run_facts [OF second_ok(4)]
    show ?thesis using second_ok(1,2,3)
      by (auto simp: f less_Suc_eq numeral_2_eq_2)
  next
    case (second_abort m m')
    note f = creation_run_facts [OF second_abort(5)]
    show ?thesis using second_abort(1,2,3,4)
      by (auto simp: f less_Suc_eq numeral_2_eq_2)
  next
    case (third_ok m m' h)
    note f = creation_run_facts [OF third_ok(6)]
    show ?thesis using third_ok(1,2,3,4,5)
      by (auto simp: f maxAttempts_def)
  next
    case (third_abort m m' m'')
    note f = creation_run_facts [OF third_abort(6)]
    show ?thesis using third_abort(1,2,3,4,5)
      by (auto simp: f maxAttempts_def)
  qed
  have sent: "\<forall>body q marketId nonce.
          createBody w = Inr body \<and> getProp body ''question'' = Inr q \<and> truthy q
          \<and> rpcUrl (createEnv w) \<noteq> [] \<and> privateKey (createEnv w) \<noteq> []
          \<and> marketAddress (createEnv w) \<noteq> [] \<and> createClients w = Inr ()
          \<and> nextMarketId w = Inr marketId \<and> getTransactionCount w = Inr nonce
          \<longrightarrow> fst (sendCreation w) = creationEvents w nonce"
  proof (intro allI impI)
    fix body q marketId nonce
    assume a: "createBody w = Inr body \<and> getProp body ''question'' = Inr q \<and> truthy q
          \<and> rpcUrl (createEnv w) \<noteq> [] \<and> privateKey (createEnv w) \<noteq> []
          \<and> marketAddress (createEnv w) \<noteq> [] \<and> createClients w = Inr ()
          \<and> nextMarketId w = Inr marketId \<and> getTransactionCount w = Inr nonce"
    obtain evs r where run: "newMarketLoop w nonce 0 = (evs, r)" by (cases "newMarketLoop w nonce 0")
    with a have "fst (sendCreation w) = evs"
      by (simp add: sendCreation_def split: sum.splits option.splits)
    with run show "fst (sendCreation w) = creationEvents w nonce" by (simp add: creationEvents_def)
  qed
  have loop: "1 \<le> attemptsMade w base \<and> attemptsMade w base \<le> 3
   \<and> sentNonces (creationEvents w base) = map (\<lambda>k. base + k) [0..<attemptsMade w base]
   \<and> creationEvents w base = withBackoff (sentNonces (creationEvents w base))
   \<and> (\<forall>k. k + 1 < attemptsMade w base
          \<longrightarrow> (\<exists>m. newMarket w (base + k) = TxFailed m \<and> mentionsNonce m))
   \<and> (\<forall>k m. k < attemptsMade w base \<and> newMarket w (base + k) = TxFailed m \<and> \<not> mentionsNonce m
          \<longrightarrow> attemptsMade w base = k + 1 \<and> creationResult w base = Inl (TxError m))
   \<and> (\<forall>m. attemptsMade w base = 3 \<and> newMarket w (base + 2) = TxFailed m
          \<longrightarrow> creationResult w base = Inl (TxError m))
   \<and> (\<forall>k h. k < attemptsMade w base \<and> newMarket w (base + k) = TxConfirmed h
          \<longrightarrow> attemptsMade w base = k + 1 \<and> creationResult w base = Inr (Some h))"
  proof (cases rule: newMarketLoop_runs [of w base])
    case (first_ok h)
    note f = creation_run_facts [OF first_ok(2)]
    show ?thesis using first_ok(1) by (auto simp: f intro: gr0I)
  next
    case (first_abort m)
    note f = creation_run_facts [OF first_abort(3)]
    show ?thesis using first_abort(1,2) by (auto simp: f intro: gr0I)
  next
    case (second_ok m h)
    note f = creation_run_facts [OF second_ok(4)]
    show ?thesis using second_ok(1,2,3)
      by (auto simp: f less_Suc_eq numeral_2_eq_2 upt_rec intro: gr0I)
  next
    case (second_abort m m')
    note f = creation_run_facts [OF second_abort(5)]
    show ?thesis using second_abort(1,2,3,4)
      by (auto simp: f less_Suc_eq numeral_2_eq_2 upt_rec intro: gr0I)
  next
    case (third_ok m m' h)
    note f = creation_run_facts [OF third_ok(6)]
    show ?thesis using third_ok(1,2,3,4,5)
      by (auto simp: f less_Suc_eq numeral_2_eq_2 numeral_3_eq_3 upt_rec intro: gr0I)
  next
    case (third_abort m m' m'')
    note f = creation_run_facts [OF third_abort(6)]
    show ?thesis using third_abort(1,2,3,4,5)
      by (auto simp: f less_Suc_eq numeral_2_eq_2 numeral_3_eq_3 upt_rec intro: gr0I)
  qed
  with sendCreation_events [of w] retried sent show ?thesis by blast
qed


section \<open>The creation route on the scenarios\<close>

lemma nonce_message: "mentionsNonce (Some ''nonce too low'')" "\<not> mentionsNonce (Some ''execution reverted'')"
  by (simp_all add: mentionsNonce_def)

lemma nonceConflictWorld_loop:
  "newMarketLoop nonceConflictWorld 40 0 =
     ([NewMarketTx 40, Backoff 1000, NewMarketTx 41], Inr (Some ''0xcreate''))"
  by (simp add: newMarketLoop_first newMarketLoop_second nonceConflictWorld_def createWorld_def
        nonceTakenOnce_def nonce_message)

lemma nonceExhaustedWorld_loop:
  "newMarketLoop nonceExhaustedWorld 40 0 =
     ([NewMarketTx 40, Backoff 1000, NewMarketTx 41, Backoff 1000, NewMarketTx 42],
      Inl (TxError (Some ''nonce too low'')))"
  by (simp add: newMarketLoop_first newMarketLoop_second newMarketLoop_third
        nonceExhaustedWorld_def createWorld_def nonceTakenAlways_def nonce_message)

lemma revertedWorld_loop:
  "newMarketLoop revertedWorld 40 0 = ([NewMarketTx 40], Inl (TxError (Some ''execution reverted'')))"
  by (simp add: newMarketLoop_first revertedWorld_def createWorld_def revertsAll_def nonce_message)

lemma confirmsAll_loop:
  "newMarketLoop (createWorld confirmsAll reply written) 40 0 = ([NewMarketTx 40], Inr (Some ''0xcreate''))"
  by (simp add: newMarketLoop_first createWorld_def confirmsAll_def)

lemma confirmsAll_sent:
  "sendCreation (createWorld confirmsAll reply written) = ([NewMarketTx 40], Inr (Inr (7, ''0xcreate'')))"
  using confirmsAll_loop [of reply written]
  by (simp add: sendCreation_def) (simp add: createWorld_def)

lemma failedSpec_type: "oracleTypeOf (Some classificationFailedSpec) = JStr ''CONTIGUOUS''"
  by (simp add: oracleTypeOf_def classificationFailedSpec_def optProp_def orElse_def)

lemma contiguousSpec_type: "oracleTypeOf (Some (contiguousSpecOf p)) = JStr ''CONTIGUOUS''"
  by (simp add: oracleTypeOf_def contiguousSpecOf_def optProp_def orElse_def)

lemma discreteSpec_type: "oracleTypeOf (Some (discreteSpecOf ts p)) = JStr ''DISCRETE''"
  by (simp add: oracleTypeOf_def discreteSpecOf_def optProp_def orElse_def Let_def)

lemma classifierDownWorld_run:
  "createMarket classifierDownWorld [] =
     (Created 7 ''0xcreate'' (JStr ''CONTIGUOUS''), [NewMarketTx 40, ClassifierCall], [])"
  by (simp add: createMarket_def classifierDownWorld_def confirmsAll_sent classify_def
        classifyTry_def failedSpec_type)
     (simp add: createWorld_def failedSpec_type)

lemma classifiedWorld_run:
  "createMarket classifiedWorld [] =
     (Created 7 ''0xcreate'' (JStr ''CONTIGUOUS''),
      [NewMarketTx 40, ClassifierCall, SpecWrite 7],
      [(7, contiguousSpecOf (JObj [(''type'', JStr ''CONTIGUOUS''), (''category'', JStr ''GENERAL_AI'')]))])"
  by (simp add: createMarket_def classifiedWorld_def confirmsAll_sent classify_def
        classifyTry_def contiguousSpec_type contiguousReply_def writeSpec_def)
     (simp add: createWorld_def contiguousSpec_type writeSpec_def Let_def)


theorem creation_retry_policy_witness:
  "attemptsMade nonceConflictWorld 40 = 2
   \<and> sentNonces (creationEvents nonceConflictWorld 40) = [40, 41]
   \<and> creationEvents nonceConflictWorld 40 = [NewMarketTx 40, Backoff 1000, NewMarketTx 41]
   \<and> newMarket nonceConflictWorld (40 + 0) = TxFailed (Some ''nonce too low'')
   \<and> mentionsNonce (Some ''nonce too low'')
   \<and> newMarket nonceConflictWorld (40 + 1) = TxConfirmed ''0xcreate''
   \<and> creationResult nonceConflictWorld 40 = Inr (Some ''0xcreate'')
   \<and> newMarket revertedWorld (40 + 0) = TxFailed (Some ''execution reverted'')
   \<and> \<not> mentionsNonce (Some ''execution reverted'')
   \<and> attemptsMade revertedWorld 40 = 0 + 1
   \<and> creationResult revertedWorld 40 = Inl (TxError (Some ''execution reverted''))
   \<and> attemptsMade nonceExhaustedWorld 40 = 3
   \<and> newMarket nonceExhaustedWorld (40 + 2) = TxFailed (Some ''nonce too low'')
   \<and> creationResult nonceExhaustedWorld 40 = Inl (TxError (Some ''nonce too low''))
   \<and> 0 + 1 < maxAttempts
   \<and> 0 + 1 < attemptsMade nonceConflictWorld 40
   \<and> createBody nonceConflictWorld = Inr (JObj [(''question'', JStr ''Is the price above 1?'')])
   \<and> getTransactionCount nonceConflictWorld = Inr 40
   \<and> fst (sendCreation nonceConflictWorld) = [NewMarketTx 40, Backoff 1000, NewMarketTx 41]"
proof -
  have a: "attemptsMade nonceConflictWorld 40 = 2"
    "creationEvents nonceConflictWorld 40 = [NewMarketTx 40, Backoff 1000, NewMarketTx 41]"
    by (simp_all add: attemptsMade_def creationEvents_def nonceConflictWorld_loop)
  have b: "newMarket nonceConflictWorld (40 + 0) = TxFailed (Some ''nonce too low'')"
    "newMarket nonceConflictWorld (40 + 1) = TxConfirmed ''0xcreate''"
    by (simp_all add: nonceConflictWorld_def createWorld_def nonceTakenOnce_def)
  have c: "newMarket revertedWorld (40 + 0) = TxFailed (Some ''execution reverted'')"
    by (simp add: revertedWorld_def createWorld_def revertsAll_def)
  have d: "0 < attemptsMade revertedWorld 40"
    by (simp add: attemptsMade_def creationEvents_def revertedWorld_loop)
  have e: "attemptsMade nonceExhaustedWorld 40 = 3"
    by (simp add: attemptsMade_def creationEvents_def nonceExhaustedWorld_loop)
  have f: "newMarket nonceExhaustedWorld (40 + 2) = TxFailed (Some ''nonce too low'')"
    by (simp add: nonceExhaustedWorld_def createWorld_def nonceTakenAlways_def)
  note t1 = creation_retry_policy [of nonceConflictWorld 40]
  note t2 = creation_retry_policy [of revertedWorld 40]
  note t3 = creation_retry_policy [of nonceExhaustedWorld 40]
  from t1 a have 1: "sentNonces (creationEvents nonceConflictWorld 40) = [40, 41]"
    by (simp add: upt_rec numeral_2_eq_2)
  from t1 have "1 < attemptsMade nonceConflictWorld 40
        \<and> newMarket nonceConflictWorld (40 + 1) = TxConfirmed ''0xcreate''
      \<longrightarrow> attemptsMade nonceConflictWorld 40 = 1 + 1
        \<and> creationResult nonceConflictWorld 40 = Inr (Some ''0xcreate'')"
    by blast
  with a(1) b(2) have 2: "creationResult nonceConflictWorld 40 = Inr (Some ''0xcreate'')"
    by simp
  from t2 c d nonce_message(2)
  have 3: "attemptsMade revertedWorld 40 = 0 + 1
           \<and> creationResult revertedWorld 40 = Inl (TxError (Some ''execution reverted''))"
    by blast
  from t3 e f have 4: "creationResult nonceExhaustedWorld 40 = Inl (TxError (Some ''nonce too low''))"
    by blast
  have g: "0 + 1 < maxAttempts" by (simp add: maxAttempts_def)
  from t1 have "0 < attemptsMade nonceConflictWorld 40 \<and> 0 + 1 < maxAttempts
        \<and> newMarket nonceConflictWorld (40 + 0) = TxFailed (Some ''nonce too low'')
        \<and> mentionsNonce (Some ''nonce too low'')
      \<longrightarrow> 0 + 1 < attemptsMade nonceConflictWorld 40"
    by blast
  with a(1) g b(1) nonce_message(1) have 5: "0 + 1 < attemptsMade nonceConflictWorld 40" by simp
  have h: "createBody nonceConflictWorld = Inr (JObj [(''question'', JStr ''Is the price above 1?'')])"
    "getProp (JObj [(''question'', JStr ''Is the price above 1?'')]) ''question''
       = Inr (JStr ''Is the price above 1?'')"
    "truthy (JStr ''Is the price above 1?'')"
    "rpcUrl (createEnv nonceConflictWorld) \<noteq> []" "privateKey (createEnv nonceConflictWorld) \<noteq> []"
    "marketAddress (createEnv nonceConflictWorld) \<noteq> []" "createClients nonceConflictWorld = Inr ()"
    "nextMarketId nonceConflictWorld = Inr 7" "getTransactionCount nonceConflictWorld = Inr 40"
    by (simp_all add: nonceConflictWorld_def createWorld_def)
  from t1 h have "fst (sendCreation nonceConflictWorld) = creationEvents nonceConflictWorld 40"
    by blast
  with a(2) have 6: "fst (sendCreation nonceConflictWorld) = [NewMarketTx 40, Backoff 1000, NewMarketTx 41]"
    by simp
  from a 1 b nonce_message 2 c 3 e f 4 g 5 h(1,9) 6 show ?thesis by simp
qed


lemma classify_failed:
  assumes "geminiKey (createEnv w) \<noteq> []" and "snd (classifyTry w marketId store) = Inl e"
  shows "snd (classify w marketId store) = (Some classificationFailedSpec, store)"
  using assms by (cases "classifyTry w marketId store") (simp add: classify_def)

lemma classify_done:
  assumes "geminiKey (createEnv w) \<noteq> []" and "snd (classifyTry w marketId store) = Inr (spec, store')"
  shows "snd (classify w marketId store) = (Some spec, store')"
  using assms by (cases "classifyTry w marketId store") (simp add: classify_def)

lemma classifyTry_done:
  assumes "snd (classifyTry w marketId store) = Inr (spec, store')"
  shows "store' = writeSpec store marketId spec"
    and "\<exists>p. classifier w = Parsed p
             \<and> (spec = discreteSpecOf (now w) p \<or> spec = contiguousSpecOf p)"
  using assms
  by (auto simp: classifyTry_def Let_def split: llm_reply.splits sum.splits if_splits)

lemma storedSpec_writeSpec: "storedSpec (writeSpec store marketId spec) marketId = Some spec"
  by (simp add: storedSpec_def writeSpec_def)

lemma newMarketLoop_classifier: "ClassifierCall \<notin> set (fst (newMarketLoop w base 0))"
  by (cases rule: newMarketLoop_runs [of w base]) simp_all

lemma sendCreation_classifier: "ClassifierCall \<notin> set (fst (sendCreation w))"
proof -
  from sendCreation_events [of w]
  consider "fst (sendCreation w) = []"
    | nonce where "fst (sendCreation w) = creationEvents w nonce" by blast
  then show ?thesis
  proof cases
    case 1
    then show ?thesis by simp
  next
    case 2
    with newMarketLoop_classifier [of w nonce] show ?thesis by (simp add: creationEvents_def)
  qed
qed

lemma createMarket_after_creation:
  assumes "snd (sendCreation w) = Inr (Inr (marketId, hash))"
  shows "fst (createMarket w store) =
           Created marketId hash (oracleTypeOf (fst (snd (classify w marketId store))))"
    and "snd (snd (createMarket w store)) = snd (snd (classify w marketId store))"
  using assms
  by (cases "sendCreation w"; cases "classify w marketId store"; simp add: createMarket_def)+

text \<open>
  Claim C7, as stated, fails: when the call of the classifier throws after a confirmed
  creation, the request still answers success with oracle type CONTIGUOUS, but no spec is
  stored for the market.
\<close>

theorem classifier_error_persists_nothing:
  "classifier classifierDownWorld = ServiceFailure
   \<and> fst (createMarket classifierDownWorld []) = Created 7 ''0xcreate'' (JStr ''CONTIGUOUS'')
   \<and> storedSpec (snd (snd (createMarket classifierDownWorld []))) 7 = None"
  by (simp add: classifierDownWorld_run storedSpec_def)
     (simp add: classifierDownWorld_def createWorld_def)

text \<open>
  Claim C7, amended. After a confirmed creation the request always answers success. With
  a classifier configured, a classifier error (the call throws, the answer does not parse
  or is \<^verbatim>\<open>null\<close>, or the write of the spec throws) degrades the classification to the
  Contiguous fallback, which the answer reports, and leaves the store as it was; when the
  classification and its write succeed, the resulting spec is stored under the market id
  and the answer reports its type. Without a classifier configured no classification runs:
  the store is left as it was and the answer reports the type UNKNOWN.
\<close>

theorem classifier_error_degrades:
  assumes "snd (sendCreation w) = Inr (Inr (marketId, hash))"
  shows "(\<exists>oracleType. fst (createMarket w store) = Created marketId hash oracleType)
   \<and> (geminiKey (createEnv w) \<noteq> [] \<and> (\<exists>e. snd (classifyTry w marketId store) = Inl e)
         \<longrightarrow> fst (createMarket w store) = Created marketId hash (JStr ''CONTIGUOUS'')
             \<and> snd (snd (createMarket w store)) = store)
   \<and> (\<forall>spec store'. geminiKey (createEnv w) \<noteq> []
           \<and> snd (classifyTry w marketId store) = Inr (spec, store')
         \<longrightarrow> fst (createMarket w store) = Created marketId hash (oracleTypeOf (Some spec))
             \<and> snd (snd (createMarket w store)) = store'
             \<and> storedSpec store' marketId = Some spec)
   \<and> (classifier w = ServiceFailure \<or> classifier w = Unparsable \<or> classifier w = Parsed JNull
         \<longrightarrow> (\<exists>e. snd (classifyTry w marketId store) = Inl e))
   \<and> ((\<exists>e. setDoc w = Inl e) \<longrightarrow> (\<exists>e. snd (classifyTry w marketId store) = Inl e))
   \<and> (geminiKey (createEnv w) = []
         \<longrightarrow> fst (createMarket w store) = Created marketId hash (JStr ''UNKNOWN'')
             \<and> snd (snd (createMarket w store)) = store
             \<and> ClassifierCall \<notin> set (fst (snd (createMarket w store))))"
proof (intro conjI allI impI)
  note after = createMarket_after_creation [OF assms, of store]
  {
    assume k: "geminiKey (createEnv w) = []"
    then have c: "classify w marketId store = ([], None, store)" by (simp add: classify_def)
    show "fst (createMarket w store) = Created marketId hash (JStr ''UNKNOWN'')"
      using after(1) c by (simp add: oracleTypeOf_def)
    show "snd (snd (createMarket w store)) = store"
      using after(2) c by simp
    obtain evs where evs: "sendCreation w = (evs, Inr (Inr (marketId, hash)))"
      using assms by (cases "sendCreation w") simp
    have "ClassifierCall \<notin> set evs"
      using sendCreation_classifier [of w] evs by simp
    with evs c show "ClassifierCall \<notin> set (fst (snd (createMarket w store)))"
      by (simp add: createMarket_def)
  }
  show "\<exists>oracleType. fst (createMarket w store) = Created marketId hash oracleType"
    using after(1) by blast
  {
    assume a: "geminiKey (createEnv w) \<noteq> [] \<and> (\<exists>e. snd (classifyTry w marketId store) = Inl e)"
    then obtain e where "snd (classifyTry w marketId store) = Inl e" by blast
    with a have c: "snd (classify w marketId store) = (Some classificationFailedSpec, store)"
      using classify_failed by blast
    show "fst (createMarket w store) = Created marketId hash (JStr ''CONTIGUOUS'')"
      using after(1) c by (simp add: failedSpec_type)
    show "snd (snd (createMarket w store)) = store"
      using after(2) c by simp
  }
  {
    fix spec store'
    assume a: "geminiKey (createEnv w) \<noteq> [] \<and> snd (classifyTry w marketId store) = Inr (spec, store')"
    then have c: "snd (classify w marketId store) = (Some spec, store')"
      using classify_done by blast
    show "fst (createMarket w store) = Created marketId hash (oracleTypeOf (Some spec))"
      using after(1) c by simp
    show "snd (snd (createMarket w store)) = store'"
      using after(2) c by simp
    show "storedSpec store' marketId = Some spec"
      using a classifyTry_done(1) storedSpec_writeSpec by blast
  }
  {
    assume "classifier w = ServiceFailure \<or> classifier w = Unparsable \<or> classifier w = Parsed JNull"
    then show "\<exists>e. snd (classifyTry w marketId store) = Inl e"
      by (auto simp: classifyTry_def)
  }
  {
    assume "\<exists>e. setDoc w = Inl e"
    then show "\<exists>e. snd (classifyTry w marketId store) = Inl e"
      by (auto simp: classifyTry_def Let_def split: llm_reply.splits sum.splits)
  }
qed

theorem classifier_error_degrades_witness:
  "snd (sendCreation classifierDownWorld) = Inr (Inr (7, ''0xcreate''))
   \<and> geminiKey (createEnv classifierDownWorld) \<noteq> []
   \<and> classifier classifierDownWorld = ServiceFailure
   \<and> snd (classifyTry classifierDownWorld 7 []) = Inl ServiceError
   \<and> fst (createMarket classifierDownWorld []) = Created 7 ''0xcreate'' (JStr ''CONTIGUOUS'')
   \<and> snd (snd (createMarket classifierDownWorld [])) = []
   \<and> snd (sendCreation classifiedWorld) = Inr (Inr (7, ''0xcreate''))
   \<and> geminiKey (createEnv classifiedWorld) \<noteq> []
   \<and> snd (classifyTry classifiedWorld 7 []) =
        Inr (contiguousSpecOf (JObj [(''type'', JStr ''CONTIGUOUS''), (''category'', JStr ''GENERAL_AI'')]),
             [(7, contiguousSpecOf (JObj [(''type'', JStr ''CONTIGUOUS''), (''category'', JStr ''GENERAL_AI'')]))])
   \<and> storedSpec (snd (snd (createMarket classifiedWorld []))) 7 =
        Some (contiguousSpecOf (JObj [(''type'', JStr ''CONTIGUOUS''), (''category'', JStr ''GENERAL_AI'')]))
   \<and> snd (sendCreation noClassifierWorld) = Inr (Inr (7, ''0xcreate''))
   \<and> geminiKey (createEnv noClassifierWorld) = []
   \<and> fst (createMarket noClassifierWorld []) = Created 7 ''0xcreate'' (JStr ''UNKNOWN'')
   \<and> snd (snd (createMarket noClassifierWorld [])) = []"
proof -
  let ?spec = "contiguousSpecOf (JObj [(''type'', JStr ''CONTIGUOUS''), (''category'', JStr ''GENERAL_AI'')])"
  have s1: "snd (sendCreation classifierDownWorld) = Inr (Inr (7, ''0xcreate''))"
    by (simp add: classifierDownWorld_def confirmsAll_sent)
  have k1: "geminiKey (createEnv classifierDownWorld) \<noteq> []"
    and c1: "classifier classifierDownWorld = ServiceFailure"
    by (simp_all add: classifierDownWorld_def createWorld_def)
  have t1: "snd (classifyTry classifierDownWorld 7 []) = Inl ServiceError"
    by (simp add: classifyTry_def c1)
  have s2: "snd (sendCreation classifiedWorld) = Inr (Inr (7, ''0xcreate''))"
    by (simp add: classifiedWorld_def confirmsAll_sent)
  have k2: "geminiKey (createEnv classifiedWorld) \<noteq> []"
    by (simp add: classifiedWorld_def createWorld_def)
  have t2: "snd (classifyTry classifiedWorld 7 []) = Inr (?spec, [(7, ?spec)])"
    by (simp add: classifyTry_def classifiedWorld_def createWorld_def contiguousReply_def
          writeSpec_def Let_def)
  from classifier_error_degrades [OF s1, of "[]"] k1 t1
  have 1: "fst (createMarket classifierDownWorld []) = Created 7 ''0xcreate'' (JStr ''CONTIGUOUS'')
           \<and> snd (snd (createMarket classifierDownWorld [])) = []"
    by blast
  from classifier_error_degrades [OF s2, of "[]"] k2 t2
  have "snd (snd (createMarket classifiedWorld [])) = [(7, ?spec)]
        \<and> storedSpec [(7, ?spec)] 7 = Some ?spec"
    by blast
  then have 2: "storedSpec (snd (snd (createMarket classifiedWorld []))) 7 = Some ?spec" by simp
  have "newMarketLoop noClassifierWorld 40 0 = ([NewMarketTx 40], Inr (Some ''0xcreate''))"
    by (simp add: newMarketLoop_first noClassifierWorld_def createWorld_def confirmsAll_def)
  then have s3: "snd (sendCreation noClassifierWorld) = Inr (Inr (7, ''0xcreate''))"
    by (simp add: sendCreation_def) (simp add: noClassifierWorld_def createWorld_def)
  have k3: "geminiKey (createEnv noClassifierWorld) = []"
    by (simp add: noClassifierWorld_def)
  from classifier_error_degrades [OF s3, of "[]"] k3
  have 3: "fst (createMarket noClassifierWorld []) = Created 7 ''0xcreate'' (JStr ''UNKNOWN'')
           \<and> snd (snd (createMarket noClassifierWorld [])) = []"
    by blast
  from s1 k1 c1 t1 1 s2 k2 t2 2 s3 k3 3 show ?thesis by simp
qed


section \<open>Verification: the admin route\<close>

lemma adminValidate_outcome:
  assumes "adminValidate w = Inr (Inr chosen)"
  shows "chosen = JStr ''YES'' \<or> chosen = JStr ''NO''"
  using assms
  by (auto simp: adminValidate_def split: sum.splits if_splits)

lemma adminValidate_rejects:
  assumes "adminBody w = Inr body"
    and "optProp body ''outcome'' \<noteq> JStr ''YES''" and "optProp body ''outcome'' \<noteq> JStr ''NO''"
  shows "adminValidate w = Inl TypeError \<and> (body = JNull \<or> body = JUndefined)
       \<or> adminValidate w = Inr (Inl (AdminError 401 ''Invalid admin password''))
          \<and> getProp body ''adminPassword'' \<noteq> Inr (JStr ADMIN_PASSWORD)
       \<or> adminValidate w = Inr (Inl (AdminError 400 ''Missing required fields: marketId, outcome, source''))
          \<and> getProp body ''adminPassword'' = Inr (JStr ADMIN_PASSWORD)
       \<or> adminValidate w = Inr (Inl (AdminError 400 ''Outcome must be YES or NO''))
          \<and> getProp body ''adminPassword'' = Inr (JStr ADMIN_PASSWORD)"
proof (cases "getProp body ''adminPassword''")
  case (Inl e)
  then have "body = JNull \<or> body = JUndefined" by (rule getProp_throws)
  then have "getProp body ''adminPassword'' = Inl TypeError" by (rule getProp_nullish)
  with assms(1) \<open>body = JNull \<or> body = JUndefined\<close> show ?thesis
    by (simp add: adminValidate_def)
next
  case (Inr pw)
  with assms show ?thesis by (simp add: adminValidate_def)
qed

lemma adminLedger_codes:
  assumes "chosen = JStr ''YES'' \<or> chosen = JStr ''NO''"
    and "e \<in> set (fst (adminLedger w chosen))"
  shows "e = GetMarketCall \<or> e = AdminRequestSettlementTx
       \<or> e = SettleManuallyTx (if chosen = JStr ''YES'' then 2 else 1)
       \<or> e = SubmitReportTx (if chosen = JStr ''YES'' then 2 else 1) 10000"
  using assms(2)
  by (auto simp: adminLedger_def Let_def split: sum.splits if_splits)

lemma adminAudit_events:
  "e \<in> set (fst (adminAudit w))
     \<Longrightarrow> (\<exists>d. e = UpdateSettlement d \<or> e = CreateSettlement d \<or> e = UpdateDemo d \<or> e = CreateDemo d)"
  by (auto simp: adminAudit_def Let_def split: sum.splits option.splits)

lemma adminSettle_events:
  assumes "adminValidate w = Inr (Inr chosen)"
  shows "set (snd (adminSettle w)) \<subseteq> set (fst (adminLedger w chosen)) \<union> set (fst (adminAudit w))"
  using assms
  by (cases "adminLedger w chosen"; cases "adminAudit w")
     (auto simp: adminSettle_def split: sum.splits)

lemma adminSettle_stopped:
  assumes "\<forall>chosen. adminValidate w \<noteq> Inr (Inr chosen)"
  shows "snd (adminSettle w) = []"
    and "fst (adminSettle w) =
           (case adminValidate w of Inl e \<Rightarrow> AdminThrown e | Inr x \<Rightarrow> (case x of Inl early \<Rightarrow> early | Inr c \<Rightarrow> AdminThrown TypeError))"
  using assms by (auto simp: adminSettle_def split: sum.splits)

lemma adminSettle_settled:
  assumes "fst (adminSettle w) = AdminSettled hash rid chosen"
  shows "adminValidate w = Inr (Inr chosen)"
proof (cases "adminValidate w")
  case (Inl e)
  with assms show ?thesis by (simp add: adminSettle_def)
next
  case (Inr x)
  show ?thesis
  proof (cases x)
    case (Inl early)
    with Inr assms have "early = AdminSettled hash rid chosen" by (simp add: adminSettle_def)
    with Inr Inl show ?thesis
      by (auto simp: adminValidate_def split: sum.splits if_splits)
  next
    case inner: (Inr c)
    have "\<And>evs early. adminLedger w c = (evs, Inr (Inl early)) \<Longrightarrow> early \<noteq> AdminSettled hash rid chosen"
      by (auto simp: adminLedger_def Let_def split: sum.splits if_splits)
    with Inr inner assms show ?thesis
      by (cases "adminLedger w c"; cases "adminAudit w")
         (auto simp: adminSettle_def split: sum.splits)
  qed
qed

text \<open>
  Claim C10, as stated, fails on the status of the rejection: a request whose outcome is
  INCONCLUSIVE and whose password is wrong is rejected with 401, not 400, since the
  password is checked first.
\<close>

theorem admin_rejects_unauthorized_with_401:
  "optProp (JObj [(''marketId'', JNum 7), (''outcome'', JStr ''INCONCLUSIVE''),
                  (''source'', JStr ''official result''), (''comments'', JStr []),
                  (''adminPassword'', JStr ''guess'')]) ''outcome'' = JStr ''INCONCLUSIVE''
   \<and> adminBody (adminWorld ''guess'' ''INCONCLUSIVE'') =
       Inr (JObj [(''marketId'', JNum 7), (''outcome'', JStr ''INCONCLUSIVE''),
                  (''source'', JStr ''official result''), (''comments'', JStr []),
                  (''adminPassword'', JStr ''guess'')])
   \<and> adminSettle (adminWorld ''guess'' ''INCONCLUSIVE'') = (AdminError 401 ''Invalid admin password'', [])"
  by (simp add: adminSettle_def adminValidate_def adminWorld_def optProp_def ADMIN_PASSWORD_def)

text \<open>
  Claim C10, amended. A request that carries another password than the admin password is
  rejected with 401, whatever its outcome is, YES and NO included, and causes no ledger
  call and no audit write. A request whose outcome is neither YES nor NO causes no ledger
  call and no audit write either; it is rejected with 400 when it carries the admin
  password. Every manual-settle and every report transaction of the admin route carries
  the code 1 (No) or 2 (Yes), reports carry the confidence 10000, and a request that
  answers success carried the admin password and was made with YES or NO: the admin path
  never settles a market as Inconclusive.
\<close>

theorem admin_accepts_only_yes_and_no:
  "(\<forall>body pw. adminBody w = Inr body
         \<and> getProp body ''adminPassword'' = Inr pw \<and> pw \<noteq> JStr ADMIN_PASSWORD
       \<longrightarrow> adminSettle w = (AdminError 401 ''Invalid admin password'', []))
   \<and> (\<forall>body. adminBody w = Inr body
         \<and> optProp body ''outcome'' \<noteq> JStr ''YES'' \<and> optProp body ''outcome'' \<noteq> JStr ''NO''
       \<longrightarrow> snd (adminSettle w) = []
           \<and> (getProp body ''adminPassword'' = Inr (JStr ADMIN_PASSWORD)
                \<longrightarrow> (\<exists>text. fst (adminSettle w) = AdminError 400 text))
           \<and> (\<forall>pw. getProp body ''adminPassword'' = Inr pw \<and> pw \<noteq> JStr ADMIN_PASSWORD
                \<longrightarrow> fst (adminSettle w) = AdminError 401 ''Invalid admin password''))
   \<and> (\<forall>code. SettleManuallyTx code \<in> set (snd (adminSettle w)) \<longrightarrow> code = 1 \<or> code = 2)
   \<and> (\<forall>code conf. SubmitReportTx code conf \<in> set (snd (adminSettle w))
         \<longrightarrow> (code = 1 \<or> code = 2) \<and> conf = 10000)
   \<and> (\<forall>hash rid chosen. fst (adminSettle w) = AdminSettled hash rid chosen
         \<longrightarrow> (chosen = JStr ''YES'' \<or> chosen = JStr ''NO'')
             \<and> (\<exists>body. adminBody w = Inr body \<and> optProp body ''outcome'' = chosen
                    \<and> getProp body ''adminPassword'' = Inr (JStr ADMIN_PASSWORD)))"
proof (intro conjI allI impI)
  fix body pw
  assume "adminBody w = Inr body
         \<and> getProp body ''adminPassword'' = Inr pw \<and> pw \<noteq> JStr ADMIN_PASSWORD"
  then have "adminValidate w = Inr (Inl (AdminError 401 ''Invalid admin password''))"
    by (simp add: adminValidate_def)
  then show "adminSettle w = (AdminError 401 ''Invalid admin password'', [])"
    by (simp add: adminSettle_def)
next
  fix body
  assume a: "adminBody w = Inr body
         \<and> optProp body ''outcome'' \<noteq> JStr ''YES'' \<and> optProp body ''outcome'' \<noteq> JStr ''NO''"
  then have rej: "adminValidate w = Inl TypeError \<and> (body = JNull \<or> body = JUndefined)
       \<or> adminValidate w = Inr (Inl (AdminError 401 ''Invalid admin password''))
          \<and> getProp body ''adminPassword'' \<noteq> Inr (JStr ADMIN_PASSWORD)
       \<or> adminValidate w = Inr (Inl (AdminError 400 ''Missing required fields: marketId, outcome, source''))
          \<and> getProp body ''adminPassword'' = Inr (JStr ADMIN_PASSWORD)
       \<or> adminValidate w = Inr (Inl (AdminError 400 ''Outcome must be YES or NO''))
          \<and> getProp body ''adminPassword'' = Inr (JStr ADMIN_PASSWORD)"
    using adminValidate_rejects by blast
  then have stop: "\<forall>chosen. adminValidate w \<noteq> Inr (Inr chosen)" by auto
  show "snd (adminSettle w) = []" using adminSettle_stopped(1) [OF stop] .
  {
    assume "getProp body ''adminPassword'' = Inr (JStr ADMIN_PASSWORD)"
    with rej adminSettle_stopped(2) [OF stop]
    show "\<exists>text. fst (adminSettle w) = AdminError 400 text" by auto
  }
  {
    fix pw
    assume "getProp body ''adminPassword'' = Inr pw \<and> pw \<noteq> JStr ADMIN_PASSWORD"
    with rej adminSettle_stopped(2) [OF stop]
    show "fst (adminSettle w) = AdminError 401 ''Invalid admin password''" by auto
  }
next
  fix code
  assume ev: "SettleManuallyTx code \<in> set (snd (adminSettle w))"
  show "code = 1 \<or> code = 2"
  proof (cases "\<exists>chosen. adminValidate w = Inr (Inr chosen)")
    case False
    then have "snd (adminSettle w) = []" using adminSettle_stopped(1) by blast
    with ev show ?thesis by simp
  next
    case True
    then obtain chosen where v: "adminValidate w = Inr (Inr chosen)" by blast
    from adminSettle_events [OF v] ev adminAudit_events [of "SettleManuallyTx code" w]
    have "SettleManuallyTx code \<in> set (fst (adminLedger w chosen))" by auto
    from adminLedger_codes [OF adminValidate_outcome [OF v] this] show ?thesis
      by (auto split: if_splits)
  qed
next
  fix code conf
  assume ev: "SubmitReportTx code conf \<in> set (snd (adminSettle w))"
  have "(code = 1 \<or> code = 2) \<and> conf = 10000"
  proof (cases "\<exists>chosen. adminValidate w = Inr (Inr chosen)")
    case False
    then have "snd (adminSettle w) = []" using adminSettle_stopped(1) by blast
    with ev show ?thesis by simp
  next
    case True
    then obtain chosen where v: "adminValidate w = Inr (Inr chosen)" by blast
    from adminSettle_events [OF v] ev adminAudit_events [of "SubmitReportTx code conf" w]
    have "SubmitReportTx code conf \<in> set (fst (adminLedger w chosen))" by auto
    from adminLedger_codes [OF adminValidate_outcome [OF v] this] show ?thesis
      by (auto split: if_splits)
  qed
  then show "code = 1 \<or> code = 2" and "conf = 10000" by blast+
next
  fix hash rid chosen
  assume "fst (adminSettle w) = AdminSettled hash rid chosen"
  then have v: "adminValidate w = Inr (Inr chosen)" by (rule adminSettle_settled)
  then show "chosen = JStr ''YES'' \<or> chosen = JStr ''NO''" by (rule adminValidate_outcome)
  from v show "\<exists>body. adminBody w = Inr body \<and> optProp body ''outcome'' = chosen
                    \<and> getProp body ''adminPassword'' = Inr (JStr ADMIN_PASSWORD)"
    by (auto simp: adminValidate_def split: sum.splits if_splits)
qed

lemma adminWorld_yes_run:
  "adminSettle (adminWorld ''admin'' ''YES'') =
     (AdminSettled ''0xmanual'' ''admin-1'' (JStr ''YES''),
      [GetMarketCall, SettleManuallyTx 2, CreateSettlement ''admin-1'', CreateDemo ''admin-1''])"
  by (simp add: adminSettle_def adminValidate_def adminLedger_def adminAudit_def adminWorld_def
        optProp_def ADMIN_PASSWORD_def Let_def)

theorem admin_accepts_only_yes_and_no_witness:
  "adminBody (adminWorld ''admin'' ''INCONCLUSIVE'') =
       Inr (JObj [(''marketId'', JNum 7), (''outcome'', JStr ''INCONCLUSIVE''),
                  (''source'', JStr ''official result''), (''comments'', JStr []),
                  (''adminPassword'', JStr ''admin'')])
   \<and> snd (adminSettle (adminWorld ''admin'' ''INCONCLUSIVE'')) = []
   \<and> fst (adminSettle (adminWorld ''admin'' ''INCONCLUSIVE'')) = AdminError 400 ''Outcome must be YES or NO''
   \<and> fst (adminSettle (adminWorld ''guess'' ''INCONCLUSIVE'')) = AdminError 401 ''Invalid admin password''
   \<and> adminBody (adminWorld ''guess'' ''YES'') =
       Inr (JObj [(''marketId'', JNum 7), (''outcome'', JStr ''YES''),
                  (''source'', JStr ''official result''), (''comments'', JStr []),
                  (''adminPassword'', JStr ''guess'')])
   \<and> adminSettle (adminWorld ''guess'' ''YES'') = (AdminError 401 ''Invalid admin password'', [])
   \<and> SettleManuallyTx 2 \<in> set (snd (adminSettle (adminWorld ''admin'' ''YES'')))
   \<and> fst (adminSettle (adminWorld ''admin'' ''YES'')) = AdminSettled ''0xmanual'' ''admin-1'' (JStr ''YES'')"
proof -
  let ?body = "\<lambda>pw. JObj [(''marketId'', JNum 7), (''outcome'', JStr ''INCONCLUSIVE''),
                  (''source'', JStr ''official result''), (''comments'', JStr []),
                  (''adminPassword'', JStr pw)]"
  have b: "adminBody (adminWorld ''admin'' ''INCONCLUSIVE'') = Inr (?body ''admin'')"
    "adminBody (adminWorld ''guess'' ''INCONCLUSIVE'') = Inr (?body ''guess'')"
    by (simp_all add: adminWorld_def)
  have o: "optProp (?body ''admin'') ''outcome'' \<noteq> JStr ''YES''"
    "optProp (?body ''admin'') ''outcome'' \<noteq> JStr ''NO''"
    "optProp (?body ''guess'') ''outcome'' \<noteq> JStr ''YES''"
    "optProp (?body ''guess'') ''outcome'' \<noteq> JStr ''NO''"
    by (simp_all add: optProp_def)
  have p: "getProp (?body ''admin'') ''adminPassword'' = Inr (JStr ADMIN_PASSWORD)"
    "getProp (?body ''guess'') ''adminPassword'' = Inr (JStr ''guess'')"
    "JStr ''guess'' \<noteq> JStr ADMIN_PASSWORD"
    by (simp_all add: ADMIN_PASSWORD_def)
  have r: "fst (adminSettle (adminWorld ''admin'' ''INCONCLUSIVE'')) = AdminError 400 ''Outcome must be YES or NO''"
    by (simp add: adminSettle_def adminValidate_def adminWorld_def optProp_def ADMIN_PASSWORD_def)
  from admin_accepts_only_yes_and_no [of "adminWorld ''admin'' ''INCONCLUSIVE''"] b(1) o(1,2)
  have 1: "snd (adminSettle (adminWorld ''admin'' ''INCONCLUSIVE'')) = []" by blast
  from admin_accepts_only_yes_and_no [of "adminWorld ''guess'' ''INCONCLUSIVE''"] b(2) o(3,4) p(2,3)
  have 2: "fst (adminSettle (adminWorld ''guess'' ''INCONCLUSIVE'')) = AdminError 401 ''Invalid admin password''"
    by blast
  have 3: "SettleManuallyTx 2 \<in> set (snd (adminSettle (adminWorld ''admin'' ''YES'')))"
    "fst (adminSettle (adminWorld ''admin'' ''YES'')) = AdminSettled ''0xmanual'' ''admin-1'' (JStr ''YES'')"
    by (simp_all add: adminWorld_yes_run)
  let ?yes = "JObj [(''marketId'', JNum 7), (''outcome'', JStr ''YES''),
                  (''source'', JStr ''official result''), (''comments'', JStr []),
                  (''adminPassword'', JStr ''guess'')]"
  have y: "adminBody (adminWorld ''guess'' ''YES'') = Inr ?yes"
    "getProp ?yes ''adminPassword'' = Inr (JStr ''guess'')"
    by (simp_all add: adminWorld_def)
  from admin_accepts_only_yes_and_no [of "adminWorld ''guess'' ''YES''"] y p(3)
  have 4: "adminSettle (adminWorld ''guess'' ''YES'') = (AdminError 401 ''Invalid admin password'', [])"
    by blast
  from b(1) 1 r 2 3 y(1) 4 show ?thesis by simp
qed


end
